theory Spec2Isabelle
  imports Main "HOL-Library.List_Lexorder"
begin

section \<open>Values, rows and text\<close>

text \<open>
  The screens exchange untyped objects with the hosted backend. A row, a draft of a form
  and the payload of a request are all field lists: the column name and its value, in the
  order in which the object literal of the script writes them. Timestamps are instants on
  one clock (\<open>VInt\<close>); an embedded resource of a select is a list of rows (\<open>VRows\<close>).
\<close>

datatype val = VNull | VBool bool | VInt int | VStr string | VRows "(string \<times> val) list list"

type_synonym row = "(string \<times> val) list"

text \<open>Reading a text property: a missing or non-text property reads as the empty
  string, which the scripts treat like \<open>undefined\<close> (both are falsy). The properties read
  this way (a name, a label, a hex code, a search text) are texts or null in the forms and
  in the tables.\<close>

definition text_of :: "row \<Rightarrow> string \<Rightarrow> string" where
  "text_of r c = (case map_of r c of Some (VStr s) \<Rightarrow> s | _ \<Rightarrow> [])"

definition val_of :: "row \<Rightarrow> string \<Rightarrow> val" where
  "val_of r c = (case map_of r c of Some v \<Rightarrow> v | None \<Rightarrow> VNull)"

text \<open>\<open>String.prototype.trim\<close> on the ASCII white space and line terminators (a
  \<open>char\<close> is a byte, so the white space of Unicode outside ASCII is not represented).\<close>

definition is_space :: "char \<Rightarrow> bool" where
  "is_space c = (c \<in> set [CHR 0x09, CHR 0x0A, CHR 0x0B, CHR 0x0C, CHR 0x0D, CHR '' ''])"

definition trim :: "string \<Rightarrow> string" where
  "trim s = rev (dropWhile is_space (rev (dropWhile is_space s)))"

text \<open>\<open>validateHexCode\<close> of the colors screen tests the regular expression
  \<^verbatim>\<open>/^#([A-Fa-f0-9]{6}|[A-Fa-f0-9]{3})$/\<close>: a hash sign, then six or three characters of
  the class, then the end of the input.\<close>

definition is_hex_digit :: "char \<Rightarrow> bool" where
  "is_hex_digit c = (c \<in> set ''ABCDEFabcdef0123456789'')"

definition validateHexCode :: "string \<Rightarrow> bool" where
  "validateHexCode hex =
     (case hex of
        [] \<Rightarrow> False
      | c # ds \<Rightarrow> c = CHR ''#'' \<and> list_all is_hex_digit ds \<and> (length ds = 6 \<or> length ds = 3))"

section \<open>The backend client\<close>

text \<open>
  The hosted service is outside the repository. The model below is the part of its row
  interface the scripts call: a query is built by chained calls, sent, and answered by an
  object \<open>{data, error, count}\<close>.
\<close>

datatype pg_filter =
    Eq string val
  | Neq string val
  | Ilike string string
  | OrIlike "(string \<times> string) list"

datatype embed =
    EmbedOne string string string string
  | EmbedInner string string string

record query =
  q_table :: string
  q_cols :: "string list"
  q_embed :: "embed list"
  q_count :: bool
  q_head :: bool
  q_filters :: "pg_filter list"
  q_order :: "(string \<times> bool) list"
  q_range :: "(int \<times> int) option"

datatype pg_error = PgError (code: string) (msg: string) (instance_of_Error: bool)

record 'a response =
  data :: "'a option"
  err :: "pg_error option"
  count :: "nat option"

datatype request =
    ReqSelect query
  | ReqSingle query
  | ReqInsert string row
  | ReqUpdate string row "pg_filter list"
  | ReqDelete string "pg_filter list"
  | ReqInvite string
  | ReqUpload string string

datatype toast_type = Success | Error | Info | Warning

record toast =
  toast_id :: nat
  toast_type :: toast_type
  message :: string

text \<open>
  The world a script runs in: the stored tables, whether the service answers
  (\<open>online\<close>), the sort position of a value in a column (\<open>col_rank\<close>) and the pattern
  match of \<open>ILIKE\<close> (\<open>like\<close>), both decided by the database, the clock, the counter the
  service draws identifiers from, the requests sent so far (oldest first), and the toast
  store of \<^verbatim>\<open>toast.ts\<close> with its counter.
\<close>

record world =
  tables :: "string \<Rightarrow> row list"
  online :: bool
  col_rank :: "string \<Rightarrow> val \<Rightarrow> int"
  like :: "string \<Rightarrow> string \<Rightarrow> bool"
  clock :: int
  fresh :: nat
  requests :: "request list"
  toasts :: "toast list"
  toast_seq :: nat

subsection \<open>Building a query\<close>

definition sb_from :: "string \<Rightarrow> query" where
  "sb_from t = \<lparr>q_table = t, q_cols = [], q_embed = [], q_count = False, q_head = False,
                q_filters = [], q_order = [], q_range = None\<rparr>"

definition sb_select :: "string list \<Rightarrow> query \<Rightarrow> query" where
  "sb_select cols q = q\<lparr>q_cols := cols\<rparr>"

definition sb_select_count :: "string list \<Rightarrow> query \<Rightarrow> query" where
  "sb_select_count cols q = q\<lparr>q_cols := cols, q_count := True\<rparr>"

definition sb_select_head :: "string list \<Rightarrow> query \<Rightarrow> query" where
  "sb_select_head cols q = q\<lparr>q_cols := cols, q_count := True, q_head := True\<rparr>"

definition sb_embed :: "embed \<Rightarrow> query \<Rightarrow> query" where
  "sb_embed e q = q\<lparr>q_embed := q_embed q @ [e]\<rparr>"

definition sb_eq :: "string \<Rightarrow> val \<Rightarrow> query \<Rightarrow> query" where
  "sb_eq c v q = q\<lparr>q_filters := q_filters q @ [Eq c v]\<rparr>"

definition sb_neq :: "string \<Rightarrow> val \<Rightarrow> query \<Rightarrow> query" where
  "sb_neq c v q = q\<lparr>q_filters := q_filters q @ [Neq c v]\<rparr>"

definition sb_ilike :: "string \<Rightarrow> string \<Rightarrow> query \<Rightarrow> query" where
  "sb_ilike c p q = q\<lparr>q_filters := q_filters q @ [Ilike c p]\<rparr>"

definition sb_or_ilike :: "(string \<times> string) list \<Rightarrow> query \<Rightarrow> query" where
  "sb_or_ilike cps q = q\<lparr>q_filters := q_filters q @ [OrIlike cps]\<rparr>"

definition sb_order :: "string \<Rightarrow> bool \<Rightarrow> query \<Rightarrow> query" where
  "sb_order c ascending q = q\<lparr>q_order := q_order q @ [(c, ascending)]\<rparr>"

definition sb_range :: "int \<Rightarrow> int \<Rightarrow> query \<Rightarrow> query" where
  "sb_range lo hi q = q\<lparr>q_range := Some (lo, hi)\<rparr>"

text \<open>A chain of calls, read in the order of the script:
  \<open>chain t [f, g]\<close> is \<^verbatim>\<open>supabase.from(t).f().g()\<close>.\<close>

definition chain :: "string \<Rightarrow> (query \<Rightarrow> query) list \<Rightarrow> query" where
  "chain t calls = foldl (\<lambda>q f. f q) (sb_from t) calls"

subsection \<open>Answering a select\<close>

fun matches :: "(string \<Rightarrow> string \<Rightarrow> bool) \<Rightarrow> row \<Rightarrow> pg_filter \<Rightarrow> bool" where
  "matches lk r (Eq c v) = (map_of r c = Some v)"
| "matches lk r (Neq c v) =
     (case map_of r c of None \<Rightarrow> False | Some VNull \<Rightarrow> False | Some u \<Rightarrow> u \<noteq> v)"
| "matches lk r (Ilike c p) = (case map_of r c of Some (VStr s) \<Rightarrow> lk p s | _ \<Rightarrow> False)"
| "matches lk r (OrIlike cps) =
     list_ex (\<lambda>(c, p). case map_of r c of Some (VStr s) \<Rightarrow> lk p s | _ \<Rightarrow> False) cps"

definition project :: "string list \<Rightarrow> row \<Rightarrow> row" where
  "project cols r = (if cols = [] then r else filter (\<lambda>(k, v). k \<in> set cols) r)"

text \<open>
  An embedded resource is appended to the row under its alias. \<open>EmbedOne a t fk c\<close> is
  \<^verbatim>\<open>a:t(c)\<close>, the row of \<open>t\<close> that column \<open>fk\<close> refers to (null when there is none);
  \<open>EmbedInner t fk c\<close> is \<^verbatim>\<open>t!inner(c)\<close>, the rows of \<open>t\<close> whose column \<open>fk\<close> refers to
  this row, and a row without any is left out of the answer.
\<close>

fun embed_one :: "(string \<Rightarrow> row list) \<Rightarrow> embed \<Rightarrow> row \<Rightarrow> row option" where
  "embed_one tabs (EmbedOne a t fk c) r =
     (case filter (\<lambda>p. map_of p ''id'' = Some (val_of r fk)) (tabs t) of
        [] \<Rightarrow> Some (r @ [(a, VNull)])
      | p # ps \<Rightarrow> Some (r @ [(a, VRows [project [c] p])]))"
| "embed_one tabs (EmbedInner t fk c) r =
     (case filter (\<lambda>p. map_of p fk = Some (val_of r ''id'')) (tabs t) of
        [] \<Rightarrow> None
      | p # ps \<Rightarrow> Some (r @ [(t, VRows (map (project [c]) (p # ps)))]))"

fun embed_all :: "(string \<Rightarrow> row list) \<Rightarrow> embed list \<Rightarrow> row \<Rightarrow> row option" where
  "embed_all tabs [] r = Some r"
| "embed_all tabs (e # es) r =
     (case embed_one tabs e r of None \<Rightarrow> None | Some r' \<Rightarrow> embed_all tabs es r')"

definition order_key :: "(string \<Rightarrow> val \<Rightarrow> int) \<Rightarrow> (string \<times> bool) list \<Rightarrow> row \<Rightarrow> int list" where
  "order_key rk os r =
     map (\<lambda>(c, ascending). if ascending then rk c (val_of r c) else - rk c (val_of r c)) os"

definition select_rows :: "world \<Rightarrow> query \<Rightarrow> row list" where
  "select_rows w q =
     List.map_filter (embed_all (tables w) (q_embed q))
       (sort_key (order_key (col_rank w) (q_order q))
          (filter (\<lambda>r. list_all (matches (like w) r) (q_filters q)) (tables w (q_table q))))"

definition network_error :: pg_error where
  "network_error = PgError [] ''TypeError: Failed to fetch'' False"

definition offset_error :: pg_error where
  "offset_error = PgError ''2201X'' ''OFFSET must not be negative'' False"

definition page_of :: "(int \<times> int) option \<Rightarrow> 'a list \<Rightarrow> 'a list" where
  "page_of rg xs =
     (case rg of None \<Rightarrow> xs | Some (lo, hi) \<Rightarrow> take (nat (hi - lo + 1)) (drop (nat lo) xs))"

text \<open>
  A select is logged and answered: no answer when the service is unreachable, an error for
  a negative offset, and otherwise the rows of the requested range (none under \<open>head\<close>)
  with the exact count of all matching rows when it was asked for.
\<close>

definition run_select :: "query \<Rightarrow> world \<Rightarrow> (row list) response \<times> world" where
  "run_select q w =
     (let w' = w\<lparr>requests := requests w @ [ReqSelect q]\<rparr>;
          rows = select_rows w q
      in if \<not> online w then (\<lparr>data = None, err = Some network_error, count = None\<rparr>, w')
         else if (case q_range q of Some (lo, hi) \<Rightarrow> lo < 0 | None \<Rightarrow> False)
           then (\<lparr>data = None, err = Some offset_error, count = None\<rparr>, w')
         else (\<lparr>data = (if q_head q then None
                         else Some (map (project (q_cols q)) (page_of (q_range q) rows))),
                 err = None,
                 count = (if q_count q then Some (length rows) else None)\<rparr>, w'))"

text \<open>
  \<^verbatim>\<open>.single()\<close> asks for exactly one row. The service answers a result of no row or of
  several rows with the error code \<open>PGRST116\<close> and no data.
\<close>

definition not_single :: pg_error where
  "not_single = PgError ''PGRST116'' ''JSON object requested, multiple (or no) rows returned'' False"

definition run_single :: "query \<Rightarrow> world \<Rightarrow> row response \<times> world" where
  "run_single q w =
     (let w' = w\<lparr>requests := requests w @ [ReqSingle q]\<rparr>
      in if \<not> online w then (\<lparr>data = None, err = Some network_error, count = None\<rparr>, w')
         else (case select_rows w q of
                 [r] \<Rightarrow> (\<lparr>data = Some (project (q_cols q) r), err = None, count = None\<rparr>, w')
               | _ \<Rightarrow> (\<lparr>data = None, err = Some not_single, count = None\<rparr>, w')))"

subsection \<open>Writing rows\<close>

text \<open>
  The unique constraints and column defaults the migrations declare:
  \<open>colors_name_category_key\<close> and \<open>sizes_label_category_key\<close>, and the columns the two
  migrations add. Every table fills \<open>id\<close>, \<open>created_at\<close>, \<open>updated_at\<close> and
  \<open>is_deleted\<close> when an insert leaves them out.
\<close>

definition unique_keys :: "string \<Rightarrow> string list list" where
  "unique_keys t =
     (if t = ''colors'' then [[''name'', ''category'']]
      else if t = ''sizes'' then [[''label'', ''category'']]
      else [])"

definition column_defaults :: "string \<Rightarrow> row" where
  "column_defaults t =
     (if t = ''colors'' then
        [(''category'', VStr ''primary''), (''display_order'', VInt 0),
         (''description'', VNull), (''is_active'', VBool True)]
      else if t = ''sizes'' then
        [(''size_type'', VStr ''alpha''), (''category'', VStr ''unisex''),
         (''numeric_value'', VNull), (''display_order'', VInt 0),
         (''description'', VNull), (''is_active'', VBool True)]
      else [])"

definition new_id :: "nat \<Rightarrow> string" where
  "new_id n = CHR ''r'' # replicate n (CHR ''i'')"

definition with_defaults :: "world \<Rightarrow> string \<Rightarrow> row \<Rightarrow> row" where
  "with_defaults w t payload =
     payload @
     filter (\<lambda>(k, v). map_of payload k = None)
       ([(''id'', VStr (new_id (fresh w))), (''created_at'', VInt (clock w)),
         (''updated_at'', VInt (clock w)), (''is_deleted'', VBool False)] @ column_defaults t)"

definition is_set :: "val option \<Rightarrow> bool" where
  "is_set v = (v \<noteq> None \<and> v \<noteq> Some VNull)"

definition unique_ok :: "string \<Rightarrow> row list \<Rightarrow> bool" where
  "unique_ok t rows =
     list_all
       (\<lambda>cols. distinct (filter (list_all is_set) (map (\<lambda>r. map (map_of r) cols) rows)))
       (unique_keys t)"

definition unique_violation :: pg_error where
  "unique_violation =
     PgError ''23505'' ''duplicate key value violates unique constraint'' False"

definition run_insert :: "string \<Rightarrow> row \<Rightarrow> world \<Rightarrow> pg_error option \<times> world" where
  "run_insert t payload w =
     (let w' = w\<lparr>requests := requests w @ [ReqInsert t payload]\<rparr>;
          rows = tables w t @ [with_defaults w t payload]
      in if \<not> online w then (Some network_error, w')
         else if \<not> unique_ok t rows then (Some unique_violation, w')
         else (None, w'\<lparr>tables := (tables w)(t := rows), fresh := Suc (fresh w)\<rparr>))"

text \<open>An update overwrites the columns of the payload in every row the filters select
  and leaves every other column and every other row as it was.\<close>

definition apply_patch :: "row \<Rightarrow> row \<Rightarrow> row" where
  "apply_patch patch r =
     map (\<lambda>(k, v). (k, case map_of patch k of Some v' \<Rightarrow> v' | None \<Rightarrow> v)) r @
     filter (\<lambda>(k, v). map_of r k = None) patch"

definition run_update :: "string \<Rightarrow> row \<Rightarrow> pg_filter list \<Rightarrow> world \<Rightarrow> pg_error option \<times> world" where
  "run_update t patch fs w =
     (let w' = w\<lparr>requests := requests w @ [ReqUpdate t patch fs]\<rparr>;
          rows = map (\<lambda>r. if list_all (matches (like w) r) fs then apply_patch patch r else r)
                   (tables w t)
      in if \<not> online w then (Some network_error, w')
         else if \<not> unique_ok t rows then (Some unique_violation, w')
         else (None, w'\<lparr>tables := (tables w)(t := rows)\<rparr>))"

text \<open>
  The invitation endpoint \<^verbatim>\<open>/api/invite-seller\<close> asks the authentication service to invite the
  address and answers \<open>{success, data}\<close> with the new user, or \<open>{success: false, error}\<close>
  with a message. The object storage takes a file under a path in a bucket.
\<close>

definition run_invite :: "string \<Rightarrow> world \<Rightarrow> (string + string) \<times> world" where
  "run_invite email w =
     (let w' = w\<lparr>requests := requests w @ [ReqInvite email]\<rparr>
      in if \<not> online w then (Inl (msg network_error), w')
         else (Inr (new_id (fresh w)), w'\<lparr>fresh := Suc (fresh w)\<rparr>))"

definition run_upload :: "string \<Rightarrow> string \<Rightarrow> world \<Rightarrow> pg_error option \<times> world" where
  "run_upload bucket path w =
     (let w' = w\<lparr>requests := requests w @ [ReqUpload bucket path]\<rparr>
      in if \<not> online w then (Some network_error, w') else (None, w'))"

definition getPublicUrl :: "string \<Rightarrow> string \<Rightarrow> string" where
  "getPublicUrl bucket path = ''/storage/v1/object/public/'' @ bucket @ ''/'' @ path"

subsection \<open>The toast store\<close>

text \<open>\<^verbatim>\<open>toast.ts\<close>: \<open>add\<close> numbers the toast and appends it; the timer it starts
  removes that toast again (\<open>toast_expire\<close> is the timer's callback).\<close>

definition toast_add :: "toast_type \<Rightarrow> string \<Rightarrow> world \<Rightarrow> world" where
  "toast_add ty m w =
     w\<lparr>toasts := toasts w @ [\<lparr>toast_id = toast_seq w, toast_type = ty, message = m\<rparr>],
       toast_seq := Suc (toast_seq w)\<rparr>"

definition toast_expire :: "nat \<Rightarrow> world \<Rightarrow> world" where
  "toast_expire i w = w\<lparr>toasts := filter (\<lambda>t. toast_id t \<noteq> i) (toasts w)\<rparr>"

definition toast_success :: "string \<Rightarrow> world \<Rightarrow> world" where
  "toast_success m w = toast_add Success m w"

definition toast_error :: "string \<Rightarrow> world \<Rightarrow> world" where
  "toast_error m w = toast_add Error m w"

text \<open>The text a \<open>catch\<close> block of an add handler shows for a thrown value:
  \<^verbatim>\<open>error instanceof Error ? error.message : 'Unknown error occurred'\<close>.\<close>

definition thrown_message :: "pg_error \<Rightarrow> string" where
  "thrown_message e = (if instance_of_Error e then msg e else ''Unknown error occurred'')"

text \<open>
  \<^verbatim>\<open>x.trim()\<close> without optional chaining, as the brands screen calls it on the
  description and the logo address: a text is trimmed, and on every other value, also a
  missing one, the call throws a \<open>TypeError\<close> (\<open>None\<close>). The message of that error is the
  script engine's; \<open>trim_error_message\<close> is the wording of V8 for the expression \<open>e\<close>.
\<close>

definition trimmed :: "row \<Rightarrow> string \<Rightarrow> string option" where
  "trimmed r c = (case map_of r c of Some (VStr s) \<Rightarrow> Some (trim s) | _ \<Rightarrow> None)"

definition trim_error_message :: "string \<Rightarrow> val option \<Rightarrow> string" where
  "trim_error_message e v =
     (case v of
        None \<Rightarrow>
          ''Cannot read properties of undefined (reading '' @ [CHR 0x27] @ ''trim'' @
          [CHR 0x27] @ '')''
      | Some VNull \<Rightarrow>
          ''Cannot read properties of null (reading '' @ [CHR 0x27] @ ''trim'' @ [CHR 0x27] @ '')''
      | Some u \<Rightarrow> e @ ''.trim is not a function'')"

section \<open>The list screens\<close>

text \<open>
  The brands, categories, subcategories, audiences, colors and sizes screens declare the
  same variables under the entity's name. One record holds them: \<open>items\<close> is the list
  (\<open>colors\<close>, \<open>brands\<close>, ...), \<open>selected\<close> the row being edited (\<open>selectedColor\<close>, ...),
  \<open>draft\<close> the form of the add dialog (\<open>newColor\<close>, ...). The three variables the sellers
  screen shares with them come first. A handler takes the world and the screen and returns
  both; an awaited request is answered before the handler goes on, and a handler runs to
  its end before the next one starts. The scripts compute page numbers and offsets in
  double precision; the model computes them in the integers, which is the same as long as
  the offsets stay below \<open>2 ^ 53\<close>.
\<close>

record paging =
  error :: "string option"
  currentPage :: int
  totalPages :: int

record crud_screen = paging +
  items :: "row list"
  loading :: bool
  showAddModal :: bool
  showEditModal :: bool
  selected :: "row option"
  draft :: row
  searchQuery :: string

definition itemsPerPage :: int where
  "itemsPerPage = 10"

text \<open>\<^verbatim>\<open>Math.ceil((count || 0) / itemsPerPage)\<close>, on the whole numbers a count can be.\<close>

definition page_count :: "nat option \<Rightarrow> int" where
  "page_count c = (int (case c of None \<Rightarrow> 0 | Some n \<Rightarrow> n) + itemsPerPage - 1) div itemsPerPage"

text \<open>\<^verbatim>\<open>checkError && checkError.code !== 'PGRST116'\<close>: the error a pre-check throws.\<close>

definition check_thrown :: "'a response \<Rightarrow> pg_error option" where
  "check_thrown r =
     (case err r of None \<Rightarrow> None | Some e \<Rightarrow> if code e \<noteq> ''PGRST116'' then Some e else None)"

text \<open>The variables as the script declares them, before \<open>onMount\<close> runs the first load.\<close>

definition init_screen :: "row \<Rightarrow> crud_screen" where
  "init_screen d =
     \<lparr>error = None, currentPage = 1, totalPages = 1, items = [], loading = True,
      showAddModal = False, showEditModal = False, selected = None, draft = d,
      searchQuery = []\<rparr>"

subsection \<open>Brands (\<^verbatim>\<open>admin/brands\<close>)\<close>

definition empty_brand :: row where
  "empty_brand = [(''name'', VStr []), (''description'', VStr []), (''logo_url'', VStr [])]"

definition fetchBrands_query :: "crud_screen \<Rightarrow> query" where
  "fetchBrands_query s =
     chain ''brands''
       [sb_select_count [],
        sb_eq ''is_deleted'' (VBool False),
        (if searchQuery s \<noteq> [] then sb_ilike ''name'' (''%'' @ searchQuery s @ ''%'') else id),
        sb_range ((currentPage s - 1) * itemsPerPage) (currentPage s * itemsPerPage - 1),
        sb_order ''created_at'' False]"

definition fetchBrands :: "world \<Rightarrow> crud_screen \<Rightarrow> world \<times> crud_screen" where
  "fetchBrands w s =
     (let s1 = s\<lparr>loading := True, error := None\<rparr>;
          (res, w1) = run_select (fetchBrands_query s) w
      in (case err res of
            Some e \<Rightarrow> (w1, s1\<lparr>error := Some ''Failed to load brands'', loading := False\<rparr>)
          | None \<Rightarrow>
              (w1, s1\<lparr>items := (case data res of None \<Rightarrow> [] | Some rows \<Rightarrow> rows),
                       totalPages := page_count (count res), loading := False\<rparr>)))"

definition handlePageChange_brands :: "int \<Rightarrow> world \<Rightarrow> crud_screen \<Rightarrow> world \<times> crud_screen" where
  "handlePageChange_brands page w s = fetchBrands w (s\<lparr>currentPage := page\<rparr>)"

definition handleSearch_brands :: "string \<Rightarrow> world \<Rightarrow> crud_screen \<Rightarrow> world \<times> crud_screen" where
  "handleSearch_brands v w s = fetchBrands w (s\<lparr>searchQuery := v, currentPage := 1\<rparr>)"

definition handleAddBrand :: "world \<Rightarrow> crud_screen \<Rightarrow> world \<times> crud_screen" where
  "handleAddBrand w s =
     (if trim (text_of (draft s) ''name'') = [] then
        (toast_error ''Brand name is required'' w, s)
      else
        (let (existing, w1) =
               run_single
                 (chain ''brands''
                    [sb_select [''id''],
                     sb_eq ''name'' (VStr (trim (text_of (draft s) ''name''))),
                     sb_eq ''is_deleted'' (VBool False)]) w
         in (case check_thrown existing of
               Some e \<Rightarrow> (toast_error (''Failed to add brand: '' @ thrown_message e) w1, s)
             | None \<Rightarrow>
                 if data existing \<noteq> None then
                   (toast_error ''A brand with this name already exists'' w1, s)
                 else
                   (case trimmed (draft s) ''description'' of
                      None \<Rightarrow>
                        (toast_error
                           (''Failed to add brand: '' @
                            trim_error_message ''newBrand.description''
                              (map_of (draft s) ''description'')) w1, s)
                    | Some description \<Rightarrow>
                        (case trimmed (draft s) ''logo_url'' of
                           None \<Rightarrow>
                             (toast_error
                                (''Failed to add brand: '' @
                                 trim_error_message ''newBrand.logo_url''
                                   (map_of (draft s) ''logo_url'')) w1, s)
                         | Some logo_url \<Rightarrow>
                             (let (failed, w2) =
                                    run_insert ''brands''
                                      [(''name'', VStr (trim (text_of (draft s) ''name''))),
                                       (''description'', VStr description),
                                       (''logo_url'', VStr logo_url),
                                       (''is_deleted'', VBool False)] w1
                              in (case failed of
                                    Some e \<Rightarrow>
                                      (toast_error
                                         (''Failed to add brand: '' @ thrown_message e) w2, s)
                                  | None \<Rightarrow>
                                      fetchBrands (toast_success ''Brand added successfully'' w2)
                                        (s\<lparr>showAddModal := False,
                                           draft := empty_brand\<rparr>))))))))"

definition handleEditBrand :: "world \<Rightarrow> crud_screen \<Rightarrow> world \<times> crud_screen" where
  "handleEditBrand w s =
     (case selected s of
        None \<Rightarrow> (w, s)
      | Some sel \<Rightarrow>
          if trim (text_of sel ''name'') = [] then
            (toast_error ''Brand name is required'' w, s)
          else
            (let (existing, w1) =
                   run_single
                     (chain ''brands''
                        [sb_select [''id''],
                         sb_eq ''name'' (VStr (trim (text_of sel ''name''))),
                         sb_eq ''is_deleted'' (VBool False),
                         sb_neq ''id'' (val_of sel ''id'')]) w
             in (case check_thrown existing of
                   Some e \<Rightarrow> (toast_error ''Failed to update brand'' w1, s)
                 | None \<Rightarrow>
                     if data existing \<noteq> None then
                       (toast_error ''A brand with this name already exists'' w1, s)
                     else
                       (case trimmed sel ''description'' of
                          None \<Rightarrow> (toast_error ''Failed to update brand'' w1, s)
                        | Some description \<Rightarrow>
                            (case trimmed sel ''logo_url'' of
                               None \<Rightarrow> (toast_error ''Failed to update brand'' w1, s)
                             | Some logo_url \<Rightarrow>
                                 (let (failed, w2) =
                                        run_update ''brands''
                                          [(''name'', VStr (trim (text_of sel ''name''))),
                                           (''description'', VStr description),
                                           (''logo_url'', VStr logo_url),
                                           (''updated_at'', VInt (clock w1))]
                                          [Eq ''id'' (val_of sel ''id'')] w1
                                  in (case failed of
                                        Some e \<Rightarrow> (toast_error ''Failed to update brand'' w2, s)
                                      | None \<Rightarrow>
                                          fetchBrands
                                            (toast_success ''Brand updated successfully'' w2)
                                            (s\<lparr>showEditModal := False,
                                               selected := None\<rparr>))))))))"

definition handleDeleteBrand :: "val \<Rightarrow> bool \<Rightarrow> world \<Rightarrow> crud_screen \<Rightarrow> world \<times> crud_screen" where
  "handleDeleteBrand brandId confirmed w s =
     (if \<not> confirmed then (w, s)
      else
        (let (failed, w1) =
               run_update ''brands'' [(''is_deleted'', VBool True)] [Eq ''id'' brandId] w
         in (case failed of
               Some e \<Rightarrow> (toast_error ''Failed to delete brand'' w1, s)
             | None \<Rightarrow> fetchBrands (toast_success ''Brand deleted successfully'' w1) s)))"

subsection \<open>Categories\<close>

definition empty_category :: row where
  "empty_category = [(''name'', VStr [])]"

definition fetchCategories_query :: "crud_screen \<Rightarrow> query" where
  "fetchCategories_query s =
     chain ''categories''
       [sb_select_count [],
        sb_eq ''is_deleted'' (VBool False),
        (if searchQuery s \<noteq> [] then sb_ilike ''name'' (''%'' @ searchQuery s @ ''%'') else id),
        sb_range ((currentPage s - 1) * itemsPerPage) (currentPage s * itemsPerPage - 1),
        sb_order ''created_at'' False]"

definition fetchCategories :: "world \<Rightarrow> crud_screen \<Rightarrow> world \<times> crud_screen" where
  "fetchCategories w s =
     (let s1 = s\<lparr>loading := True, error := None\<rparr>;
          (res, w1) = run_select (fetchCategories_query s) w
      in (case err res of
            Some e \<Rightarrow> (w1, s1\<lparr>error := Some ''Failed to load categories'', loading := False\<rparr>)
          | None \<Rightarrow>
              (w1, s1\<lparr>items := (case data res of None \<Rightarrow> [] | Some rows \<Rightarrow> rows),
                       totalPages := page_count (count res), loading := False\<rparr>)))"

definition handlePageChange_categories :: "int \<Rightarrow> world \<Rightarrow> crud_screen \<Rightarrow> world \<times> crud_screen" where
  "handlePageChange_categories page w s = fetchCategories w (s\<lparr>currentPage := page\<rparr>)"

definition handleSearch_categories :: "string \<Rightarrow> world \<Rightarrow> crud_screen \<Rightarrow> world \<times> crud_screen" where
  "handleSearch_categories v w s = fetchCategories w (s\<lparr>searchQuery := v, currentPage := 1\<rparr>)"

definition handleAddCategory :: "world \<Rightarrow> crud_screen \<Rightarrow> world \<times> crud_screen" where
  "handleAddCategory w s =
     (if trim (text_of (draft s) ''name'') = [] then
        (toast_error ''Category name is required'' w, s)
      else
        (let (existing, w1) =
               run_single
                 (chain ''categories''
                    [sb_select [''id''],
                     sb_eq ''name'' (VStr (trim (text_of (draft s) ''name''))),
                     sb_eq ''is_deleted'' (VBool False)]) w
         in (case check_thrown existing of
               Some e \<Rightarrow> (toast_error (''Failed to add category: '' @ thrown_message e) w1, s)
             | None \<Rightarrow>
                 if data existing \<noteq> None then
                   (toast_error ''A category with this name already exists'' w1, s)
                 else
                   (let (failed, w2) =
                          run_insert ''categories''
                            [(''name'', VStr (trim (text_of (draft s) ''name''))),
                             (''is_deleted'', VBool False)] w1
                    in (case failed of
                          Some e \<Rightarrow>
                            (toast_error (''Failed to add category: '' @ thrown_message e) w2, s)
                        | None \<Rightarrow>
                            fetchCategories (toast_success ''Category added successfully'' w2)
                              (s\<lparr>showAddModal := False, draft := empty_category\<rparr>))))))"

definition handleEditCategory :: "world \<Rightarrow> crud_screen \<Rightarrow> world \<times> crud_screen" where
  "handleEditCategory w s =
     (case selected s of
        None \<Rightarrow> (w, s)
      | Some sel \<Rightarrow>
          if trim (text_of sel ''name'') = [] then
            (toast_error ''Category name is required'' w, s)
          else
            (let (existing, w1) =
                   run_single
                     (chain ''categories''
                        [sb_select [''id''],
                         sb_eq ''name'' (VStr (trim (text_of sel ''name''))),
                         sb_eq ''is_deleted'' (VBool False),
                         sb_neq ''id'' (val_of sel ''id'')]) w
             in (case check_thrown existing of
                   Some e \<Rightarrow> (toast_error ''Failed to update category'' w1, s)
                 | None \<Rightarrow>
                     if data existing \<noteq> None then
                       (toast_error ''A category with this name already exists'' w1, s)
                     else
                       (let (failed, w2) =
                              run_update ''categories''
                                [(''name'', VStr (trim (text_of sel ''name''))),
                                 (''updated_at'', VInt (clock w1))]
                                [Eq ''id'' (val_of sel ''id'')] w1
                        in (case failed of
                              Some e \<Rightarrow> (toast_error ''Failed to update category'' w2, s)
                            | None \<Rightarrow>
                                fetchCategories (toast_success ''Category updated successfully'' w2)
                                  (s\<lparr>showEditModal := False, selected := None\<rparr>))))))"

definition handleDeleteCategory :: "val \<Rightarrow> bool \<Rightarrow> world \<Rightarrow> crud_screen \<Rightarrow> world \<times> crud_screen" where
  "handleDeleteCategory categoryId confirmed w s =
     (if \<not> confirmed then (w, s)
      else
        (let (failed, w1) =
               run_update ''categories'' [(''is_deleted'', VBool True)] [Eq ''id'' categoryId] w
         in (case failed of
               Some e \<Rightarrow> (toast_error ''Failed to delete category'' w1, s)
             | None \<Rightarrow> fetchCategories (toast_success ''Category deleted successfully'' w1) s)))"

subsection \<open>Subcategories\<close>

text \<open>The screen also loads the categories of its selection list (\<open>loadCategories\<close>);
  \<open>categories\<close> is that list, beside the variables every list screen has.\<close>

record subcategories_screen = crud_screen +
  categories :: "row list"

definition empty_subcategory :: row where
  "empty_subcategory = [(''name'', VStr []), (''category_id'', VStr [])]"

text \<open>\<^verbatim>\<open>!x\<close> for a value \<open>x\<close>.\<close>

fun falsy :: "val \<Rightarrow> bool" where
  "falsy VNull = True"
| "falsy (VBool b) = (\<not> b)"
| "falsy (VInt i) = (i = 0)"
| "falsy (VStr t) = (t = [])"
| "falsy (VRows rs) = False"

definition loadCategories :: "world \<Rightarrow> subcategories_screen \<Rightarrow> world \<times> subcategories_screen" where
  "loadCategories w s =
     (let (res, w1) =
            run_select
              (chain ''categories''
                 [sb_select [''id'', ''name''],
                  sb_eq ''is_deleted'' (VBool False),
                  sb_order ''name'' True]) w
      in (case err res of
            Some e \<Rightarrow> (toast_error ''Failed to load categories'' w1, s)
          | None \<Rightarrow> (w1, s\<lparr>categories := (case data res of None \<Rightarrow> [] | Some rows \<Rightarrow> rows)\<rparr>)))"

definition loadSubcategories_query :: "subcategories_screen \<Rightarrow> query" where
  "loadSubcategories_query s =
     chain ''subcategories''
       [sb_select_count [],
        sb_embed (EmbedOne ''category'' ''categories'' ''category_id'' ''name''),
        sb_eq ''is_deleted'' (VBool False),
        (if searchQuery s \<noteq> [] then sb_ilike ''name'' (''%'' @ searchQuery s @ ''%'') else id),
        sb_range ((currentPage s - 1) * itemsPerPage) (currentPage s * itemsPerPage - 1),
        sb_order ''created_at'' False]"

definition loadSubcategories :: "world \<Rightarrow> subcategories_screen \<Rightarrow> world \<times> subcategories_screen" where
  "loadSubcategories w s =
     (let s1 = s\<lparr>loading := True, error := None\<rparr>;
          (res, w1) = run_select (loadSubcategories_query s) w
      in (case err res of
            Some e \<Rightarrow> (w1, s1\<lparr>error := Some ''Failed to load subcategories'', loading := False\<rparr>)
          | None \<Rightarrow>
              (w1, s1\<lparr>items := (case data res of None \<Rightarrow> [] | Some rows \<Rightarrow> rows),
                       totalPages := page_count (count res), loading := False\<rparr>)))"

definition handlePageChange_subcategories :: "int \<Rightarrow> world \<Rightarrow> subcategories_screen \<Rightarrow> world \<times> subcategories_screen" where
  "handlePageChange_subcategories page w s = loadSubcategories w (s\<lparr>currentPage := page\<rparr>)"

definition handleSearch_subcategories :: "string \<Rightarrow> world \<Rightarrow> subcategories_screen \<Rightarrow> world \<times> subcategories_screen" where
  "handleSearch_subcategories v w s = loadSubcategories w (s\<lparr>searchQuery := v, currentPage := 1\<rparr>)"

definition handleAddSubcategory :: "world \<Rightarrow> subcategories_screen \<Rightarrow> world \<times> subcategories_screen" where
  "handleAddSubcategory w s =
     (if trim (text_of (draft s) ''name'') = [] then
        (toast_error ''Subcategory name is required'' w, s)
      else if falsy (val_of (draft s) ''category_id'') then
        (toast_error ''Please select a category'' w, s)
      else
        (let (existing, w1) =
               run_single
                 (chain ''subcategories''
                    [sb_select [''id''],
                     sb_eq ''name'' (VStr (trim (text_of (draft s) ''name''))),
                     sb_eq ''category_id'' (val_of (draft s) ''category_id''),
                     sb_eq ''is_deleted'' (VBool False)]) w
         in (case check_thrown existing of
               Some e \<Rightarrow> (toast_error (''Failed to add subcategory: '' @ thrown_message e) w1, s)
             | None \<Rightarrow>
                 if data existing \<noteq> None then
                   (toast_error ''A subcategory with this name already exists in the selected category'' w1, s)
                 else
                   (let (failed, w2) =
                          run_insert ''subcategories''
                            [(''name'', VStr (trim (text_of (draft s) ''name''))),
                             (''category_id'', val_of (draft s) ''category_id''),
                             (''is_deleted'', VBool False)] w1
                    in (case failed of
                          Some e \<Rightarrow>
                            (toast_error (''Failed to add subcategory: '' @ thrown_message e) w2, s)
                        | None \<Rightarrow>
                            loadSubcategories (toast_success ''Subcategory added successfully'' w2)
                              (s\<lparr>showAddModal := False, draft := empty_subcategory\<rparr>))))))"

definition handleEditSubcategory :: "world \<Rightarrow> subcategories_screen \<Rightarrow> world \<times> subcategories_screen" where
  "handleEditSubcategory w s =
     (case selected s of
        None \<Rightarrow> (w, s)
      | Some sel \<Rightarrow>
          if trim (text_of sel ''name'') = [] then
            (toast_error ''Subcategory name is required'' w, s)
          else if falsy (val_of sel ''category_id'') then
            (toast_error ''Please select a category'' w, s)
          else
            (let (existing, w1) =
                   run_single
                     (chain ''subcategories''
                        [sb_select [''id''],
                         sb_eq ''name'' (VStr (trim (text_of sel ''name''))),
                         sb_eq ''category_id'' (val_of sel ''category_id''),
                         sb_eq ''is_deleted'' (VBool False),
                         sb_neq ''id'' (val_of sel ''id'')]) w
             in (case check_thrown existing of
                   Some e \<Rightarrow> (toast_error ''Failed to update subcategory'' w1, s)
                 | None \<Rightarrow>
                     if data existing \<noteq> None then
                       (toast_error ''A subcategory with this name already exists in the selected category'' w1, s)
                     else
                       (let (failed, w2) =
                              run_update ''subcategories''
                                [(''name'', VStr (trim (text_of sel ''name''))),
                                 (''category_id'', val_of sel ''category_id''),
                                 (''updated_at'', VInt (clock w1))]
                                [Eq ''id'' (val_of sel ''id'')] w1
                        in (case failed of
                              Some e \<Rightarrow> (toast_error ''Failed to update subcategory'' w2, s)
                            | None \<Rightarrow>
                                loadSubcategories (toast_success ''Subcategory updated successfully'' w2)
                                  (s\<lparr>showEditModal := False, selected := None\<rparr>))))))"

definition handleDeleteSubcategory :: "val \<Rightarrow> bool \<Rightarrow> world \<Rightarrow> subcategories_screen \<Rightarrow> world \<times> subcategories_screen" where
  "handleDeleteSubcategory subcategoryId confirmed w s =
     (if \<not> confirmed then (w, s)
      else
        (let (failed, w1) =
               run_update ''subcategories'' [(''is_deleted'', VBool True)] [Eq ''id'' subcategoryId] w
         in (case failed of
               Some e \<Rightarrow> (toast_error ''Failed to delete subcategory'' w1, s)
             | None \<Rightarrow> loadSubcategories (toast_success ''Subcategory deleted successfully'' w1) s)))"

subsection \<open>Audiences\<close>

definition empty_audience :: row where
  "empty_audience = [(''name'', VStr [])]"

definition fetchAudiences_query :: "crud_screen \<Rightarrow> query" where
  "fetchAudiences_query s =
     chain ''audiences''
       [sb_select_count [],
        sb_eq ''is_deleted'' (VBool False),
        (if searchQuery s \<noteq> [] then sb_ilike ''name'' (''%'' @ searchQuery s @ ''%'') else id),
        sb_range ((currentPage s - 1) * itemsPerPage) (currentPage s * itemsPerPage - 1),
        sb_order ''created_at'' False]"

definition fetchAudiences :: "world \<Rightarrow> crud_screen \<Rightarrow> world \<times> crud_screen" where
  "fetchAudiences w s =
     (let s1 = s\<lparr>loading := True, error := None\<rparr>;
          (res, w1) = run_select (fetchAudiences_query s) w
      in (case err res of
            Some e \<Rightarrow> (w1, s1\<lparr>error := Some ''Failed to load audiences'', loading := False\<rparr>)
          | None \<Rightarrow>
              (w1, s1\<lparr>items := (case data res of None \<Rightarrow> [] | Some rows \<Rightarrow> rows),
                       totalPages := page_count (count res), loading := False\<rparr>)))"

definition handlePageChange_audiences :: "int \<Rightarrow> world \<Rightarrow> crud_screen \<Rightarrow> world \<times> crud_screen" where
  "handlePageChange_audiences page w s = fetchAudiences w (s\<lparr>currentPage := page\<rparr>)"

definition handleSearch_audiences :: "string \<Rightarrow> world \<Rightarrow> crud_screen \<Rightarrow> world \<times> crud_screen" where
  "handleSearch_audiences v w s = fetchAudiences w (s\<lparr>searchQuery := v, currentPage := 1\<rparr>)"

definition handleAddAudience :: "world \<Rightarrow> crud_screen \<Rightarrow> world \<times> crud_screen" where
  "handleAddAudience w s =
     (if trim (text_of (draft s) ''name'') = [] then
        (toast_error ''Audience name is required'' w, s)
      else
        (let (existing, w1) =
               run_single
                 (chain ''audiences''
                    [sb_select [''id''],
                     sb_eq ''name'' (VStr (trim (text_of (draft s) ''name''))),
                     sb_eq ''is_deleted'' (VBool False)]) w
         in (case check_thrown existing of
               Some e \<Rightarrow> (toast_error (''Failed to add audience: '' @ thrown_message e) w1, s)
             | None \<Rightarrow>
                 if data existing \<noteq> None then
                   (toast_error ''An audience with this name already exists'' w1, s)
                 else
                   (let (failed, w2) =
                          run_insert ''audiences''
                            [(''name'', VStr (trim (text_of (draft s) ''name''))),
                             (''is_deleted'', VBool False)] w1
                    in (case failed of
                          Some e \<Rightarrow>
                            (toast_error (''Failed to add audience: '' @ thrown_message e) w2, s)
                        | None \<Rightarrow>
                            fetchAudiences (toast_success ''Audience added successfully'' w2)
                              (s\<lparr>showAddModal := False, draft := empty_audience\<rparr>))))))"

definition handleEditAudience :: "world \<Rightarrow> crud_screen \<Rightarrow> world \<times> crud_screen" where
  "handleEditAudience w s =
     (case selected s of
        None \<Rightarrow> (w, s)
      | Some sel \<Rightarrow>
          if trim (text_of sel ''name'') = [] then
            (toast_error ''Audience name is required'' w, s)
          else
            (let (existing, w1) =
                   run_single
                     (chain ''audiences''
                        [sb_select [''id''],
                         sb_eq ''name'' (VStr (trim (text_of sel ''name''))),
                         sb_eq ''is_deleted'' (VBool False),
                         sb_neq ''id'' (val_of sel ''id'')]) w
             in (case check_thrown existing of
                   Some e \<Rightarrow> (toast_error ''Failed to update audience'' w1, s)
                 | None \<Rightarrow>
                     if data existing \<noteq> None then
                       (toast_error ''An audience with this name already exists'' w1, s)
                     else
                       (let (failed, w2) =
                              run_update ''audiences''
                                [(''name'', VStr (trim (text_of sel ''name''))),
                                 (''updated_at'', VInt (clock w1))]
                                [Eq ''id'' (val_of sel ''id'')] w1
                        in (case failed of
                              Some e \<Rightarrow> (toast_error ''Failed to update audience'' w2, s)
                            | None \<Rightarrow>
                                fetchAudiences (toast_success ''Audience updated successfully'' w2)
                                  (s\<lparr>showEditModal := False, selected := None\<rparr>))))))"

definition handleDeleteAudience :: "val \<Rightarrow> bool \<Rightarrow> world \<Rightarrow> crud_screen \<Rightarrow> world \<times> crud_screen" where
  "handleDeleteAudience audienceId confirmed w s =
     (if \<not> confirmed then (w, s)
      else
        (let (failed, w1) =
               run_update ''audiences'' [(''is_deleted'', VBool True)] [Eq ''id'' audienceId] w
         in (case failed of
               Some e \<Rightarrow> (toast_error ''Failed to delete audience'' w1, s)
             | None \<Rightarrow> fetchAudiences (toast_success ''Audience deleted successfully'' w1) s)))"

subsection \<open>Colors\<close>

definition empty_color :: row where
  "empty_color = [(''name'', VStr []), (''hex_code'', VStr [])]"

definition fetchColors_query :: "crud_screen \<Rightarrow> query" where
  "fetchColors_query s =
     chain ''colors''
       [sb_select_count [],
        sb_eq ''is_deleted'' (VBool False),
        (if searchQuery s \<noteq> [] then sb_ilike ''name'' (''%'' @ searchQuery s @ ''%'') else id),
        sb_range ((currentPage s - 1) * itemsPerPage) (currentPage s * itemsPerPage - 1),
        sb_order ''created_at'' False]"

definition fetchColors :: "world \<Rightarrow> crud_screen \<Rightarrow> world \<times> crud_screen" where
  "fetchColors w s =
     (let s1 = s\<lparr>loading := True, error := None\<rparr>;
          (res, w1) = run_select (fetchColors_query s) w
      in (case err res of
            Some e \<Rightarrow> (w1, s1\<lparr>error := Some ''Failed to load colors'', loading := False\<rparr>)
          | None \<Rightarrow>
              (w1, s1\<lparr>items := (case data res of None \<Rightarrow> [] | Some rows \<Rightarrow> rows),
                       totalPages := page_count (count res), loading := False\<rparr>)))"

definition handlePageChange_colors :: "int \<Rightarrow> world \<Rightarrow> crud_screen \<Rightarrow> world \<times> crud_screen" where
  "handlePageChange_colors page w s = fetchColors w (s\<lparr>currentPage := page\<rparr>)"

definition handleSearch_colors :: "string \<Rightarrow> world \<Rightarrow> crud_screen \<Rightarrow> world \<times> crud_screen" where
  "handleSearch_colors v w s = fetchColors w (s\<lparr>searchQuery := v, currentPage := 1\<rparr>)"

definition handleAddColor :: "world \<Rightarrow> crud_screen \<Rightarrow> world \<times> crud_screen" where
  "handleAddColor w s =
     (if trim (text_of (draft s) ''name'') = [] then
        (toast_error ''Color name is required'' w, s)
      else if trim (text_of (draft s) ''hex_code'') = [] then
        (toast_error ''Hex code is required'' w, s)
      else if \<not> validateHexCode (trim (text_of (draft s) ''hex_code'')) then
        (toast_error ''Invalid hex code format. Please use #RRGGBB or #RGB format'' w, s)
      else
        (let (existing, w1) =
               run_single
                 (chain ''colors''
                    [sb_select [''id''],
                     sb_eq ''name'' (VStr (trim (text_of (draft s) ''name''))),
                     sb_eq ''is_deleted'' (VBool False)]) w
         in (case check_thrown existing of
               Some e \<Rightarrow> (toast_error (''Failed to add color: '' @ thrown_message e) w1, s)
             | None \<Rightarrow>
                 if data existing \<noteq> None then
                   (toast_error ''A color with this name already exists'' w1, s)
                 else
                   (let (failed, w2) =
                          run_insert ''colors''
                            [(''name'', VStr (trim (text_of (draft s) ''name''))),
                             (''hex_code'', VStr (trim (text_of (draft s) ''hex_code''))),
                             (''is_deleted'', VBool False)] w1
                    in (case failed of
                          Some e \<Rightarrow>
                            (toast_error (''Failed to add color: '' @ thrown_message e) w2, s)
                        | None \<Rightarrow>
                            fetchColors (toast_success ''Color added successfully'' w2)
                              (s\<lparr>showAddModal := False, draft := empty_color\<rparr>))))))"

definition handleEditColor :: "world \<Rightarrow> crud_screen \<Rightarrow> world \<times> crud_screen" where
  "handleEditColor w s =
     (case selected s of
        None \<Rightarrow> (w, s)
      | Some sel \<Rightarrow>
          if trim (text_of sel ''name'') = [] then
            (toast_error ''Color name is required'' w, s)
          else if trim (text_of sel ''hex_code'') = [] then
            (toast_error ''Hex code is required'' w, s)
          else if \<not> validateHexCode (trim (text_of sel ''hex_code'')) then
            (toast_error ''Invalid hex code format. Please use #RRGGBB or #RGB format'' w, s)
          else
            (let (existing, w1) =
                   run_single
                     (chain ''colors''
                        [sb_select [''id''],
                         sb_eq ''name'' (VStr (trim (text_of sel ''name''))),
                         sb_eq ''is_deleted'' (VBool False),
                         sb_neq ''id'' (val_of sel ''id'')]) w
             in (case check_thrown existing of
                   Some e \<Rightarrow> (toast_error ''Failed to update color'' w1, s)
                 | None \<Rightarrow>
                     if data existing \<noteq> None then
                       (toast_error ''A color with this name already exists'' w1, s)
                     else
                       (let (failed, w2) =
                              run_update ''colors''
                                [(''name'', VStr (trim (text_of sel ''name''))),
                                 (''hex_code'', VStr (trim (text_of sel ''hex_code''))),
                                 (''updated_at'', VInt (clock w1))]
                                [Eq ''id'' (val_of sel ''id'')] w1
                        in (case failed of
                              Some e \<Rightarrow> (toast_error ''Failed to update color'' w2, s)
                            | None \<Rightarrow>
                                fetchColors (toast_success ''Color updated successfully'' w2)
                                  (s\<lparr>showEditModal := False, selected := None\<rparr>))))))"

definition handleDeleteColor :: "val \<Rightarrow> bool \<Rightarrow> world \<Rightarrow> crud_screen \<Rightarrow> world \<times> crud_screen" where
  "handleDeleteColor colorId confirmed w s =
     (if \<not> confirmed then (w, s)
      else
        (let (failed, w1) =
               run_update ''colors'' [(''is_deleted'', VBool True)] [Eq ''id'' colorId] w
         in (case failed of
               Some e \<Rightarrow> (toast_error ''Failed to delete color'' w1, s)
             | None \<Rightarrow> fetchColors (toast_success ''Color deleted successfully'' w1) s)))"

subsection \<open>Sizes\<close>

definition empty_size :: row where
  "empty_size =
     [(''label'', VStr []), (''size_type'', VStr ''alpha''), (''category'', VStr ''unisex''),
      (''numeric_value'', VNull), (''display_order'', VInt 0), (''description'', VStr []),
      (''is_active'', VBool True)]"

text \<open>\<^verbatim>\<open>x.description?.trim() || null\<close>.\<close>

definition trimmed_or_null :: "row \<Rightarrow> string \<Rightarrow> val" where
  "trimmed_or_null r c = (if trim (text_of r c) = [] then VNull else VStr (trim (text_of r c)))"

definition fetchSizes_query :: "crud_screen \<Rightarrow> query" where
  "fetchSizes_query s =
     chain ''sizes''
       [sb_select_count [],
        sb_eq ''is_deleted'' (VBool False),
        sb_order ''category'' True,
        sb_order ''display_order'' True,
        (if searchQuery s \<noteq> [] then
           sb_or_ilike [(''label'', ''%'' @ searchQuery s @ ''%''),
                        (''description'', ''%'' @ searchQuery s @ ''%'')]
         else id),
        sb_range ((currentPage s - 1) * itemsPerPage) (currentPage s * itemsPerPage - 1)]"

definition fetchSizes :: "world \<Rightarrow> crud_screen \<Rightarrow> world \<times> crud_screen" where
  "fetchSizes w s =
     (let s1 = s\<lparr>loading := True, error := None\<rparr>;
          (res, w1) = run_select (fetchSizes_query s) w
      in (case err res of
            Some e \<Rightarrow> (w1, s1\<lparr>error := Some ''Failed to load sizes'', loading := False\<rparr>)
          | None \<Rightarrow>
              (w1, s1\<lparr>items := (case data res of None \<Rightarrow> [] | Some rows \<Rightarrow> rows),
                       totalPages := page_count (count res), loading := False\<rparr>)))"

definition handlePageChange_sizes :: "int \<Rightarrow> world \<Rightarrow> crud_screen \<Rightarrow> world \<times> crud_screen" where
  "handlePageChange_sizes page w s = fetchSizes w (s\<lparr>currentPage := page\<rparr>)"

definition handleSearch_sizes :: "string \<Rightarrow> world \<Rightarrow> crud_screen \<Rightarrow> world \<times> crud_screen" where
  "handleSearch_sizes v w s = fetchSizes w (s\<lparr>searchQuery := v, currentPage := 1\<rparr>)"

definition handleAddSize :: "world \<Rightarrow> crud_screen \<Rightarrow> world \<times> crud_screen" where
  "handleAddSize w s =
     (if trim (text_of (draft s) ''label'') = [] then
        (toast_error ''Size label is required'' w, s)
      else
        (let (existing, w1) =
               run_single
                 (chain ''sizes''
                    [sb_select [''id''],
                     sb_eq ''label'' (VStr (trim (text_of (draft s) ''label''))),
                     sb_eq ''category'' (val_of (draft s) ''category''),
                     sb_eq ''is_deleted'' (VBool False)]) w
         in (case check_thrown existing of
               Some e \<Rightarrow> (toast_error (''Failed to add size: '' @ thrown_message e) w1, s)
             | None \<Rightarrow>
                 if data existing \<noteq> None then
                   (toast_error ''A size with this label already exists in this category'' w1, s)
                 else
                   (let (failed, w2) =
                          run_insert ''sizes''
                            [(''label'', VStr (trim (text_of (draft s) ''label''))),
                             (''size_type'', val_of (draft s) ''size_type''),
                             (''category'', val_of (draft s) ''category''),
                             (''numeric_value'', val_of (draft s) ''numeric_value''),
                             (''display_order'', val_of (draft s) ''display_order''),
                             (''description'', trimmed_or_null (draft s) ''description''),
                             (''is_active'', val_of (draft s) ''is_active''),
                             (''is_deleted'', VBool False)] w1
                    in (case failed of
                          Some e \<Rightarrow>
                            (toast_error (''Failed to add size: '' @ thrown_message e) w2, s)
                        | None \<Rightarrow>
                            fetchSizes (toast_success ''Size added successfully'' w2)
                              (s\<lparr>showAddModal := False, draft := empty_size\<rparr>))))))"

definition handleEditSize :: "world \<Rightarrow> crud_screen \<Rightarrow> world \<times> crud_screen" where
  "handleEditSize w s =
     (case selected s of
        None \<Rightarrow> (w, s)
      | Some sel \<Rightarrow>
          if trim (text_of sel ''label'') = [] then
            (toast_error ''Size label is required'' w, s)
          else
            (let (existing, w1) =
                   run_single
                     (chain ''sizes''
                        [sb_select [''id''],
                         sb_eq ''label'' (VStr (trim (text_of sel ''label''))),
                         sb_eq ''category'' (val_of sel ''category''),
                         sb_eq ''is_deleted'' (VBool False),
                         sb_neq ''id'' (val_of sel ''id'')]) w
             in (case check_thrown existing of
                   Some e \<Rightarrow> (toast_error ''Failed to update size'' w1, s)
                 | None \<Rightarrow>
                     if data existing \<noteq> None then
                       (toast_error ''A size with this label already exists in this category'' w1, s)
                     else
                       (let (failed, w2) =
                              run_update ''sizes''
                                [(''label'', VStr (trim (text_of sel ''label''))),
                                 (''size_type'', val_of sel ''size_type''),
                                 (''category'', val_of sel ''category''),
                                 (''numeric_value'', val_of sel ''numeric_value''),
                                 (''display_order'', val_of sel ''display_order''),
                                 (''description'', trimmed_or_null sel ''description''),
                                 (''is_active'', val_of sel ''is_active''),
                                 (''updated_at'', VInt (clock w1))]
                                [Eq ''id'' (val_of sel ''id'')] w1
                        in (case failed of
                              Some e \<Rightarrow> (toast_error ''Failed to update size'' w2, s)
                            | None \<Rightarrow>
                                fetchSizes (toast_success ''Size updated successfully'' w2)
                                  (s\<lparr>showEditModal := False, selected := None\<rparr>))))))"

definition handleDeleteSize :: "val \<Rightarrow> bool \<Rightarrow> world \<Rightarrow> crud_screen \<Rightarrow> world \<times> crud_screen" where
  "handleDeleteSize sizeId confirmed w s =
     (if \<not> confirmed then (w, s)
      else
        (let (failed, w1) =
               run_update ''sizes'' [(''is_deleted'', VBool True)] [Eq ''id'' sizeId] w
         in (case failed of
               Some e \<Rightarrow> (toast_error ''Failed to delete size'' w1, s)
             | None \<Rightarrow> fetchSizes (toast_success ''Size deleted successfully'' w1) s)))"

section \<open>The sellers screen\<close>

record sellers_screen = paging +
  sellers :: "row list"
  isLoading :: bool
  success :: "string option"
  totalItems :: nat
  showForm :: bool
  isEditing :: bool
  formData :: row

definition empty_seller :: row where
  "empty_seller =
     [(''email'', VStr []), (''name'', VStr []), (''gender'', VStr ''other''), (''age'', VInt 18)]"

definition init_sellers :: sellers_screen where
  "init_sellers =
     \<lparr>error = None, currentPage = 1, totalPages = 1, sellers = [], isLoading = False,
      success = None, totalItems = 0, showForm = False, isEditing = False,
      formData = empty_seller\<rparr>"

text \<open>\<^verbatim>\<open>e?.message || fallback\<close>.\<close>

definition message_or :: "string \<Rightarrow> string \<Rightarrow> string" where
  "message_or m fallback = (if m = [] then fallback else m)"

definition loadSellers_count_query :: query where
  "loadSellers_count_query =
     chain ''users''
       [sb_select_head [],
        sb_eq ''user_type'' (VStr ''seller''),
        sb_eq ''is_deleted'' (VBool False)]"

definition loadSellers_query :: "sellers_screen \<Rightarrow> query" where
  "loadSellers_query s =
     chain ''users''
       [sb_select [],
        sb_embed (EmbedInner ''user_emails'' ''user_id'' ''email''),
        sb_eq ''user_type'' (VStr ''seller''),
        sb_eq ''is_deleted'' (VBool False),
        sb_range ((currentPage s - 1) * itemsPerPage) (currentPage s * itemsPerPage - 1),
        sb_order ''created_at'' False]"

definition loadSellers :: "world \<Rightarrow> sellers_screen \<Rightarrow> world \<times> sellers_screen" where
  "loadSellers w s =
     (let s1 = s\<lparr>isLoading := True, error := None\<rparr>;
          (counted, w1) = run_select loadSellers_count_query w
      in (case err counted of
            Some e \<Rightarrow>
              (w1, s1\<lparr>error := Some (message_or (msg e) ''An error occurred while loading sellers''),
                       isLoading := False\<rparr>)
          | None \<Rightarrow>
              (let s2 = s1\<lparr>totalItems := (case count counted of None \<Rightarrow> 0 | Some n \<Rightarrow> n),
                            totalPages := page_count (count counted)\<rparr>;
                   (res, w2) = run_select (loadSellers_query s) w1
               in (case err res of
                     Some e \<Rightarrow>
                       (w2, s2\<lparr>error :=
                                  Some (message_or (msg e) ''An error occurred while loading sellers''),
                                isLoading := False\<rparr>)
                   | None \<Rightarrow>
                       (w2, s2\<lparr>sellers := (case data res of None \<Rightarrow> [] | Some rows \<Rightarrow> rows),
                                isLoading := False\<rparr>)))))"

text \<open>\<open>showSuccessMessage\<close> shows the message; the timer it starts clears it later.\<close>

definition showSuccessMessage :: "string \<Rightarrow> sellers_screen \<Rightarrow> sellers_screen" where
  "showSuccessMessage m s = s\<lparr>success := Some m\<rparr>"

definition handleAddSeller :: "world \<Rightarrow> sellers_screen \<Rightarrow> world \<times> sellers_screen" where
  "handleAddSeller w s =
     (let s1 = s\<lparr>isLoading := True, error := None, success := None\<rparr>;
          (result, w1) = run_invite (text_of (formData s) ''email'') w
      in (case result of
            Inl m \<Rightarrow>
              (w1, s1\<lparr>error := Some (message_or m ''An error occurred while adding seller''),
                       isLoading := False\<rparr>)
          | Inr user_id \<Rightarrow>
              (let (userError, w2) =
                     run_insert ''users''
                       [(''id'', VStr user_id),
                        (''user_type'', VStr ''seller''),
                        (''status'', VStr ''pending_verification''),
                        (''name'', val_of (formData s) ''name''),
                        (''gender'', val_of (formData s) ''gender''),
                        (''age'', val_of (formData s) ''age'')] w1
               in (case userError of
                     Some e \<Rightarrow>
                       (w2, s1\<lparr>error :=
                                  Some (message_or (msg e) ''An error occurred while adding seller''),
                                isLoading := False\<rparr>)
                   | None \<Rightarrow>
                       (let (emailError, w3) =
                              run_insert ''user_emails''
                                [(''user_id'', VStr user_id),
                                 (''email'', val_of (formData s) ''email''),
                                 (''is_primary'', VBool True)] w2
                        in (case emailError of
                              Some e \<Rightarrow>
                                (w3, s1\<lparr>error :=
                                           Some (message_or (msg e)
                                                   ''An error occurred while adding seller''),
                                         isLoading := False\<rparr>)
                            | None \<Rightarrow>
                                (let (w4, s4) =
                                       loadSellers w3
                                         ((showSuccessMessage
                                             ''Seller invited successfully. They will receive an email to set up their account.''
                                             s1)\<lparr>showForm := False\<rparr>)
                                 in (w4, s4\<lparr>isLoading := False\<rparr>))))))))"

definition handleEditSeller :: "world \<Rightarrow> sellers_screen \<Rightarrow> world \<times> sellers_screen" where
  "handleEditSeller w s =
     (let s1 = s\<lparr>isLoading := True, error := None, success := None\<rparr>;
          (updateError, w1) =
            run_update ''users''
              [(''name'', val_of (formData s) ''name''),
               (''gender'', val_of (formData s) ''gender''),
               (''age'', val_of (formData s) ''age'')]
              [Eq ''id'' (val_of (formData s) ''id'')] w
      in (case updateError of
            Some e \<Rightarrow>
              (w1, s1\<lparr>error := Some (message_or (msg e) ''An error occurred while updating seller''),
                       isLoading := False\<rparr>)
          | None \<Rightarrow>
              (let (w2, s2) =
                     loadSellers w1
                       ((showSuccessMessage ''Seller updated successfully'' s1)\<lparr>showForm := False\<rparr>)
               in (w2, s2\<lparr>isLoading := False\<rparr>))))"

definition handleDeleteSeller :: "val \<Rightarrow> bool \<Rightarrow> world \<Rightarrow> sellers_screen \<Rightarrow> world \<times> sellers_screen" where
  "handleDeleteSeller sellerId confirmed w s =
     (if \<not> confirmed then (w, s)
      else
        (let s1 = s\<lparr>isLoading := True, error := None, success := None\<rparr>;
             (deleteError, w1) =
               run_update ''users'' [(''is_deleted'', VBool True)] [Eq ''id'' sellerId] w
         in (case deleteError of
               Some e \<Rightarrow>
                 (w1, s1\<lparr>error :=
                            Some (message_or (msg e) ''An error occurred while deleting seller''),
                          isLoading := False\<rparr>)
             | None \<Rightarrow>
                 (let (w2, s2) =
                        loadSellers w1 (showSuccessMessage ''Seller deleted successfully'' s1)
                  in (w2, s2\<lparr>isLoading := False\<rparr>)))))"

text \<open>
  The page controls of the sellers screen are part of its template: the two buttons are
  rendered only while \<open>totalPages > 1\<close>, \<open>Previous\<close> is disabled on page 1 and \<open>Next\<close> on
  the last page. A click is taken by a button that is rendered and not disabled.
\<close>

definition clickPrevious :: "world \<Rightarrow> sellers_screen \<Rightarrow> world \<times> sellers_screen" where
  "clickPrevious w s =
     (if totalPages s > 1 \<and> currentPage s \<noteq> 1
      then loadSellers w (s\<lparr>currentPage := currentPage s - 1\<rparr>)
      else (w, s))"

definition clickNext :: "world \<Rightarrow> sellers_screen \<Rightarrow> world \<times> sellers_screen" where
  "clickNext w s =
     (if totalPages s > 1 \<and> currentPage s \<noteq> totalPages s
      then loadSellers w (s\<lparr>currentPage := currentPage s + 1\<rparr>)
      else (w, s))"

section \<open>The second brands screen\<close>

text \<open>
  The repository holds a second script for the brands screen, which uploads a logo and has
  neither pages nor a search. Its variables and handlers carry the suffix \<open>_v2\<close> where the
  name is taken by the first.
\<close>

record picked_file =
  file_name :: string
  file_type :: string
  file_size :: nat

record upload_screen =
  brands_v2 :: "row list"
  loading_v2 :: bool
  showAddModal_v2 :: bool
  showEditModal_v2 :: bool
  selectedBrand :: "row option"
  newBrand :: row
  uploadingLogo :: bool
  selectedFile :: "picked_file option"
  selectedEditFile :: "picked_file option"

definition loadBrands_query :: query where
  "loadBrands_query =
     chain ''brands''
       [sb_select [],
        sb_eq ''is_deleted'' (VBool False),
        sb_order ''created_at'' False]"

definition loadBrands :: "world \<Rightarrow> upload_screen \<Rightarrow> world \<times> upload_screen" where
  "loadBrands w s =
     (let (res, w1) = run_select loadBrands_query w
      in (case err res of
            Some e \<Rightarrow> (toast_error ''Failed to load brands'' w1, s\<lparr>loading_v2 := False\<rparr>)
          | None \<Rightarrow>
              (w1, s\<lparr>brands_v2 := (case data res of None \<Rightarrow> [] | Some rows \<Rightarrow> rows),
                      loading_v2 := False\<rparr>)))"

text \<open>\<^verbatim>\<open>file.name.split('.').pop()\<close>.\<close>

definition file_ext :: "string \<Rightarrow> string" where
  "file_ext n = rev (takeWhile (\<lambda>c. c \<noteq> CHR ''.'') (rev n))"

text \<open>The random file name is drawn from the world's counter.\<close>

definition uploadLogo_v2 :: "picked_file \<Rightarrow> world \<Rightarrow> upload_screen \<Rightarrow> string option \<times> world \<times> upload_screen" where
  "uploadLogo_v2 f w s =
     (let filePath = new_id (fresh w) @ ''.'' @ file_ext (file_name f);
          (uploadError, w1) = run_upload ''brand-logos'' filePath (w\<lparr>fresh := Suc (fresh w)\<rparr>)
      in (case uploadError of
            Some e \<Rightarrow> (None, toast_error ''Failed to upload logo'' w1, s\<lparr>uploadingLogo := False\<rparr>)
          | None \<Rightarrow> (Some (getPublicUrl ''brand-logos'' filePath), w1, s\<lparr>uploadingLogo := False\<rparr>)))"

definition handleAddBrand_v2 :: "world \<Rightarrow> upload_screen \<Rightarrow> world \<times> upload_screen" where
  "handleAddBrand_v2 w s =
     (let (logoUrl, w1, s1) =
            (case selectedFile s of
               None \<Rightarrow> (Some (val_of (newBrand s) ''logo_url''), w, s)
             | Some f \<Rightarrow>
                 (let (uploadedUrl, w', s') = uploadLogo_v2 f w s
                  in (case uploadedUrl of
                        None \<Rightarrow> (None, toast_error ''Failed to upload logo'' w', s')
                      | Some u \<Rightarrow> (Some (VStr u), w', s'))))
      in (case logoUrl of
            None \<Rightarrow> (w1, s1)
          | Some url \<Rightarrow>
              (let (failed, w2) =
                     run_insert ''brands''
                       [(''name'', val_of (newBrand s) ''name''),
                        (''description'', val_of (newBrand s) ''description''),
                        (''logo_url'', url),
                        (''is_deleted'', VBool False)] w1
               in (case failed of
                     Some e \<Rightarrow> (toast_error ''Failed to add brand'' w2, s1)
                   | None \<Rightarrow>
                       loadBrands (toast_success ''Brand added successfully'' w2)
                         (s1\<lparr>showAddModal_v2 := False,
                             newBrand := [(''name'', VStr []), (''description'', VStr []),
                                          (''logo_url'', VStr [])],
                             selectedFile := None\<rparr>)))))"

definition handleEditBrand_v2 :: "world \<Rightarrow> upload_screen \<Rightarrow> world \<times> upload_screen" where
  "handleEditBrand_v2 w s =
     (case selectedBrand s of
        None \<Rightarrow> (w, s)
      | Some sel \<Rightarrow>
          (let (logoUrl, w1, s1) =
                 (case selectedEditFile s of
                    None \<Rightarrow> (Some (val_of sel ''logo_url''), w, s)
                  | Some f \<Rightarrow>
                      (let (uploadedUrl, w', s') = uploadLogo_v2 f w s
                       in (case uploadedUrl of
                             None \<Rightarrow> (None, toast_error ''Failed to upload logo'' w', s')
                           | Some u \<Rightarrow> (Some (VStr u), w', s'))))
           in (case logoUrl of
                 None \<Rightarrow> (w1, s1)
               | Some url \<Rightarrow>
                   (let (failed, w2) =
                          run_update ''brands''
                            [(''name'', val_of sel ''name''),
                             (''description'', val_of sel ''description''),
                             (''logo_url'', url),
                             (''updated_at'', VInt (clock w1))]
                            [Eq ''id'' (val_of sel ''id'')] w1
                    in (case failed of
                          Some e \<Rightarrow> (toast_error ''Failed to update brand'' w2, s1)
                        | None \<Rightarrow>
                            loadBrands (toast_success ''Brand updated successfully'' w2)
                              (s1\<lparr>showEditModal_v2 := False, selectedBrand := None,
                                  selectedEditFile := None\<rparr>))))))"

definition handleDeleteBrand_v2 :: "val \<Rightarrow> bool \<Rightarrow> world \<Rightarrow> upload_screen \<Rightarrow> world \<times> upload_screen" where
  "handleDeleteBrand_v2 brandId confirmed w s =
     (if \<not> confirmed then (w, s)
      else
        (let (failed, w1) =
               run_update ''brands'' [(''is_deleted'', VBool True)] [Eq ''id'' brandId] w
         in (case failed of
               Some e \<Rightarrow> (toast_error ''Failed to delete brand'' w1, s)
             | None \<Rightarrow> loadBrands (toast_success ''Brand deleted successfully'' w1) s)))"

section \<open>The image picker\<close>

text \<open>
  \<^verbatim>\<open>ImageUpload.svelte\<close> exists in two versions. Both keep the object URL of the preview
  (a handle drawn from \<open>url_seq\<close>; \<open>revoked\<close> lists the handles given back) and dispatch
  events to the screen that embeds the picker (\<open>dispatched\<close>, oldest first). The text of
  the first version's size message depends on \<open>maxSize\<close>; the event carries which of the
  two messages it is.
\<close>

datatype modal_type = ModalAdd | ModalEdit

datatype picker_message = SizeExceeded nat | NotAnImage

datatype picker_event =
    FileSelect picked_file "modal_type option"
  | ErrorEvent picker_message
  | RemoveEvent

record picker =
  maxSize :: nat
  previewUrl :: "nat option"
  url_seq :: nat
  revoked :: "nat list"
  dispatched :: "picker_event list"

record picker_v1 = picker +
  dragActive :: bool
  error_shown :: "picker_message option"

record picker_v2 = picker +
  modalType :: modal_type
  dragAndDrop :: bool
  isDragging :: bool

definition default_maxSize :: nat where
  "default_maxSize = 1048576"

definition is_image :: "picked_file \<Rightarrow> bool" where
  "is_image f = (take (length ''image/'') (file_type f) = ''image/'')"

definition handleFile :: "picked_file \<Rightarrow> picker_v1 \<Rightarrow> picker_v1" where
  "handleFile f p =
     (let p0 = p\<lparr>error_shown := None\<rparr>
      in if file_size f > maxSize p then
           p0\<lparr>error_shown := Some (SizeExceeded (maxSize p)),
              dispatched := dispatched p @ [ErrorEvent (SizeExceeded (maxSize p))]\<rparr>
         else if \<not> is_image f then
           p0\<lparr>error_shown := Some NotAnImage,
              dispatched := dispatched p @ [ErrorEvent NotAnImage]\<rparr>
         else
           p0\<lparr>revoked := (case previewUrl p of None \<Rightarrow> revoked p | Some u \<Rightarrow> revoked p @ [u]),
              previewUrl := Some (url_seq p),
              url_seq := Suc (url_seq p),
              dispatched := dispatched p @ [FileSelect f None]\<rparr>)"

definition handleDrop :: "picked_file list \<Rightarrow> picker_v1 \<Rightarrow> picker_v1" where
  "handleDrop files p =
     (case files of
        [] \<Rightarrow> p\<lparr>dragActive := False\<rparr>
      | f # fs \<Rightarrow> handleFile f (p\<lparr>dragActive := False\<rparr>))"

definition validateAndProcessFile :: "picked_file \<Rightarrow> world \<Rightarrow> picker_v2 \<Rightarrow> world \<times> picker_v2" where
  "validateAndProcessFile f w p =
     (if \<not> is_image f then (toast_error ''Please select an image file'' w, p)
      else if file_size f > maxSize p then
        (toast_error ''Image size should be less than 1MB'' w, p)
      else
        (w, p\<lparr>revoked := (case previewUrl p of None \<Rightarrow> revoked p | Some u \<Rightarrow> revoked p @ [u]),
              previewUrl := Some (url_seq p),
              url_seq := Suc (url_seq p),
              dispatched := dispatched p @ [FileSelect f (Some (modalType p))]\<rparr>))"

definition handleDrop_v2 :: "picked_file list \<Rightarrow> world \<Rightarrow> picker_v2 \<Rightarrow> world \<times> picker_v2" where
  "handleDrop_v2 files w p =
     (if \<not> dragAndDrop p then (w, p\<lparr>isDragging := False\<rparr>)
      else
        (case files of
           [] \<Rightarrow> (w, p\<lparr>isDragging := False\<rparr>)
         | f # fs \<Rightarrow> validateAndProcessFile f w (p\<lparr>isDragging := False\<rparr>)))"

section \<open>Notions used in the statements\<close>

text \<open>The name under which an embedded resource is appended to a row.\<close>

definition embed_alias :: "embed \<Rightarrow> string" where
  "embed_alias e = (case e of EmbedOne a t fk c \<Rightarrow> a | EmbedInner t fk c \<Rightarrow> t)"

text \<open>A row that a load may show.\<close>

definition not_deleted :: "row \<Rightarrow> bool" where
  "not_deleted r = (map_of r ''is_deleted'' = Some (VBool False))"

text \<open>
  What a soft delete of the rows with identifier \<open>i\<close> in table \<open>t\<close> leaves behind: the
  tables as they were, but for \<open>is_deleted\<close> set in those rows, and a log that grew by
  one update of \<open>is_deleted\<close> and the selects of the reload.
\<close>

definition soft_deleted :: "string \<Rightarrow> val \<Rightarrow> world \<Rightarrow> world \<Rightarrow> bool" where
  "soft_deleted t i w w' \<longleftrightarrow>
     tables w' =
       (tables w)
         (t := map (\<lambda>r. if map_of r ''id'' = Some i
                        then apply_patch [(''is_deleted'', VBool True)] r else r)
                 (tables w t))
     \<and> (\<exists>qs. requests w' =
               requests w @
               ReqUpdate t [(''is_deleted'', VBool True)] [Eq ''id'' i] # map ReqSelect qs)"

text \<open>The sort position of a row in a column.\<close>

definition rank_of :: "world \<Rightarrow> string \<Rightarrow> row \<Rightarrow> int" where
  "rank_of w c r = col_rank w c (val_of r c)"

section \<open>Concrete worlds\<close>

text \<open>A reachable service with empty tables, in which a value is ranked by its number
  (and every other value alike) and every pattern matches.\<close>

definition demo_world :: world where
  "demo_world =
     \<lparr>tables = (\<lambda>t. []), online = True,
      col_rank = (\<lambda>c v. case v of VInt i \<Rightarrow> i | _ \<Rightarrow> 0),
      like = (\<lambda>p t. True), clock = 100, fresh = 0, requests = [], toasts = [], toast_seq = 0\<rparr>"

definition bad_hex_color :: row where
  "bad_hex_color = [(''id'', VStr ''c1''), (''name'', VStr ''Red''), (''hex_code'', VStr ''#12345'')]"

definition bad_hex_add :: crud_screen where
  "bad_hex_add = (init_screen empty_color)\<lparr>draft := bad_hex_color\<rparr>"

definition bad_hex_edit :: crud_screen where
  "bad_hex_edit = (init_screen empty_color)\<lparr>selected := Some bad_hex_color\<rparr>"

text \<open>The same service with a live row \<open>r1\<close> and a soft-deleted row \<open>r2\<close> in every
  table; colors and sizes hold a second live row \<open>r3\<close>.\<close>

definition live_row :: "string \<Rightarrow> string \<Rightarrow> int \<Rightarrow> row" where
  "live_row i n t =
     [(''id'', VStr i), (''name'', VStr n), (''is_deleted'', VBool False),
      (''created_at'', VInt t), (''updated_at'', VInt t)]"

definition gone_row :: "string \<Rightarrow> string \<Rightarrow> int \<Rightarrow> row" where
  "gone_row i n t =
     [(''id'', VStr i), (''name'', VStr n), (''is_deleted'', VBool True),
      (''created_at'', VInt t), (''updated_at'', VInt t)]"

definition stocked_tables :: "string \<Rightarrow> row list" where
  "stocked_tables t =
     (if t = ''brands'' then
        [live_row ''r1'' ''Acme'' 1 @ [(''description'', VStr ''Tools''), (''logo_url'', VStr [])],
         gone_row ''r2'' ''Old'' 2 @ [(''description'', VNull), (''logo_url'', VNull)]]
      else if t = ''categories'' then [live_row ''r1'' ''Shoes'' 1, gone_row ''r2'' ''Hats'' 2]
      else if t = ''subcategories'' then
        [live_row ''r1'' ''Boots'' 1 @ [(''category_id'', VStr ''r1'')],
         gone_row ''r2'' ''Clogs'' 2 @ [(''category_id'', VStr ''r1'')]]
      else if t = ''audiences'' then [live_row ''r1'' ''Kids'' 1, gone_row ''r2'' ''Teens'' 2]
      else if t = ''colors'' then
        [live_row ''r1'' ''Red'' 1 @
           [(''hex_code'', VStr ''#FF0000''), (''category'', VStr ''primary''),
            (''display_order'', VInt 1)],
         live_row ''r3'' ''Blue'' 2 @
           [(''hex_code'', VStr ''#0000FF''), (''category'', VStr ''primary''),
            (''display_order'', VInt 2)],
         gone_row ''r2'' ''Gray'' 3 @
           [(''hex_code'', VStr ''#888888''), (''category'', VStr ''neutral''),
            (''display_order'', VInt 1)]]
      else if t = ''sizes'' then
        [[(''id'', VStr ''r1''), (''label'', VStr ''M''), (''category'', VStr ''tops''),
          (''display_order'', VInt 2), (''is_deleted'', VBool False), (''created_at'', VInt 1)],
         [(''id'', VStr ''r3''), (''label'', VStr ''S''), (''category'', VStr ''tops''),
          (''display_order'', VInt 1), (''is_deleted'', VBool False), (''created_at'', VInt 2)],
         [(''id'', VStr ''r2''), (''label'', VStr ''L''), (''category'', VStr ''tops''),
          (''display_order'', VInt 3), (''is_deleted'', VBool True), (''created_at'', VInt 3)]]
      else if t = ''users'' then
        [live_row ''r1'' ''Ann'' 5 @
           [(''user_type'', VStr ''seller''), (''gender'', VStr ''other''), (''age'', VInt 30)],
         gone_row ''r2'' ''Bob'' 6 @
           [(''user_type'', VStr ''seller''), (''gender'', VStr ''other''), (''age'', VInt 40)]]
      else if t = ''user_emails'' then
        [[(''user_id'', VStr ''r1''), (''email'', VStr ''ann@example.org''),
          (''is_primary'', VBool True)],
         [(''user_id'', VStr ''r2''), (''email'', VStr ''bob@example.org''),
          (''is_primary'', VBool True)]]
      else [])"

definition stocked_world :: world where
  "stocked_world = demo_world\<lparr>tables := stocked_tables\<rparr>"

text \<open>The screens as they are when they open.\<close>

definition first_page :: crud_screen where
  "first_page = init_screen []"

definition init_subcategories :: subcategories_screen where
  "init_subcategories =
     \<lparr>error = None, currentPage = 1, totalPages = 1, items = [], loading = True,
      showAddModal = False, showEditModal = False, selected = None,
      draft = empty_subcategory, searchQuery = [], categories = []\<rparr>"

definition init_upload :: upload_screen where
  "init_upload =
     \<lparr>brands_v2 = [], loading_v2 = True, showAddModal_v2 = False, showEditModal_v2 = False,
      selectedBrand = None,
      newBrand = [(''name'', VStr []), (''description'', VStr []), (''logo_url'', VStr [])],
      uploadingLogo = False, selectedFile = None, selectedEditFile = None\<rparr>"

text \<open>An upload of a given MIME type and size, and the two pickers as they are mounted with
  their default properties.\<close>

definition an_upload :: "string \<Rightarrow> nat \<Rightarrow> picked_file" where
  "an_upload ty n = \<lparr>file_name = ''upload'', file_type = ty, file_size = n\<rparr>"

definition mounted_v1 :: picker_v1 where
  "mounted_v1 =
     \<lparr>maxSize = default_maxSize, previewUrl = None, url_seq = 0, revoked = [], dispatched = [],
      dragActive = False, error_shown = None\<rparr>"

definition mounted_v2 :: picker_v2 where
  "mounted_v2 =
     \<lparr>maxSize = default_maxSize, previewUrl = None, url_seq = 0, revoked = [], dispatched = [],
      modalType = ModalAdd, dragAndDrop = False, isDragging = False\<rparr>"

text \<open>The colors screen with a filled form (the category is what a caller might add to
  the draft; the screen has no such field).\<close>

definition color_form :: "string \<Rightarrow> string \<Rightarrow> string \<Rightarrow> crud_screen" where
  "color_form n h c =
     (init_screen empty_color)
       \<lparr>draft := [(''name'', VStr n), (''hex_code'', VStr h), (''category'', VStr c)]\<rparr>"

text \<open>The filled forms of the second brands screen and of the sellers screen.\<close>

definition brand_form_v2 :: "string \<Rightarrow> upload_screen" where
  "brand_form_v2 n =
     init_upload\<lparr>newBrand := [(''name'', VStr n), (''description'', VStr []), (''logo_url'', VStr [])]\<rparr>"

definition seller_form :: "string \<Rightarrow> string \<Rightarrow> sellers_screen" where
  "seller_form e n =
     init_sellers
       \<lparr>formData := [(''email'', VStr e), (''name'', VStr n), (''gender'', VStr ''other''),
                     (''age'', VInt 18)]\<rparr>"

text \<open>The edit forms of the sellers, brands and colors screens, opened on the row \<open>r1\<close>
  of their lists with the name changed (the brands and colors screens copy the listed
  row).\<close>

definition seller_edit :: sellers_screen where
  "seller_edit =
     init_sellers
       \<lparr>showForm := True, isEditing := True,
        formData := [(''id'', VStr ''r1''), (''email'', VStr ''ann@example.org''),
                     (''name'', VStr ''Anna''), (''gender'', VStr ''other''), (''age'', VInt 31)]\<rparr>"

definition brand_edit :: crud_screen where
  "brand_edit =
     first_page
       \<lparr>showEditModal := True,
        selected :=
          Some ((''id'', VStr ''r1'') # (''name'', VStr ''Acme Ltd'') #
                drop 2 (stocked_tables ''brands'' ! 0))\<rparr>"

definition color_edit :: crud_screen where
  "color_edit =
     first_page
       \<lparr>showEditModal := True,
        selected :=
          Some ((''id'', VStr ''r1'') # (''name'', VStr ''Crimson'') #
                drop 2 (stocked_tables ''colors'' ! 0))\<rparr>"

text \<open>A service with twenty-one sellers \<open>a\<close> to \<open>u\<close>, created in this order one after the
  other, each with its address.\<close>

fun seller_rows :: "int \<Rightarrow> string \<Rightarrow> row list" where
  "seller_rows t [] = []"
| "seller_rows t (c # cs) =
     (live_row [c] (''Seller '' @ [c]) t @
      [(''user_type'', VStr ''seller''), (''gender'', VStr ''other''), (''age'', VInt 30)]) #
     seller_rows (t + 1) cs"

fun address_rows :: "string \<Rightarrow> row list" where
  "address_rows [] = []"
| "address_rows (c # cs) =
     [(''user_id'', VStr [c]), (''email'', VStr (c # ''@example.org'')),
      (''is_primary'', VBool True)] #
     address_rows cs"

definition crowded_world :: world where
  "crowded_world =
     demo_world
       \<lparr>tables :=
          (\<lambda>t. if t = ''users'' then seller_rows 1 ''abcdefghijklmnopqrstu''
               else if t = ''user_emails'' then address_rows ''abcdefghijklmnopqrstu''
               else [])\<rparr>"

text \<open>The sellers screen after it was opened and \<open>Next\<close> was clicked twice, and then after
  the delete of seller \<open>a\<close>, the only one on page 3, was confirmed.\<close>

definition sellers_on_page_3 :: "world \<times> sellers_screen" where
  "sellers_on_page_3 =
     (let (w1, s1) = loadSellers crowded_world init_sellers;
          (w2, s2) = clickNext w1 s1
      in clickNext w2 s2)"

definition sellers_after_delete :: "world \<times> sellers_screen" where
  "sellers_after_delete =
     handleDeleteSeller (VStr ''a'') True (fst sellers_on_page_3) (snd sellers_on_page_3)"

section \<open>Properties\<close>

subsection \<open>What a notification changes\<close>

lemma toast_error_fields [simp]:
  "tables (toast_error m w) = tables w"
  "requests (toast_error m w) = requests w"
  "online (toast_error m w) = online w"
  "clock (toast_error m w) = clock w"
  "fresh (toast_error m w) = fresh w"
  "col_rank (toast_error m w) = col_rank w"
  "like (toast_error m w) = like w"
  "toasts (toast_error m w) = toasts w @ [\<lparr>toast_id = toast_seq w, toast_type = Error, message = m\<rparr>]"
  by (simp_all add: toast_error_def toast_add_def)

lemma toast_success_fields [simp]:
  "tables (toast_success m w) = tables w"
  "requests (toast_success m w) = requests w"
  "online (toast_success m w) = online w"
  "clock (toast_success m w) = clock w"
  "fresh (toast_success m w) = fresh w"
  "col_rank (toast_success m w) = col_rank w"
  "like (toast_success m w) = like w"
  "toasts (toast_success m w) =
     toasts w @ [\<lparr>toast_id = toast_seq w, toast_type = Success, message = m\<rparr>]"
  by (simp_all add: toast_success_def toast_add_def)

subsection \<open>The backend client\<close>

lemma run_select_snd [simp]:
  "snd (run_select q w) = w\<lparr>requests := requests w @ [ReqSelect q]\<rparr>"
  by (auto simp: run_select_def Let_def split: option.splits)

lemma run_single_snd [simp]:
  "snd (run_single q w) = w\<lparr>requests := requests w @ [ReqSingle q]\<rparr>"
  by (auto simp: run_single_def Let_def split: list.splits)

lemma embed_one_keeps:
  "embed_one tabs e r0 = Some r \<Longrightarrow> map_of r0 c = Some v \<Longrightarrow> map_of r c = Some v"
  by (cases e) (auto split: list.splits)

lemma embed_all_keeps:
  "embed_all tabs es r0 = Some r \<Longrightarrow> map_of r0 c = Some v \<Longrightarrow> map_of r c = Some v"
  by (induction es arbitrary: r0) (auto split: option.splits dest: embed_one_keeps)

lemma embed_one_back:
  "embed_one tabs e r0 = Some r \<Longrightarrow> c \<noteq> embed_alias e \<Longrightarrow> map_of r c = map_of r0 c"
  by (cases e) (auto simp: embed_alias_def map_add_def split: list.splits option.splits)

lemma embed_all_back:
  "embed_all tabs es r0 = Some r \<Longrightarrow> c \<notin> set (map embed_alias es) \<Longrightarrow> map_of r c = map_of r0 c"
  by (induction es arbitrary: r0) (auto split: option.splits dest: embed_one_back)

lemma in_map_filter:
  "y \<in> set (List.map_filter f xs) \<longleftrightarrow> (\<exists>x \<in> set xs. f x = Some y)"
  by (induction xs) (auto split: option.splits)

lemma project_all [simp]: "project [] r = r"
  by (simp add: project_def)

lemma map_project_all [simp]: "map (project []) xs = xs"
  by (induction xs) simp_all

lemma select_rows_source:
  assumes "r \<in> set (select_rows w q)"
  shows "\<exists>r0 \<in> set (tables w (q_table q)).
           list_all (matches (like w) r0) (q_filters q) \<and>
           embed_all (tables w) (q_embed q) r0 = Some r"
  using assms by (auto simp: select_rows_def in_map_filter)

lemma select_rows_eq_filter:
  assumes "r \<in> set (select_rows w q)" "Eq c v \<in> set (q_filters q)"
  shows "map_of r c = Some v"
proof -
  from assms(1) obtain r0 where r0: "list_all (matches (like w) r0) (q_filters q)"
      "embed_all (tables w) (q_embed q) r0 = Some r"
    using select_rows_source by blast
  from r0(1) assms(2) have "matches (like w) r0 (Eq c v)"
    unfolding list_all_iff by blast
  then show ?thesis using r0(2) by (auto dest: embed_all_keeps)
qed

lemma bad_offset_page:
  "((currentPage s - 1) * itemsPerPage < 0) = (currentPage s < 1)"
  by (auto simp: itemsPerPage_def)

lemma insort_key_const: "insort_key (\<lambda>x. k) a xs = a # xs"
  by (cases xs) simp_all

lemma sort_key_const: "sort_key (\<lambda>x. k) xs = xs"
  by (induction xs) (simp_all add: insort_key_const)

lemma map_filter_Some: "List.map_filter Some xs = xs"
  by (induction xs) simp_all

lemma select_rows_plain:
  assumes "q_order q = []" "q_embed q = []"
  shows "select_rows w q =
           filter (\<lambda>r. list_all (matches (like w) r) (q_filters q)) (tables w (q_table q))"
proof -
  have "embed_all (tables w) [] = Some" and "order_key (col_rank w) [] = (\<lambda>r. [])"
    by (rule ext, simp add: order_key_def)+
  then show ?thesis
    using assms by (simp add: select_rows_def sort_key_const map_filter_Some)
qed

lemma check_thrown_single:
  "check_thrown (fst (run_single q w)) = (if online w then None else Some network_error)"
  by (auto simp: check_thrown_def run_single_def Let_def network_error_def not_single_def
      split: list.splits)

lemma data_single:
  "data (fst (run_single q w)) =
     (if online w then (case select_rows w q of [r] \<Rightarrow> Some (project (q_cols q) r) | _ \<Rightarrow> None)
      else None)"
  by (auto simp: run_single_def Let_def split: list.splits)

lemma map_of_filter_keys:
  "map_of (filter (\<lambda>(k, v). P k) xs) c = (if P c then map_of xs c else None)"
  by (induction xs) auto

lemma map_of_map_vals:
  "map_of (map (\<lambda>(k, v). (k, f k v)) xs) c = map_option (f c) (map_of xs c)"
  by (induction xs) auto

lemma map_of_apply_patch:
  "map_of (apply_patch patch r) c =
     (case map_of patch c of Some v \<Rightarrow> Some v | None \<Rightarrow> map_of r c)"
  by (auto simp: apply_patch_def map_add_def map_of_filter_keys map_of_map_vals
      split: option.splits)

lemma soft_patch_field:
  "map_of (apply_patch [(''is_deleted'', VBool True)] r) c =
     (if c = ''is_deleted'' then Some (VBool True) else map_of r c)"
  by (simp add: map_of_apply_patch)

lemma unique_ok_soft_patch:
  "unique_ok t (map (\<lambda>r. if P r then apply_patch [(''is_deleted'', VBool True)] r else r) rows)
     = unique_ok t rows"
proof -
  have "(\<lambda>r. map (map_of r) cols) \<circ>
          (\<lambda>r. if P r then apply_patch [(''is_deleted'', VBool True)] r else r)
        = (\<lambda>r. map (map_of r) cols)"
    if "cols \<in> set (unique_keys t)" for cols
    using that by (intro ext) (auto simp: unique_keys_def soft_patch_field split: if_splits)
  then show ?thesis
    by (simp add: unique_ok_def list_all_iff)
qed

lemma run_update_soft:
  assumes "online w" "unique_ok t (tables w t)"
  shows "run_update t [(''is_deleted'', VBool True)] [Eq ''id'' i] w =
           (None,
            w\<lparr>requests := requests w @ [ReqUpdate t [(''is_deleted'', VBool True)] [Eq ''id'' i]],
              tables := (tables w)
                (t := map (\<lambda>r. if map_of r ''id'' = Some i
                               then apply_patch [(''is_deleted'', VBool True)] r else r)
                        (tables w t))\<rparr>)"
  using assms by (simp add: run_update_def Let_def unique_ok_soft_patch)

lemma unique_ok_free:
  "t \<noteq> ''colors'' \<Longrightarrow> t \<noteq> ''sizes'' \<Longrightarrow> unique_ok t rows"
  by (simp add: unique_ok_def unique_keys_def)

lemma in_page_of: "x \<in> set (page_of rg xs) \<Longrightarrow> x \<in> set xs"
  by (auto simp: page_of_def split: option.splits dest: in_set_takeD in_set_dropD)

lemma soft_deleted_excluded:
  assumes sd: "soft_deleted t i w w'"
    and r: "r \<in> set (select_rows w'' q)"
    and q: "q_table q = t" "Eq ''is_deleted'' (VBool False) \<in> set (q_filters q)"
      "''id'' \<notin> set (map embed_alias (q_embed q))"
    and same: "tables w'' = tables w'"
  shows "map_of r ''id'' \<noteq> Some i"
proof -
  from r obtain r0 where r0: "r0 \<in> set (tables w'' (q_table q))"
      "list_all (matches (like w'') r0) (q_filters q)"
      "embed_all (tables w'') (q_embed q) r0 = Some r"
    using select_rows_source by blast
  from r0(2) q(2) have live: "map_of r0 ''is_deleted'' = Some (VBool False)"
    unfolding list_all_iff by fastforce
  let ?f = "\<lambda>r. if map_of r ''id'' = Some i then apply_patch [(''is_deleted'', VBool True)] r else r"
  from r0(1) sd same q(1) have "r0 \<in> set (map ?f (tables w t))"
    by (simp add: soft_deleted_def)
  then obtain r00 where "r0 = ?f r00"
    unfolding set_map by (rule imageE)
  with live have "map_of r0 ''id'' \<noteq> Some i"
    by (auto simp: soft_patch_field split: if_splits)
  moreover have "map_of r ''id'' = map_of r0 ''id''"
    using r0(3) q(3) by (rule embed_all_back)
  ultimately show ?thesis by simp
qed

lemma soft_deleted_storage:
  assumes "soft_deleted t i w w'"
  shows "length (tables w' t) = length (tables w t)"
    and "filter (\<lambda>r. map_of r ''id'' = Some i) (tables w' t) =
           map (apply_patch [(''is_deleted'', VBool True)])
             (filter (\<lambda>r. map_of r ''id'' = Some i) (tables w t))"
    and "filter (\<lambda>r. map_of r ''id'' \<noteq> Some i) (tables w' t) =
           filter (\<lambda>r. map_of r ''id'' \<noteq> Some i) (tables w t)"
    and "u \<noteq> t \<Longrightarrow> tables w' u = tables w u"
proof -
  let ?f = "\<lambda>r. if map_of r ''id'' = Some i then apply_patch [(''is_deleted'', VBool True)] r else r"
  let ?hit = "\<lambda>r. map_of r ''id'' = Some i"
  let ?miss = "\<lambda>r. map_of r ''id'' \<noteq> Some i"
  have tab: "tables w' t = map ?f (tables w t)"
    using assms by (simp add: soft_deleted_def)
  have hit: "?hit \<circ> ?f = ?hit" and miss: "?miss \<circ> ?f = ?miss"
    by (rule ext, simp add: soft_patch_field)+
  show "length (tables w' t) = length (tables w t)"
    by (simp only: tab length_map)
  have "filter ?hit (tables w' t) = map ?f (filter ?hit (tables w t))"
    by (simp only: tab filter_map hit)
  also have "\<dots> = map (apply_patch [(''is_deleted'', VBool True)]) (filter ?hit (tables w t))"
    by (rule map_cong) simp_all
  finally show "filter ?hit (tables w' t) =
      map (apply_patch [(''is_deleted'', VBool True)]) (filter ?hit (tables w t))" .
  have "filter ?miss (tables w' t) = map ?f (filter ?miss (tables w t))"
    by (simp only: tab filter_map miss)
  also have "\<dots> = filter ?miss (tables w t)"
    by (rule map_idI) simp
  finally show "filter ?miss (tables w' t) = filter ?miss (tables w t)" .
  show "u \<noteq> t \<Longrightarrow> tables w' u = tables w u"
    using assms by (simp add: soft_deleted_def)
qed

lemma select_rows_same:
  "tables w' = tables w \<Longrightarrow> col_rank w' = col_rank w \<Longrightarrow> like w' = like w \<Longrightarrow>
   select_rows w' q = select_rows w q"
  by (simp add: select_rows_def)

lemma select_rows_logged [simp]:
  "select_rows (w\<lparr>requests := rs\<rparr>) q = select_rows w q"
  by (simp add: select_rows_def)

lemma precheck_found:
  assumes "online w" "q_order q = []" "q_embed q = []"
    and "filter (\<lambda>r. list_all (matches (like w) r) (q_filters q)) (tables w (q_table q)) = [r0]"
  shows "check_thrown (fst (run_single q w)) = None"
    and "data (fst (run_single q w)) \<noteq> None"
  using assms by (simp_all add: check_thrown_single data_single select_rows_plain)

lemma validateHexCode_nonempty: "validateHexCode h \<Longrightarrow> h \<noteq> []"
  by (auto simp: validateHexCode_def)

lemmas chain_defs =
  chain_def sb_from_def sb_select_def sb_eq_def sb_neq_def

lemma with_defaults_logged [simp]:
  "with_defaults (w\<lparr>requests := rs\<rparr>) t p = with_defaults w t p"
  by (simp add: with_defaults_def)

subsection \<open>The loads and deletes of the list screens\<close>

lemma fetchBrands_query_fields [simp]:
  "q_table (fetchBrands_query s) = ''brands''"
  "q_cols (fetchBrands_query s) = []"
  "q_embed (fetchBrands_query s) = []"
  "q_count (fetchBrands_query s) = True"
  "q_head (fetchBrands_query s) = False"
  "q_filters (fetchBrands_query s) =
     Eq ''is_deleted'' (VBool False) #
     (if searchQuery s \<noteq> [] then [Ilike ''name'' (''%'' @ searchQuery s @ ''%'')] else [])"
  "q_order (fetchBrands_query s) = [(''created_at'', False)]"
  "q_range (fetchBrands_query s) =
     Some ((currentPage s - 1) * itemsPerPage, currentPage s * itemsPerPage - 1)"
  by (simp_all add: fetchBrands_query_def chain_def sb_from_def sb_select_count_def sb_eq_def
      sb_range_def sb_order_def sb_ilike_def)

lemma fetchBrands_unfold:
  "fetchBrands w s =
     (w\<lparr>requests := requests w @ [ReqSelect (fetchBrands_query s)]\<rparr>,
      if online w \<and> 1 \<le> currentPage s then
        s\<lparr>loading := False, error := None,
          items := page_of (q_range (fetchBrands_query s)) (select_rows w (fetchBrands_query s)),
          totalPages := page_count (Some (length (select_rows w (fetchBrands_query s))))\<rparr>
      else s\<lparr>loading := False, error := Some ''Failed to load brands''\<rparr>)"
  by (auto simp: fetchBrands_def Let_def split_def run_select_def bad_offset_page)

lemma fetchBrands_rows:
  assumes "error (snd (fetchBrands w s)) = None" "r \<in> set (items (snd (fetchBrands w s)))"
  shows "r \<in> set (select_rows w (fetchBrands_query s))"
  using assms unfolding fetchBrands_unfold by (auto split: if_splits dest: in_page_of)

lemma fetchBrands_live:
  assumes "error (snd (fetchBrands w s)) = None" "r \<in> set (items (snd (fetchBrands w s)))"
  shows "not_deleted r"
  unfolding not_deleted_def
  by (rule select_rows_eq_filter [OF fetchBrands_rows [OF assms]]) simp

lemma fetchBrands_excludes:
  assumes "soft_deleted ''brands'' i w w'" "error (snd (fetchBrands w' s)) = None"
    "r \<in> set (items (snd (fetchBrands w' s)))"
  shows "map_of r ''id'' \<noteq> Some i"
  by (rule soft_deleted_excluded [OF assms(1) fetchBrands_rows [OF assms(2,3)]])
    (simp_all add: embed_alias_def)

lemma fetchBrands_pages:
  assumes "error (snd (fetchBrands w s)) = None"
  shows "totalPages (snd (fetchBrands w s)) = page_count (Some (length (select_rows w (fetchBrands_query s))))"
    and "currentPage (snd (fetchBrands w s)) = currentPage s"
    and "1 \<le> currentPage s"
  using assms unfolding fetchBrands_unfold by (auto split: if_splits)

lemma handlePageChange_brands_effect:
  "currentPage (snd (handlePageChange_brands p w s)) = p"
  "requests (fst (handlePageChange_brands p w s)) =
     requests w @ [ReqSelect (fetchBrands_query (s\<lparr>currentPage := p\<rparr>))]"
  by (simp_all add: handlePageChange_brands_def fetchBrands_unfold)

lemma handleDeleteBrand_soft:
  assumes "online w"
  shows "soft_deleted ''brands'' i w (fst (handleDeleteBrand i True w s))"
    and "error (snd (handleDeleteBrand i True w s)) = None \<Longrightarrow>
         r \<in> set (items (snd (handleDeleteBrand i True w s))) \<Longrightarrow> map_of r ''id'' \<noteq> Some i"
proof -
  let ?w1 = "w\<lparr>requests :=
                 requests w @ [ReqUpdate ''brands'' [(''is_deleted'', VBool True)] [Eq ''id'' i]],
               tables := (tables w)
                 (''brands'' := map (\<lambda>r. if map_of r ''id'' = Some i
                                 then apply_patch [(''is_deleted'', VBool True)] r else r)
                          (tables w ''brands''))\<rparr>"
  let ?w2 = "toast_success ''Brand deleted successfully'' ?w1"
  have eq: "handleDeleteBrand i True w s = fetchBrands ?w2 s"
    using assms unique_ok_free [of "''brands''" "tables w ''brands''"] by (simp add: handleDeleteBrand_def run_update_soft)
  show sd: "soft_deleted ''brands'' i w (fst (handleDeleteBrand i True w s))"
    unfolding eq fetchBrands_unfold soft_deleted_def
    by (auto intro: exI [of _ "[fetchBrands_query s]"])
  show "map_of r ''id'' \<noteq> Some i"
    if "error (snd (handleDeleteBrand i True w s)) = None"
      "r \<in> set (items (snd (handleDeleteBrand i True w s)))"
  proof -
    from that have "r \<in> set (select_rows ?w2 (fetchBrands_query s))"
      unfolding eq by (rule fetchBrands_rows)
    then show ?thesis
      by (rule soft_deleted_excluded [OF sd])
        (simp_all add: eq fetchBrands_unfold embed_alias_def)
  qed
qed

lemma handleDeleteBrand_unconfirmed: "handleDeleteBrand i False w s = (w, s)"
  by (simp add: handleDeleteBrand_def)

lemma fetchCategories_query_fields [simp]:
  "q_table (fetchCategories_query s) = ''categories''"
  "q_cols (fetchCategories_query s) = []"
  "q_embed (fetchCategories_query s) = []"
  "q_count (fetchCategories_query s) = True"
  "q_head (fetchCategories_query s) = False"
  "q_filters (fetchCategories_query s) =
     Eq ''is_deleted'' (VBool False) #
     (if searchQuery s \<noteq> [] then [Ilike ''name'' (''%'' @ searchQuery s @ ''%'')] else [])"
  "q_order (fetchCategories_query s) = [(''created_at'', False)]"
  "q_range (fetchCategories_query s) =
     Some ((currentPage s - 1) * itemsPerPage, currentPage s * itemsPerPage - 1)"
  by (simp_all add: fetchCategories_query_def chain_def sb_from_def sb_select_count_def sb_eq_def
      sb_range_def sb_order_def sb_ilike_def)

lemma fetchCategories_unfold:
  "fetchCategories w s =
     (w\<lparr>requests := requests w @ [ReqSelect (fetchCategories_query s)]\<rparr>,
      if online w \<and> 1 \<le> currentPage s then
        s\<lparr>loading := False, error := None,
          items := page_of (q_range (fetchCategories_query s)) (select_rows w (fetchCategories_query s)),
          totalPages := page_count (Some (length (select_rows w (fetchCategories_query s))))\<rparr>
      else s\<lparr>loading := False, error := Some ''Failed to load categories''\<rparr>)"
  by (auto simp: fetchCategories_def Let_def split_def run_select_def bad_offset_page)

lemma fetchCategories_rows:
  assumes "error (snd (fetchCategories w s)) = None" "r \<in> set (items (snd (fetchCategories w s)))"
  shows "r \<in> set (select_rows w (fetchCategories_query s))"
  using assms unfolding fetchCategories_unfold by (auto split: if_splits dest: in_page_of)

lemma fetchCategories_live:
  assumes "error (snd (fetchCategories w s)) = None" "r \<in> set (items (snd (fetchCategories w s)))"
  shows "not_deleted r"
  unfolding not_deleted_def
  by (rule select_rows_eq_filter [OF fetchCategories_rows [OF assms]]) simp

lemma fetchCategories_excludes:
  assumes "soft_deleted ''categories'' i w w'" "error (snd (fetchCategories w' s)) = None"
    "r \<in> set (items (snd (fetchCategories w' s)))"
  shows "map_of r ''id'' \<noteq> Some i"
  by (rule soft_deleted_excluded [OF assms(1) fetchCategories_rows [OF assms(2,3)]])
    (simp_all add: embed_alias_def)

lemma fetchCategories_pages:
  assumes "error (snd (fetchCategories w s)) = None"
  shows "totalPages (snd (fetchCategories w s)) = page_count (Some (length (select_rows w (fetchCategories_query s))))"
    and "currentPage (snd (fetchCategories w s)) = currentPage s"
    and "1 \<le> currentPage s"
  using assms unfolding fetchCategories_unfold by (auto split: if_splits)

lemma handlePageChange_categories_effect:
  "currentPage (snd (handlePageChange_categories p w s)) = p"
  "requests (fst (handlePageChange_categories p w s)) =
     requests w @ [ReqSelect (fetchCategories_query (s\<lparr>currentPage := p\<rparr>))]"
  by (simp_all add: handlePageChange_categories_def fetchCategories_unfold)

lemma handleDeleteCategory_soft:
  assumes "online w"
  shows "soft_deleted ''categories'' i w (fst (handleDeleteCategory i True w s))"
    and "error (snd (handleDeleteCategory i True w s)) = None \<Longrightarrow>
         r \<in> set (items (snd (handleDeleteCategory i True w s))) \<Longrightarrow> map_of r ''id'' \<noteq> Some i"
proof -
  let ?w1 = "w\<lparr>requests :=
                 requests w @ [ReqUpdate ''categories'' [(''is_deleted'', VBool True)] [Eq ''id'' i]],
               tables := (tables w)
                 (''categories'' := map (\<lambda>r. if map_of r ''id'' = Some i
                                 then apply_patch [(''is_deleted'', VBool True)] r else r)
                          (tables w ''categories''))\<rparr>"
  let ?w2 = "toast_success ''Category deleted successfully'' ?w1"
  have eq: "handleDeleteCategory i True w s = fetchCategories ?w2 s"
    using assms unique_ok_free [of "''categories''" "tables w ''categories''"] by (simp add: handleDeleteCategory_def run_update_soft)
  show sd: "soft_deleted ''categories'' i w (fst (handleDeleteCategory i True w s))"
    unfolding eq fetchCategories_unfold soft_deleted_def
    by (auto intro: exI [of _ "[fetchCategories_query s]"])
  show "map_of r ''id'' \<noteq> Some i"
    if "error (snd (handleDeleteCategory i True w s)) = None"
      "r \<in> set (items (snd (handleDeleteCategory i True w s)))"
  proof -
    from that have "r \<in> set (select_rows ?w2 (fetchCategories_query s))"
      unfolding eq by (rule fetchCategories_rows)
    then show ?thesis
      by (rule soft_deleted_excluded [OF sd])
        (simp_all add: eq fetchCategories_unfold embed_alias_def)
  qed
qed

lemma handleDeleteCategory_unconfirmed: "handleDeleteCategory i False w s = (w, s)"
  by (simp add: handleDeleteCategory_def)

lemma loadSubcategories_query_fields [simp]:
  "q_table (loadSubcategories_query s) = ''subcategories''"
  "q_cols (loadSubcategories_query s) = []"
  "q_embed (loadSubcategories_query s) = [EmbedOne ''category'' ''categories'' ''category_id'' ''name'']"
  "q_count (loadSubcategories_query s) = True"
  "q_head (loadSubcategories_query s) = False"
  "q_filters (loadSubcategories_query s) =
     Eq ''is_deleted'' (VBool False) #
     (if searchQuery s \<noteq> [] then [Ilike ''name'' (''%'' @ searchQuery s @ ''%'')] else [])"
  "q_order (loadSubcategories_query s) = [(''created_at'', False)]"
  "q_range (loadSubcategories_query s) =
     Some ((currentPage s - 1) * itemsPerPage, currentPage s * itemsPerPage - 1)"
  by (simp_all add: loadSubcategories_query_def chain_def sb_from_def sb_select_count_def sb_eq_def
      sb_range_def sb_order_def sb_ilike_def sb_embed_def)

lemma loadSubcategories_unfold:
  "loadSubcategories w s =
     (w\<lparr>requests := requests w @ [ReqSelect (loadSubcategories_query s)]\<rparr>,
      if online w \<and> 1 \<le> currentPage s then
        s\<lparr>loading := False, error := None,
          items := page_of (q_range (loadSubcategories_query s)) (select_rows w (loadSubcategories_query s)),
          totalPages := page_count (Some (length (select_rows w (loadSubcategories_query s))))\<rparr>
      else s\<lparr>loading := False, error := Some ''Failed to load subcategories''\<rparr>)"
  by (auto simp: loadSubcategories_def Let_def split_def run_select_def bad_offset_page)

lemma loadSubcategories_rows:
  assumes "error (snd (loadSubcategories w s)) = None" "r \<in> set (items (snd (loadSubcategories w s)))"
  shows "r \<in> set (select_rows w (loadSubcategories_query s))"
  using assms unfolding loadSubcategories_unfold by (auto split: if_splits dest: in_page_of)

lemma loadSubcategories_live:
  assumes "error (snd (loadSubcategories w s)) = None" "r \<in> set (items (snd (loadSubcategories w s)))"
  shows "not_deleted r"
  unfolding not_deleted_def
  by (rule select_rows_eq_filter [OF loadSubcategories_rows [OF assms]]) simp

lemma loadSubcategories_excludes:
  assumes "soft_deleted ''subcategories'' i w w'" "error (snd (loadSubcategories w' s)) = None"
    "r \<in> set (items (snd (loadSubcategories w' s)))"
  shows "map_of r ''id'' \<noteq> Some i"
  by (rule soft_deleted_excluded [OF assms(1) loadSubcategories_rows [OF assms(2,3)]])
    (simp_all add: embed_alias_def)

lemma loadSubcategories_pages:
  assumes "error (snd (loadSubcategories w s)) = None"
  shows "totalPages (snd (loadSubcategories w s)) = page_count (Some (length (select_rows w (loadSubcategories_query s))))"
    and "currentPage (snd (loadSubcategories w s)) = currentPage s"
    and "1 \<le> currentPage s"
  using assms unfolding loadSubcategories_unfold by (auto split: if_splits)

lemma handlePageChange_subcategories_effect:
  "currentPage (snd (handlePageChange_subcategories p w s)) = p"
  "requests (fst (handlePageChange_subcategories p w s)) =
     requests w @ [ReqSelect (loadSubcategories_query (s\<lparr>currentPage := p\<rparr>))]"
  by (simp_all add: handlePageChange_subcategories_def loadSubcategories_unfold)

lemma handleDeleteSubcategory_soft:
  assumes "online w"
  shows "soft_deleted ''subcategories'' i w (fst (handleDeleteSubcategory i True w s))"
    and "error (snd (handleDeleteSubcategory i True w s)) = None \<Longrightarrow>
         r \<in> set (items (snd (handleDeleteSubcategory i True w s))) \<Longrightarrow> map_of r ''id'' \<noteq> Some i"
proof -
  let ?w1 = "w\<lparr>requests :=
                 requests w @ [ReqUpdate ''subcategories'' [(''is_deleted'', VBool True)] [Eq ''id'' i]],
               tables := (tables w)
                 (''subcategories'' := map (\<lambda>r. if map_of r ''id'' = Some i
                                 then apply_patch [(''is_deleted'', VBool True)] r else r)
                          (tables w ''subcategories''))\<rparr>"
  let ?w2 = "toast_success ''Subcategory deleted successfully'' ?w1"
  have eq: "handleDeleteSubcategory i True w s = loadSubcategories ?w2 s"
    using assms unique_ok_free [of "''subcategories''" "tables w ''subcategories''"] by (simp add: handleDeleteSubcategory_def run_update_soft)
  show sd: "soft_deleted ''subcategories'' i w (fst (handleDeleteSubcategory i True w s))"
    unfolding eq loadSubcategories_unfold soft_deleted_def
    by (auto intro: exI [of _ "[loadSubcategories_query s]"])
  show "map_of r ''id'' \<noteq> Some i"
    if "error (snd (handleDeleteSubcategory i True w s)) = None"
      "r \<in> set (items (snd (handleDeleteSubcategory i True w s)))"
  proof -
    from that have "r \<in> set (select_rows ?w2 (loadSubcategories_query s))"
      unfolding eq by (rule loadSubcategories_rows)
    then show ?thesis
      by (rule soft_deleted_excluded [OF sd])
        (simp_all add: eq loadSubcategories_unfold embed_alias_def)
  qed
qed

lemma handleDeleteSubcategory_unconfirmed: "handleDeleteSubcategory i False w s = (w, s)"
  by (simp add: handleDeleteSubcategory_def)

lemma fetchAudiences_query_fields [simp]:
  "q_table (fetchAudiences_query s) = ''audiences''"
  "q_cols (fetchAudiences_query s) = []"
  "q_embed (fetchAudiences_query s) = []"
  "q_count (fetchAudiences_query s) = True"
  "q_head (fetchAudiences_query s) = False"
  "q_filters (fetchAudiences_query s) =
     Eq ''is_deleted'' (VBool False) #
     (if searchQuery s \<noteq> [] then [Ilike ''name'' (''%'' @ searchQuery s @ ''%'')] else [])"
  "q_order (fetchAudiences_query s) = [(''created_at'', False)]"
  "q_range (fetchAudiences_query s) =
     Some ((currentPage s - 1) * itemsPerPage, currentPage s * itemsPerPage - 1)"
  by (simp_all add: fetchAudiences_query_def chain_def sb_from_def sb_select_count_def sb_eq_def
      sb_range_def sb_order_def sb_ilike_def)

lemma fetchAudiences_unfold:
  "fetchAudiences w s =
     (w\<lparr>requests := requests w @ [ReqSelect (fetchAudiences_query s)]\<rparr>,
      if online w \<and> 1 \<le> currentPage s then
        s\<lparr>loading := False, error := None,
          items := page_of (q_range (fetchAudiences_query s)) (select_rows w (fetchAudiences_query s)),
          totalPages := page_count (Some (length (select_rows w (fetchAudiences_query s))))\<rparr>
      else s\<lparr>loading := False, error := Some ''Failed to load audiences''\<rparr>)"
  by (auto simp: fetchAudiences_def Let_def split_def run_select_def bad_offset_page)

lemma fetchAudiences_rows:
  assumes "error (snd (fetchAudiences w s)) = None" "r \<in> set (items (snd (fetchAudiences w s)))"
  shows "r \<in> set (select_rows w (fetchAudiences_query s))"
  using assms unfolding fetchAudiences_unfold by (auto split: if_splits dest: in_page_of)

lemma fetchAudiences_live:
  assumes "error (snd (fetchAudiences w s)) = None" "r \<in> set (items (snd (fetchAudiences w s)))"
  shows "not_deleted r"
  unfolding not_deleted_def
  by (rule select_rows_eq_filter [OF fetchAudiences_rows [OF assms]]) simp

lemma fetchAudiences_excludes:
  assumes "soft_deleted ''audiences'' i w w'" "error (snd (fetchAudiences w' s)) = None"
    "r \<in> set (items (snd (fetchAudiences w' s)))"
  shows "map_of r ''id'' \<noteq> Some i"
  by (rule soft_deleted_excluded [OF assms(1) fetchAudiences_rows [OF assms(2,3)]])
    (simp_all add: embed_alias_def)

lemma fetchAudiences_pages:
  assumes "error (snd (fetchAudiences w s)) = None"
  shows "totalPages (snd (fetchAudiences w s)) = page_count (Some (length (select_rows w (fetchAudiences_query s))))"
    and "currentPage (snd (fetchAudiences w s)) = currentPage s"
    and "1 \<le> currentPage s"
  using assms unfolding fetchAudiences_unfold by (auto split: if_splits)

lemma handlePageChange_audiences_effect:
  "currentPage (snd (handlePageChange_audiences p w s)) = p"
  "requests (fst (handlePageChange_audiences p w s)) =
     requests w @ [ReqSelect (fetchAudiences_query (s\<lparr>currentPage := p\<rparr>))]"
  by (simp_all add: handlePageChange_audiences_def fetchAudiences_unfold)

lemma handleDeleteAudience_soft:
  assumes "online w"
  shows "soft_deleted ''audiences'' i w (fst (handleDeleteAudience i True w s))"
    and "error (snd (handleDeleteAudience i True w s)) = None \<Longrightarrow>
         r \<in> set (items (snd (handleDeleteAudience i True w s))) \<Longrightarrow> map_of r ''id'' \<noteq> Some i"
proof -
  let ?w1 = "w\<lparr>requests :=
                 requests w @ [ReqUpdate ''audiences'' [(''is_deleted'', VBool True)] [Eq ''id'' i]],
               tables := (tables w)
                 (''audiences'' := map (\<lambda>r. if map_of r ''id'' = Some i
                                 then apply_patch [(''is_deleted'', VBool True)] r else r)
                          (tables w ''audiences''))\<rparr>"
  let ?w2 = "toast_success ''Audience deleted successfully'' ?w1"
  have eq: "handleDeleteAudience i True w s = fetchAudiences ?w2 s"
    using assms unique_ok_free [of "''audiences''" "tables w ''audiences''"] by (simp add: handleDeleteAudience_def run_update_soft)
  show sd: "soft_deleted ''audiences'' i w (fst (handleDeleteAudience i True w s))"
    unfolding eq fetchAudiences_unfold soft_deleted_def
    by (auto intro: exI [of _ "[fetchAudiences_query s]"])
  show "map_of r ''id'' \<noteq> Some i"
    if "error (snd (handleDeleteAudience i True w s)) = None"
      "r \<in> set (items (snd (handleDeleteAudience i True w s)))"
  proof -
    from that have "r \<in> set (select_rows ?w2 (fetchAudiences_query s))"
      unfolding eq by (rule fetchAudiences_rows)
    then show ?thesis
      by (rule soft_deleted_excluded [OF sd])
        (simp_all add: eq fetchAudiences_unfold embed_alias_def)
  qed
qed

lemma handleDeleteAudience_unconfirmed: "handleDeleteAudience i False w s = (w, s)"
  by (simp add: handleDeleteAudience_def)

lemma fetchColors_query_fields [simp]:
  "q_table (fetchColors_query s) = ''colors''"
  "q_cols (fetchColors_query s) = []"
  "q_embed (fetchColors_query s) = []"
  "q_count (fetchColors_query s) = True"
  "q_head (fetchColors_query s) = False"
  "q_filters (fetchColors_query s) =
     Eq ''is_deleted'' (VBool False) #
     (if searchQuery s \<noteq> [] then [Ilike ''name'' (''%'' @ searchQuery s @ ''%'')] else [])"
  "q_order (fetchColors_query s) = [(''created_at'', False)]"
  "q_range (fetchColors_query s) =
     Some ((currentPage s - 1) * itemsPerPage, currentPage s * itemsPerPage - 1)"
  by (simp_all add: fetchColors_query_def chain_def sb_from_def sb_select_count_def sb_eq_def
      sb_range_def sb_order_def sb_ilike_def)

lemma fetchColors_unfold:
  "fetchColors w s =
     (w\<lparr>requests := requests w @ [ReqSelect (fetchColors_query s)]\<rparr>,
      if online w \<and> 1 \<le> currentPage s then
        s\<lparr>loading := False, error := None,
          items := page_of (q_range (fetchColors_query s)) (select_rows w (fetchColors_query s)),
          totalPages := page_count (Some (length (select_rows w (fetchColors_query s))))\<rparr>
      else s\<lparr>loading := False, error := Some ''Failed to load colors''\<rparr>)"
  by (auto simp: fetchColors_def Let_def split_def run_select_def bad_offset_page)

lemma fetchColors_rows:
  assumes "error (snd (fetchColors w s)) = None" "r \<in> set (items (snd (fetchColors w s)))"
  shows "r \<in> set (select_rows w (fetchColors_query s))"
  using assms unfolding fetchColors_unfold by (auto split: if_splits dest: in_page_of)

lemma fetchColors_live:
  assumes "error (snd (fetchColors w s)) = None" "r \<in> set (items (snd (fetchColors w s)))"
  shows "not_deleted r"
  unfolding not_deleted_def
  by (rule select_rows_eq_filter [OF fetchColors_rows [OF assms]]) simp

lemma fetchColors_excludes:
  assumes "soft_deleted ''colors'' i w w'" "error (snd (fetchColors w' s)) = None"
    "r \<in> set (items (snd (fetchColors w' s)))"
  shows "map_of r ''id'' \<noteq> Some i"
  by (rule soft_deleted_excluded [OF assms(1) fetchColors_rows [OF assms(2,3)]])
    (simp_all add: embed_alias_def)

lemma fetchColors_pages:
  assumes "error (snd (fetchColors w s)) = None"
  shows "totalPages (snd (fetchColors w s)) = page_count (Some (length (select_rows w (fetchColors_query s))))"
    and "currentPage (snd (fetchColors w s)) = currentPage s"
    and "1 \<le> currentPage s"
  using assms unfolding fetchColors_unfold by (auto split: if_splits)

lemma handlePageChange_colors_effect:
  "currentPage (snd (handlePageChange_colors p w s)) = p"
  "requests (fst (handlePageChange_colors p w s)) =
     requests w @ [ReqSelect (fetchColors_query (s\<lparr>currentPage := p\<rparr>))]"
  by (simp_all add: handlePageChange_colors_def fetchColors_unfold)

lemma handleDeleteColor_soft:
  assumes "online w" "unique_ok ''colors'' (tables w ''colors'')"
  shows "soft_deleted ''colors'' i w (fst (handleDeleteColor i True w s))"
    and "error (snd (handleDeleteColor i True w s)) = None \<Longrightarrow>
         r \<in> set (items (snd (handleDeleteColor i True w s))) \<Longrightarrow> map_of r ''id'' \<noteq> Some i"
proof -
  let ?w1 = "w\<lparr>requests :=
                 requests w @ [ReqUpdate ''colors'' [(''is_deleted'', VBool True)] [Eq ''id'' i]],
               tables := (tables w)
                 (''colors'' := map (\<lambda>r. if map_of r ''id'' = Some i
                                 then apply_patch [(''is_deleted'', VBool True)] r else r)
                          (tables w ''colors''))\<rparr>"
  let ?w2 = "toast_success ''Color deleted successfully'' ?w1"
  have eq: "handleDeleteColor i True w s = fetchColors ?w2 s"
    using assms by (simp add: handleDeleteColor_def run_update_soft)
  show sd: "soft_deleted ''colors'' i w (fst (handleDeleteColor i True w s))"
    unfolding eq fetchColors_unfold soft_deleted_def
    by (auto intro: exI [of _ "[fetchColors_query s]"])
  show "map_of r ''id'' \<noteq> Some i"
    if "error (snd (handleDeleteColor i True w s)) = None"
      "r \<in> set (items (snd (handleDeleteColor i True w s)))"
  proof -
    from that have "r \<in> set (select_rows ?w2 (fetchColors_query s))"
      unfolding eq by (rule fetchColors_rows)
    then show ?thesis
      by (rule soft_deleted_excluded [OF sd])
        (simp_all add: eq fetchColors_unfold embed_alias_def)
  qed
qed

lemma handleDeleteColor_unconfirmed: "handleDeleteColor i False w s = (w, s)"
  by (simp add: handleDeleteColor_def)

lemma fetchSizes_query_fields [simp]:
  "q_table (fetchSizes_query s) = ''sizes''"
  "q_cols (fetchSizes_query s) = []"
  "q_embed (fetchSizes_query s) = []"
  "q_count (fetchSizes_query s) = True"
  "q_head (fetchSizes_query s) = False"
  "q_filters (fetchSizes_query s) =
     Eq ''is_deleted'' (VBool False) #
     (if searchQuery s \<noteq> [] then
        [OrIlike [(''label'', ''%'' @ searchQuery s @ ''%''),
                  (''description'', ''%'' @ searchQuery s @ ''%'')]]
      else [])"
  "q_order (fetchSizes_query s) = [(''category'', True), (''display_order'', True)]"
  "q_range (fetchSizes_query s) =
     Some ((currentPage s - 1) * itemsPerPage, currentPage s * itemsPerPage - 1)"
  by (simp_all add: fetchSizes_query_def chain_def sb_from_def sb_select_count_def sb_eq_def
      sb_range_def sb_order_def sb_or_ilike_def)

lemma fetchSizes_unfold:
  "fetchSizes w s =
     (w\<lparr>requests := requests w @ [ReqSelect (fetchSizes_query s)]\<rparr>,
      if online w \<and> 1 \<le> currentPage s then
        s\<lparr>loading := False, error := None,
          items := page_of (q_range (fetchSizes_query s)) (select_rows w (fetchSizes_query s)),
          totalPages := page_count (Some (length (select_rows w (fetchSizes_query s))))\<rparr>
      else s\<lparr>loading := False, error := Some ''Failed to load sizes''\<rparr>)"
  by (auto simp: fetchSizes_def Let_def split_def run_select_def bad_offset_page)

lemma fetchSizes_rows:
  assumes "error (snd (fetchSizes w s)) = None" "r \<in> set (items (snd (fetchSizes w s)))"
  shows "r \<in> set (select_rows w (fetchSizes_query s))"
  using assms unfolding fetchSizes_unfold by (auto split: if_splits dest: in_page_of)

lemma fetchSizes_live:
  assumes "error (snd (fetchSizes w s)) = None" "r \<in> set (items (snd (fetchSizes w s)))"
  shows "not_deleted r"
  unfolding not_deleted_def
  by (rule select_rows_eq_filter [OF fetchSizes_rows [OF assms]]) simp

lemma fetchSizes_excludes:
  assumes "soft_deleted ''sizes'' i w w'" "error (snd (fetchSizes w' s)) = None"
    "r \<in> set (items (snd (fetchSizes w' s)))"
  shows "map_of r ''id'' \<noteq> Some i"
  by (rule soft_deleted_excluded [OF assms(1) fetchSizes_rows [OF assms(2,3)]])
    (simp_all add: embed_alias_def)

lemma fetchSizes_pages:
  assumes "error (snd (fetchSizes w s)) = None"
  shows "totalPages (snd (fetchSizes w s)) = page_count (Some (length (select_rows w (fetchSizes_query s))))"
    and "currentPage (snd (fetchSizes w s)) = currentPage s"
    and "1 \<le> currentPage s"
  using assms unfolding fetchSizes_unfold by (auto split: if_splits)

lemma handlePageChange_sizes_effect:
  "currentPage (snd (handlePageChange_sizes p w s)) = p"
  "requests (fst (handlePageChange_sizes p w s)) =
     requests w @ [ReqSelect (fetchSizes_query (s\<lparr>currentPage := p\<rparr>))]"
  by (simp_all add: handlePageChange_sizes_def fetchSizes_unfold)

lemma handleDeleteSize_soft:
  assumes "online w" "unique_ok ''sizes'' (tables w ''sizes'')"
  shows "soft_deleted ''sizes'' i w (fst (handleDeleteSize i True w s))"
    and "error (snd (handleDeleteSize i True w s)) = None \<Longrightarrow>
         r \<in> set (items (snd (handleDeleteSize i True w s))) \<Longrightarrow> map_of r ''id'' \<noteq> Some i"
proof -
  let ?w1 = "w\<lparr>requests :=
                 requests w @ [ReqUpdate ''sizes'' [(''is_deleted'', VBool True)] [Eq ''id'' i]],
               tables := (tables w)
                 (''sizes'' := map (\<lambda>r. if map_of r ''id'' = Some i
                                 then apply_patch [(''is_deleted'', VBool True)] r else r)
                          (tables w ''sizes''))\<rparr>"
  let ?w2 = "toast_success ''Size deleted successfully'' ?w1"
  have eq: "handleDeleteSize i True w s = fetchSizes ?w2 s"
    using assms by (simp add: handleDeleteSize_def run_update_soft)
  show sd: "soft_deleted ''sizes'' i w (fst (handleDeleteSize i True w s))"
    unfolding eq fetchSizes_unfold soft_deleted_def
    by (auto intro: exI [of _ "[fetchSizes_query s]"])
  show "map_of r ''id'' \<noteq> Some i"
    if "error (snd (handleDeleteSize i True w s)) = None"
      "r \<in> set (items (snd (handleDeleteSize i True w s)))"
  proof -
    from that have "r \<in> set (select_rows ?w2 (fetchSizes_query s))"
      unfolding eq by (rule fetchSizes_rows)
    then show ?thesis
      by (rule soft_deleted_excluded [OF sd])
        (simp_all add: eq fetchSizes_unfold embed_alias_def)
  qed
qed

lemma handleDeleteSize_unconfirmed: "handleDeleteSize i False w s = (w, s)"
  by (simp add: handleDeleteSize_def)

subsection \<open>The sellers screen and the second brands screen\<close>

lemma loadSellers_count_query_fields [simp]:
  "q_table loadSellers_count_query = ''users''"
  "q_cols loadSellers_count_query = []"
  "q_embed loadSellers_count_query = []"
  "q_count loadSellers_count_query = True"
  "q_head loadSellers_count_query = True"
  "q_filters loadSellers_count_query =
     [Eq ''user_type'' (VStr ''seller''), Eq ''is_deleted'' (VBool False)]"
  "q_order loadSellers_count_query = []"
  "q_range loadSellers_count_query = None"
  by (simp_all add: loadSellers_count_query_def chain_def sb_from_def sb_select_head_def sb_eq_def)

lemma loadSellers_query_fields [simp]:
  "q_table (loadSellers_query s) = ''users''"
  "q_cols (loadSellers_query s) = []"
  "q_embed (loadSellers_query s) = [EmbedInner ''user_emails'' ''user_id'' ''email'']"
  "q_count (loadSellers_query s) = False"
  "q_head (loadSellers_query s) = False"
  "q_filters (loadSellers_query s) =
     [Eq ''user_type'' (VStr ''seller''), Eq ''is_deleted'' (VBool False)]"
  "q_order (loadSellers_query s) = [(''created_at'', False)]"
  "q_range (loadSellers_query s) =
     Some ((currentPage s - 1) * itemsPerPage, currentPage s * itemsPerPage - 1)"
  by (simp_all add: loadSellers_query_def chain_def sb_from_def sb_select_def sb_eq_def
      sb_range_def sb_order_def sb_embed_def)

lemma loadSellers_unfold:
  "loadSellers w s =
     (if \<not> online w then
        (w\<lparr>requests := requests w @ [ReqSelect loadSellers_count_query]\<rparr>,
         s\<lparr>isLoading := False,
           error := Some (message_or (msg network_error) ''An error occurred while loading sellers'')\<rparr>)
      else
        (w\<lparr>requests :=
             requests w @ [ReqSelect loadSellers_count_query, ReqSelect (loadSellers_query s)]\<rparr>,
         if 1 \<le> currentPage s then
           s\<lparr>isLoading := False, error := None,
             totalItems := length (select_rows w loadSellers_count_query),
             totalPages := page_count (Some (length (select_rows w loadSellers_count_query))),
             sellers := page_of (q_range (loadSellers_query s)) (select_rows w (loadSellers_query s))\<rparr>
         else
           s\<lparr>isLoading := False,
             error := Some (message_or (msg offset_error) ''An error occurred while loading sellers''),
             totalItems := length (select_rows w loadSellers_count_query),
             totalPages := page_count (Some (length (select_rows w loadSellers_count_query)))\<rparr>))"
  by (auto simp: loadSellers_def Let_def split_def run_select_def bad_offset_page)

lemma message_or_nonempty: "fallback \<noteq> [] \<Longrightarrow> message_or m fallback \<noteq> []"
  by (simp add: message_or_def)

lemma loadSellers_rows:
  assumes "error (snd (loadSellers w s)) = None" "r \<in> set (sellers (snd (loadSellers w s)))"
  shows "r \<in> set (select_rows w (loadSellers_query s))"
  using assms unfolding loadSellers_unfold by (auto split: if_splits dest: in_page_of)

lemma loadSellers_live:
  assumes "error (snd (loadSellers w s)) = None" "r \<in> set (sellers (snd (loadSellers w s)))"
  shows "not_deleted r"
  unfolding not_deleted_def
  by (rule select_rows_eq_filter [OF loadSellers_rows [OF assms]]) simp

lemma loadSellers_excludes:
  assumes "soft_deleted ''users'' i w w'" "error (snd (loadSellers w' s)) = None"
    "r \<in> set (sellers (snd (loadSellers w' s)))"
  shows "map_of r ''id'' \<noteq> Some i"
  by (rule soft_deleted_excluded [OF assms(1) loadSellers_rows [OF assms(2,3)]])
    (simp_all add: embed_alias_def)

lemma loadSellers_pages:
  assumes "error (snd (loadSellers w s)) = None"
  shows "totalPages (snd (loadSellers w s)) =
           page_count (Some (length (select_rows w loadSellers_count_query)))"
    and "currentPage (snd (loadSellers w s)) = currentPage s"
    and "1 \<le> currentPage s"
  using assms unfolding loadSellers_unfold by (auto split: if_splits)

lemma handleDeleteSeller_soft:
  assumes "online w"
  shows "soft_deleted ''users'' i w (fst (handleDeleteSeller i True w s))"
    and "error (snd (handleDeleteSeller i True w s)) = None \<Longrightarrow>
         r \<in> set (sellers (snd (handleDeleteSeller i True w s))) \<Longrightarrow> map_of r ''id'' \<noteq> Some i"
proof -
  let ?w1 = "w\<lparr>requests :=
                 requests w @ [ReqUpdate ''users'' [(''is_deleted'', VBool True)] [Eq ''id'' i]],
               tables := (tables w)
                 (''users'' := map (\<lambda>r. if map_of r ''id'' = Some i
                                 then apply_patch [(''is_deleted'', VBool True)] r else r)
                          (tables w ''users''))\<rparr>"
  let ?s1 = "showSuccessMessage ''Seller deleted successfully''
               (s\<lparr>isLoading := True, error := None, success := None\<rparr>)"
  have eq: "handleDeleteSeller i True w s =
              (fst (loadSellers ?w1 ?s1), (snd (loadSellers ?w1 ?s1))\<lparr>isLoading := False\<rparr>)"
    using assms unique_ok_free [of "''users''" "tables w ''users''"]
    by (simp add: handleDeleteSeller_def run_update_soft split_def Let_def)
  show sd: "soft_deleted ''users'' i w (fst (handleDeleteSeller i True w s))"
    unfolding eq using assms
    by (auto simp: loadSellers_unfold soft_deleted_def
        intro: exI [of _ "[loadSellers_count_query, loadSellers_query ?s1]"])
  show "map_of r ''id'' \<noteq> Some i"
    if "error (snd (handleDeleteSeller i True w s)) = None"
      "r \<in> set (sellers (snd (handleDeleteSeller i True w s)))"
  proof -
    from that have "r \<in> set (select_rows ?w1 (loadSellers_query ?s1))"
      unfolding eq by (auto intro: loadSellers_rows)
    then show ?thesis
      by (rule soft_deleted_excluded [OF sd])
        (simp_all add: eq loadSellers_unfold embed_alias_def assms)
  qed
qed

lemma handleDeleteSeller_unconfirmed: "handleDeleteSeller i False w s = (w, s)"
  by (simp add: handleDeleteSeller_def)

lemma loadBrands_query_fields [simp]:
  "q_table loadBrands_query = ''brands''"
  "q_cols loadBrands_query = []"
  "q_embed loadBrands_query = []"
  "q_count loadBrands_query = False"
  "q_head loadBrands_query = False"
  "q_filters loadBrands_query = [Eq ''is_deleted'' (VBool False)]"
  "q_order loadBrands_query = [(''created_at'', False)]"
  "q_range loadBrands_query = None"
  by (simp_all add: loadBrands_query_def chain_def sb_from_def sb_select_def sb_eq_def sb_order_def)

lemma loadBrands_unfold:
  "loadBrands w s =
     (if online w then
        (w\<lparr>requests := requests w @ [ReqSelect loadBrands_query]\<rparr>,
         s\<lparr>brands_v2 := select_rows w loadBrands_query, loading_v2 := False\<rparr>)
      else
        (toast_error ''Failed to load brands'' (w\<lparr>requests := requests w @ [ReqSelect loadBrands_query]\<rparr>),
         s\<lparr>loading_v2 := False\<rparr>))"
  by (auto simp: loadBrands_def Let_def split_def run_select_def page_of_def)

lemma loadBrands_rows:
  assumes "toasts (fst (loadBrands w s)) = toasts w" "r \<in> set (brands_v2 (snd (loadBrands w s)))"
  shows "r \<in> set (select_rows w loadBrands_query)"
  using assms unfolding loadBrands_unfold by (auto split: if_splits)

lemma loadBrands_live:
  assumes "toasts (fst (loadBrands w s)) = toasts w" "r \<in> set (brands_v2 (snd (loadBrands w s)))"
  shows "not_deleted r"
  unfolding not_deleted_def
  by (rule select_rows_eq_filter [OF loadBrands_rows [OF assms]]) simp

lemma loadBrands_excludes:
  assumes "soft_deleted ''brands'' i w w'" "toasts (fst (loadBrands w' s)) = toasts w'"
    "r \<in> set (brands_v2 (snd (loadBrands w' s)))"
  shows "map_of r ''id'' \<noteq> Some i"
  by (rule soft_deleted_excluded [OF assms(1) loadBrands_rows [OF assms(2,3)]])
    (simp_all add: embed_alias_def)

lemma handleDeleteBrand_v2_soft:
  assumes "online w"
  shows "soft_deleted ''brands'' i w (fst (handleDeleteBrand_v2 i True w s))"
    and "r \<in> set (brands_v2 (snd (handleDeleteBrand_v2 i True w s))) \<Longrightarrow> map_of r ''id'' \<noteq> Some i"
proof -
  let ?w1 = "w\<lparr>requests :=
                 requests w @ [ReqUpdate ''brands'' [(''is_deleted'', VBool True)] [Eq ''id'' i]],
               tables := (tables w)
                 (''brands'' := map (\<lambda>r. if map_of r ''id'' = Some i
                                 then apply_patch [(''is_deleted'', VBool True)] r else r)
                          (tables w ''brands''))\<rparr>"
  let ?w2 = "toast_success ''Brand deleted successfully'' ?w1"
  have eq: "handleDeleteBrand_v2 i True w s = loadBrands ?w2 s"
    using assms unique_ok_free [of "''brands''" "tables w ''brands''"]
    by (simp add: handleDeleteBrand_v2_def run_update_soft)
  show sd: "soft_deleted ''brands'' i w (fst (handleDeleteBrand_v2 i True w s))"
    unfolding eq loadBrands_unfold soft_deleted_def using assms
    by (auto intro: exI [of _ "[loadBrands_query]"])
  show "map_of r ''id'' \<noteq> Some i"
    if "r \<in> set (brands_v2 (snd (handleDeleteBrand_v2 i True w s)))"
  proof -
    from that have "r \<in> set (select_rows ?w2 loadBrands_query)"
      unfolding eq loadBrands_unfold using assms by simp
    then show ?thesis
      by (rule soft_deleted_excluded [OF sd])
        (simp_all add: eq loadBrands_unfold embed_alias_def assms)
  qed
qed

lemma handleDeleteBrand_v2_unconfirmed: "handleDeleteBrand_v2 i False w s = (w, s)"
  by (simp add: handleDeleteBrand_v2_def)

lemma click_boundaries:
  "currentPage s = 1 \<or> totalPages s \<le> 1 \<Longrightarrow> clickPrevious w s = (w, s)"
  "currentPage s = totalPages s \<or> totalPages s \<le> 1 \<Longrightarrow> clickNext w s = (w, s)"
  by (auto simp: clickPrevious_def clickNext_def)

lemma handleEditSeller_request:
  "requests (fst (handleEditSeller w s)) ! length (requests w) =
     ReqUpdate ''users''
       [(''name'', val_of (formData s) ''name''), (''gender'', val_of (formData s) ''gender''),
        (''age'', val_of (formData s) ''age'')]
       [Eq ''id'' (val_of (formData s) ''id'')]"
  by (auto simp: handleEditSeller_def Let_def split_def run_update_def loadSellers_unfold
      nth_append split: option.splits)

subsection \<open>The pre-check of an add\<close>

lemma handleAddBrand_conflict:
  assumes "online w"
    and "trim (text_of (draft s) ''name'') \<noteq> []"
    and "filter (\<lambda>r. map_of r ''name'' = Some (VStr (trim (text_of (draft s) ''name'')))
                    \<and> not_deleted r) (tables w ''brands'') = [r0]"
  shows "tables (fst (handleAddBrand w s)) = tables w
       \<and> snd (handleAddBrand w s) = s
       \<and> toasts (fst (handleAddBrand w s)) =
           toasts w @ [\<lparr>toast_id = toast_seq w, toast_type = Error,
                        message = ''A brand with this name already exists''\<rparr>]
       \<and> (\<exists>q. requests (fst (handleAddBrand w s)) = requests w @ [ReqSingle q])"
  using assms unfolding not_deleted_def
  by (simp add: handleAddBrand_def split_def Let_def check_thrown_single data_single
      select_rows_plain chain_defs)

lemma handleAddCategory_conflict:
  assumes "online w"
    and "trim (text_of (draft s) ''name'') \<noteq> []"
    and "filter (\<lambda>r. map_of r ''name'' = Some (VStr (trim (text_of (draft s) ''name'')))
                    \<and> not_deleted r) (tables w ''categories'') = [r0]"
  shows "tables (fst (handleAddCategory w s)) = tables w
       \<and> snd (handleAddCategory w s) = s
       \<and> toasts (fst (handleAddCategory w s)) =
           toasts w @ [\<lparr>toast_id = toast_seq w, toast_type = Error,
                        message = ''A category with this name already exists''\<rparr>]
       \<and> (\<exists>q. requests (fst (handleAddCategory w s)) = requests w @ [ReqSingle q])"
  using assms unfolding not_deleted_def
  by (simp add: handleAddCategory_def split_def Let_def check_thrown_single data_single
      select_rows_plain chain_defs)

lemma handleAddSubcategory_conflict:
  assumes "online w"
    and "trim (text_of (draft s) ''name'') \<noteq> []"
    and "\<not> falsy (val_of (draft s) ''category_id'')"
    and "filter (\<lambda>r. map_of r ''name'' = Some (VStr (trim (text_of (draft s) ''name'')))
                    \<and> map_of r ''category_id'' = Some (val_of (draft s) ''category_id'')
                    \<and> not_deleted r) (tables w ''subcategories'') = [r0]"
  shows "tables (fst (handleAddSubcategory w s)) = tables w
       \<and> snd (handleAddSubcategory w s) = s
       \<and> toasts (fst (handleAddSubcategory w s)) =
           toasts w @ [\<lparr>toast_id = toast_seq w, toast_type = Error,
                        message = ''A subcategory with this name already exists in the selected category''\<rparr>]
       \<and> (\<exists>q. requests (fst (handleAddSubcategory w s)) = requests w @ [ReqSingle q])"
  using assms unfolding not_deleted_def
  by (simp add: handleAddSubcategory_def split_def Let_def check_thrown_single data_single
      select_rows_plain chain_defs)

lemma handleAddAudience_conflict:
  assumes "online w"
    and "trim (text_of (draft s) ''name'') \<noteq> []"
    and "filter (\<lambda>r. map_of r ''name'' = Some (VStr (trim (text_of (draft s) ''name'')))
                    \<and> not_deleted r) (tables w ''audiences'') = [r0]"
  shows "tables (fst (handleAddAudience w s)) = tables w
       \<and> snd (handleAddAudience w s) = s
       \<and> toasts (fst (handleAddAudience w s)) =
           toasts w @ [\<lparr>toast_id = toast_seq w, toast_type = Error,
                        message = ''An audience with this name already exists''\<rparr>]
       \<and> (\<exists>q. requests (fst (handleAddAudience w s)) = requests w @ [ReqSingle q])"
  using assms unfolding not_deleted_def
  by (simp add: handleAddAudience_def split_def Let_def check_thrown_single data_single
      select_rows_plain chain_defs)

lemma handleAddSize_conflict:
  assumes "online w"
    and "trim (text_of (draft s) ''label'') \<noteq> []"
    and "filter (\<lambda>r. map_of r ''label'' = Some (VStr (trim (text_of (draft s) ''label'')))
                    \<and> map_of r ''category'' = Some (val_of (draft s) ''category'')
                    \<and> not_deleted r) (tables w ''sizes'') = [r0]"
  shows "tables (fst (handleAddSize w s)) = tables w
       \<and> snd (handleAddSize w s) = s
       \<and> toasts (fst (handleAddSize w s)) =
           toasts w @ [\<lparr>toast_id = toast_seq w, toast_type = Error,
                        message = ''A size with this label already exists in this category''\<rparr>]
       \<and> (\<exists>q. requests (fst (handleAddSize w s)) = requests w @ [ReqSingle q])"
  using assms unfolding not_deleted_def
  by (simp add: handleAddSize_def split_def Let_def check_thrown_single data_single
      select_rows_plain chain_defs)

lemma handleAddColor_conflict:
  assumes "online w"
    and "trim (text_of (draft s) ''name'') \<noteq> []"
    and "validateHexCode (trim (text_of (draft s) ''hex_code''))"
    and "filter (\<lambda>r. map_of r ''name'' = Some (VStr (trim (text_of (draft s) ''name'')))
                    \<and> not_deleted r) (tables w ''colors'') = [r0]"
  shows "tables (fst (handleAddColor w s)) = tables w
       \<and> snd (handleAddColor w s) = s
       \<and> toasts (fst (handleAddColor w s)) =
           toasts w @ [\<lparr>toast_id = toast_seq w, toast_type = Error,
                        message = ''A color with this name already exists''\<rparr>]
       \<and> (\<exists>q. requests (fst (handleAddColor w s)) = requests w @ [ReqSingle q])"
  using assms validateHexCode_nonempty [OF assms(3)] unfolding not_deleted_def
  by (simp add: handleAddColor_def split_def Let_def check_thrown_single data_single
      select_rows_plain chain_defs)

lemma handleAddColor_stored:
  assumes "tables (fst (handleAddColor w s)) \<noteq> tables w"
  shows "online w"
    and "trim (text_of (draft s) ''name'') \<noteq> []"
    and "validateHexCode (trim (text_of (draft s) ''hex_code''))"
    and "tables (fst (handleAddColor w s)) =
           (tables w)
             (''colors'' := tables w ''colors'' @
                [with_defaults w ''colors''
                   [(''name'', VStr (trim (text_of (draft s) ''name''))),
                    (''hex_code'', VStr (trim (text_of (draft s) ''hex_code''))),
                    (''is_deleted'', VBool False)]])"
proof -
  have guards: "trim (text_of (draft s) ''name'') \<noteq> [] \<and>
      trim (text_of (draft s) ''hex_code'') \<noteq> [] \<and>
      validateHexCode (trim (text_of (draft s) ''hex_code''))"
    using assms by (auto simp: handleAddColor_def split: if_splits)
  then show "trim (text_of (draft s) ''name'') \<noteq> []"
    and "validateHexCode (trim (text_of (draft s) ''hex_code''))" by simp_all
  show "online w"
    using assms guards
    by (auto simp: handleAddColor_def split_def Let_def check_thrown_single data_single
        run_insert_def split: if_splits option.splits)
  then show "tables (fst (handleAddColor w s)) =
           (tables w)
             (''colors'' := tables w ''colors'' @
                [with_defaults w ''colors''
                   [(''name'', VStr (trim (text_of (draft s) ''name''))),
                    (''hex_code'', VStr (trim (text_of (draft s) ''hex_code''))),
                    (''is_deleted'', VBool False)]])"
    using assms guards
    by (auto simp: handleAddColor_def split_def Let_def check_thrown_single data_single
        run_insert_def fetchColors_unfold split: if_splits option.splits)
qed

lemma handleAddColor_then_duplicate:
  assumes none: "filter (\<lambda>r. map_of r ''name'' = Some (VStr (trim (text_of (draft s) ''name'')))
                           \<and> not_deleted r) (tables w ''colors'') = []"
    and stored: "tables (fst (handleAddColor w s)) \<noteq> tables w"
    and same: "trim (text_of (draft s2) ''name'') = trim (text_of (draft s) ''name'')"
    and hex2: "validateHexCode (trim (text_of (draft s2) ''hex_code''))"
  shows "tables (fst (handleAddColor (fst (handleAddColor w s)) s2)) = tables (fst (handleAddColor w s))
       \<and> snd (handleAddColor (fst (handleAddColor w s)) s2) = s2
       \<and> toasts (fst (handleAddColor (fst (handleAddColor w s)) s2)) =
           toasts (fst (handleAddColor w s)) @
             [\<lparr>toast_id = toast_seq (fst (handleAddColor w s)), toast_type = Error,
               message = ''A color with this name already exists''\<rparr>]
       \<and> (\<exists>q. requests (fst (handleAddColor (fst (handleAddColor w s)) s2)) =
                requests (fst (handleAddColor w s)) @ [ReqSingle q])"
proof -
  let ?w1 = "fst (handleAddColor w s)"
  let ?new = "with_defaults w ''colors''
                   [(''name'', VStr (trim (text_of (draft s) ''name''))),
                    (''hex_code'', VStr (trim (text_of (draft s) ''hex_code''))),
                    (''is_deleted'', VBool False)]"
  note st = handleAddColor_stored [OF stored]
  have on: "online ?w1"
    using st(1,2,3) stored
    by (auto simp: handleAddColor_def split_def Let_def check_thrown_single data_single
        run_insert_def fetchColors_unfold split: if_splits option.splits
        dest: validateHexCode_nonempty)
  have new: "map_of ?new ''name'' = Some (VStr (trim (text_of (draft s) ''name'')))"
      "not_deleted ?new"
    by (simp_all add: with_defaults_def not_deleted_def)
  have "filter (\<lambda>r. map_of r ''name'' = Some (VStr (trim (text_of (draft s2) ''name'')))
                    \<and> not_deleted r) (tables ?w1 ''colors'') = [?new]"
    using none new by (simp add: st(4) same)
  from handleAddColor_conflict [OF on _ hex2 this] st(2) same show ?thesis
    by simp
qed

subsection \<open>The order of a load\<close>

lemma select_rows_sorted:
  assumes "q_embed q = []"
  shows "sorted (map (order_key (col_rank w) (q_order q)) (select_rows w q))"
proof -
  have "embed_all (tables w) [] = Some" by (rule ext) simp
  then show ?thesis
    using assms by (simp add: select_rows_def map_filter_Some)
qed

lemma page_of_sorted: "sorted (map f xs) \<Longrightarrow> sorted (map f (page_of rg xs))"
  by (auto simp: page_of_def take_map [symmetric] drop_map [symmetric]
      intro!: sorted_wrt_take sorted_wrt_drop split: option.splits)

lemma by_created_at_desc:
  assumes "sorted (map (order_key (col_rank w) [(''created_at'', False)]) xs)"
  shows "sorted_wrt (\<lambda>a b. rank_of w ''created_at'' b \<le> rank_of w ''created_at'' a) xs"
  using assms unfolding sorted_map
  by (rule sorted_wrt_mono_rel [rotated]) (auto simp: order_key_def rank_of_def)

lemma by_category_then_display_order:
  assumes "sorted (map (order_key (col_rank w) [(''category'', True), (''display_order'', True)]) xs)"
  shows "sorted_wrt
           (\<lambda>a b. rank_of w ''category'' a < rank_of w ''category'' b \<or>
                  (rank_of w ''category'' a = rank_of w ''category'' b \<and>
                   rank_of w ''display_order'' a \<le> rank_of w ''display_order'' b)) xs"
  using assms unfolding sorted_map
  by (rule sorted_wrt_mono_rel [rotated]) (auto simp: order_key_def rank_of_def list_le_def)

lemma fetchColors_sorted:
  assumes "error (snd (fetchColors w s)) = None"
  shows "sorted_wrt (\<lambda>a b. rank_of w ''created_at'' b \<le> rank_of w ''created_at'' a)
           (items (snd (fetchColors w s)))"
proof -
  have "sorted (map (order_key (col_rank w) (q_order (fetchColors_query s)))
          (page_of (q_range (fetchColors_query s)) (select_rows w (fetchColors_query s))))"
    by (rule page_of_sorted, rule select_rows_sorted) simp
  then show ?thesis
    using assms unfolding fetchColors_unfold
    by (auto split: if_splits intro: by_created_at_desc)
qed

lemma fetchSizes_sorted:
  assumes "error (snd (fetchSizes w s)) = None"
  shows "sorted_wrt
           (\<lambda>a b. rank_of w ''category'' a < rank_of w ''category'' b \<or>
                  (rank_of w ''category'' a = rank_of w ''category'' b \<and>
                   rank_of w ''display_order'' a \<le> rank_of w ''display_order'' b))
           (items (snd (fetchSizes w s)))"
proof -
  have "sorted (map (order_key (col_rank w) (q_order (fetchSizes_query s)))
          (page_of (q_range (fetchSizes_query s)) (select_rows w (fetchSizes_query s))))"
    by (rule page_of_sorted, rule select_rows_sorted) simp
  then show ?thesis
    using assms unfolding fetchSizes_unfold
    by (auto split: if_splits intro: by_category_then_display_order)
qed

subsection \<open>The image picker\<close>

lemma handleFile_cases:
  "dispatched (handleFile f p) =
     dispatched p @
       [if file_size f > maxSize p then ErrorEvent (SizeExceeded (maxSize p))
        else if \<not> is_image f then ErrorEvent NotAnImage
        else FileSelect f None]"
  by (simp add: handleFile_def Let_def)

lemma validateAndProcessFile_cases:
  "dispatched (snd (validateAndProcessFile f w p)) =
     dispatched p @ (if is_image f \<and> file_size f \<le> maxSize p then [FileSelect f (Some (modalType p))] else [])"
  "toasts (fst (validateAndProcessFile f w p)) =
     toasts w @
       (if \<not> is_image f then
          [\<lparr>toast_id = toast_seq w, toast_type = Error, message = ''Please select an image file''\<rparr>]
        else if file_size f > maxSize p then
          [\<lparr>toast_id = toast_seq w, toast_type = Error,
            message = ''Image size should be less than 1MB''\<rparr>]
        else [])"
  by (auto simp: validateAndProcessFile_def)

section \<open>The claims\<close>

text \<open>
  C1, as the claim states it, fails in its last part. Starting without colors, the add of
  \<open>Red\<close>, \<open>#FF0000\<close> stores one row, whose category is the default \<open>primary\<close>. A later add
  of \<open>Red\<close>, \<open>#AA0000\<close> with the category \<open>pastel\<close> in the draft stores nothing and shows
  \<open>A color with this name already exists\<close>, although the unique constraint of the table
  would admit a row \<open>Red\<close> of category \<open>pastel\<close>.
\<close>

theorem color_scope_counterexample:
  "tables demo_world ''colors'' = []
   \<and> length (tables (fst (handleAddColor demo_world (color_form ''Red'' ''#FF0000'' ''primary'')))
               ''colors'') = 1
   \<and> val_of (tables (fst (handleAddColor demo_world (color_form ''Red'' ''#FF0000'' ''primary'')))
               ''colors'' ! 0) ''name'' = VStr ''Red''
   \<and> val_of (tables (fst (handleAddColor demo_world (color_form ''Red'' ''#FF0000'' ''primary'')))
               ''colors'' ! 0) ''category'' = VStr ''primary''
   \<and> text_of (draft (color_form ''Red'' ''#AA0000'' ''pastel'')) ''category'' = ''pastel''
   \<and> tables (fst (handleAddColor
                    (fst (handleAddColor demo_world (color_form ''Red'' ''#FF0000'' ''primary'')))
                    (color_form ''Red'' ''#AA0000'' ''pastel''))) ''colors'' =
       tables (fst (handleAddColor demo_world (color_form ''Red'' ''#FF0000'' ''primary'')))
         ''colors''
   \<and> toasts (fst (handleAddColor
                    (fst (handleAddColor demo_world (color_form ''Red'' ''#FF0000'' ''primary'')))
                    (color_form ''Red'' ''#AA0000'' ''pastel''))) =
       toasts (fst (handleAddColor demo_world (color_form ''Red'' ''#FF0000'' ''primary''))) @
         [\<lparr>toast_id = 1, toast_type = Error,
           message = ''A color with this name already exists''\<rparr>]
   \<and> unique_ok ''colors''
        (tables (fst (handleAddColor demo_world (color_form ''Red'' ''#FF0000'' ''primary'')))
           ''colors'' @
         [[(''name'', VStr ''Red''), (''category'', VStr ''pastel'')]])"
  by code_simp

text \<open>
  C1, amended. On the colors screen uniqueness is by name alone, among the rows that are
  not deleted: the screen sends no category, so a color it adds gets the default category
  \<open>primary\<close>. After an add that stored a color whose trimmed name no stored, non-deleted
  color had, every further add with the same trimmed name and a valid hex code, whatever
  else its draft holds, fails with \<open>A color with this name already exists\<close>: it
  sends the lookup and no insert, and the tables and the screen stay as they were.
\<close>

theorem color_name_is_unique:
  assumes "filter (\<lambda>r. map_of r ''name'' = Some (VStr (trim (text_of (draft s) ''name'')))
                        \<and> not_deleted r) (tables w ''colors'') = []"
    and "tables (fst (handleAddColor w s)) ''colors'' \<noteq> tables w ''colors''"
    and "trim (text_of (draft s2) ''name'') = trim (text_of (draft s) ''name'')"
    and "validateHexCode (trim (text_of (draft s2) ''hex_code''))"
  shows "tables (fst (handleAddColor w s)) ''colors'' =
           tables w ''colors'' @
             [with_defaults w ''colors''
                [(''name'', VStr (trim (text_of (draft s) ''name''))),
                 (''hex_code'', VStr (trim (text_of (draft s) ''hex_code''))),
                 (''is_deleted'', VBool False)]]
       \<and> map_of (last (tables (fst (handleAddColor w s)) ''colors'')) ''category'' =
           Some (VStr ''primary'')
       \<and> tables (fst (handleAddColor (fst (handleAddColor w s)) s2)) =
           tables (fst (handleAddColor w s))
       \<and> snd (handleAddColor (fst (handleAddColor w s)) s2) = s2
       \<and> toasts (fst (handleAddColor (fst (handleAddColor w s)) s2)) =
           toasts (fst (handleAddColor w s)) @
             [\<lparr>toast_id = toast_seq (fst (handleAddColor w s)), toast_type = Error,
               message = ''A color with this name already exists''\<rparr>]
       \<and> (\<exists>q. requests (fst (handleAddColor (fst (handleAddColor w s)) s2)) =
                requests (fst (handleAddColor w s)) @ [ReqSingle q])"
proof -
  from assms(2) have stored: "tables (fst (handleAddColor w s)) \<noteq> tables w"
    by auto
  have row: "tables (fst (handleAddColor w s)) ''colors'' =
           tables w ''colors'' @
             [with_defaults w ''colors''
                [(''name'', VStr (trim (text_of (draft s) ''name''))),
                 (''hex_code'', VStr (trim (text_of (draft s) ''hex_code''))),
                 (''is_deleted'', VBool False)]]"
    by (simp add: handleAddColor_stored(4) [OF stored])
  have cat: "map_of (last (tables (fst (handleAddColor w s)) ''colors'')) ''category'' =
           Some (VStr ''primary'')"
    unfolding row by (simp add: with_defaults_def column_defaults_def)
  from row cat handleAddColor_then_duplicate [OF assms(1) stored assms(3) assms(4)]
  show ?thesis by blast
qed

theorem color_name_is_unique_witness:
  "tables (fst (handleAddColor demo_world (color_form ''Red'' ''#FF0000'' ''primary''))) ''colors''
     \<noteq> tables demo_world ''colors''
   \<and> validateHexCode (trim (text_of (draft (color_form '' Red '' ''#AA0000'' ''pastel'')) ''hex_code''))
   \<and> map_of (last (tables (fst (handleAddColor demo_world
                                   (color_form ''Red'' ''#FF0000'' ''primary''))) ''colors''))
        ''category'' = Some (VStr ''primary'')
   \<and> tables (fst (handleAddColor
                    (fst (handleAddColor demo_world (color_form ''Red'' ''#FF0000'' ''primary'')))
                    (color_form '' Red '' ''#AA0000'' ''pastel''))) =
       tables (fst (handleAddColor demo_world (color_form ''Red'' ''#FF0000'' ''primary'')))
   \<and> snd (handleAddColor
              (fst (handleAddColor demo_world (color_form ''Red'' ''#FF0000'' ''primary'')))
              (color_form '' Red '' ''#AA0000'' ''pastel'')) =
       color_form '' Red '' ''#AA0000'' ''pastel''"
proof -
  have pre:
    "filter (\<lambda>r. map_of r ''name'' =
                    Some (VStr (trim (text_of (draft (color_form ''Red'' ''#FF0000'' ''primary''))
                                        ''name'')))
                  \<and> not_deleted r) (tables demo_world ''colors'') = []"
    "tables (fst (handleAddColor demo_world (color_form ''Red'' ''#FF0000'' ''primary''))) ''colors''
       \<noteq> tables demo_world ''colors''"
    "trim (text_of (draft (color_form '' Red '' ''#AA0000'' ''pastel'')) ''name'') =
       trim (text_of (draft (color_form ''Red'' ''#FF0000'' ''primary'')) ''name'')"
    "validateHexCode (trim (text_of (draft (color_form '' Red '' ''#AA0000'' ''pastel'')) ''hex_code''))"
    by code_simp+
  from pre(2,4) color_name_is_unique [OF pre]
  show ?thesis by blast
qed

text \<open>
  C2. Whatever the page and the search text, a load that succeeds stores only rows whose
  \<open>is_deleted\<close> is false, on every screen: the six list screens, the sellers screen and
  the second brands screen (which reports a failed load by a toast).
\<close>

theorem load_returns_only_live_rows:
  "(error (snd (fetchBrands w s)) = None \<longrightarrow>
      (\<forall>r \<in> set (items (snd (fetchBrands w s))). not_deleted r))
   \<and> (error (snd (fetchCategories w s)) = None \<longrightarrow>
      (\<forall>r \<in> set (items (snd (fetchCategories w s))). not_deleted r))
   \<and> (error (snd (loadSubcategories w sc)) = None \<longrightarrow>
      (\<forall>r \<in> set (items (snd (loadSubcategories w sc))). not_deleted r))
   \<and> (error (snd (fetchAudiences w s)) = None \<longrightarrow>
      (\<forall>r \<in> set (items (snd (fetchAudiences w s))). not_deleted r))
   \<and> (error (snd (fetchColors w s)) = None \<longrightarrow>
      (\<forall>r \<in> set (items (snd (fetchColors w s))). not_deleted r))
   \<and> (error (snd (fetchSizes w s)) = None \<longrightarrow>
      (\<forall>r \<in> set (items (snd (fetchSizes w s))). not_deleted r))
   \<and> (error (snd (loadSellers w ss)) = None \<longrightarrow>
      (\<forall>r \<in> set (sellers (snd (loadSellers w ss))). not_deleted r))
   \<and> (toasts (fst (loadBrands w su)) = toasts w \<longrightarrow>
      (\<forall>r \<in> set (brands_v2 (snd (loadBrands w su))). not_deleted r))"
  using fetchBrands_live [of w s] fetchCategories_live [of w s] loadSubcategories_live [of w sc]
    fetchAudiences_live [of w s] fetchColors_live [of w s] fetchSizes_live [of w s]
    loadSellers_live [of w ss] loadBrands_live [of w su]
  by blast

theorem load_returns_only_live_rows_witness:
  "error (snd (fetchBrands stocked_world first_page)) = None
   \<and> items (snd (fetchBrands stocked_world first_page)) \<noteq> []
   \<and> list_all not_deleted (items (snd (fetchBrands stocked_world first_page)))
   \<and> error (snd (fetchCategories stocked_world first_page)) = None
   \<and> items (snd (fetchCategories stocked_world first_page)) \<noteq> []
   \<and> list_all not_deleted (items (snd (fetchCategories stocked_world first_page)))
   \<and> error (snd (loadSubcategories stocked_world init_subcategories)) = None
   \<and> items (snd (loadSubcategories stocked_world init_subcategories)) \<noteq> []
   \<and> list_all not_deleted (items (snd (loadSubcategories stocked_world init_subcategories)))
   \<and> error (snd (fetchAudiences stocked_world first_page)) = None
   \<and> items (snd (fetchAudiences stocked_world first_page)) \<noteq> []
   \<and> list_all not_deleted (items (snd (fetchAudiences stocked_world first_page)))
   \<and> error (snd (fetchColors stocked_world first_page)) = None
   \<and> items (snd (fetchColors stocked_world first_page)) \<noteq> []
   \<and> list_all not_deleted (items (snd (fetchColors stocked_world first_page)))
   \<and> error (snd (fetchSizes stocked_world first_page)) = None
   \<and> items (snd (fetchSizes stocked_world first_page)) \<noteq> []
   \<and> list_all not_deleted (items (snd (fetchSizes stocked_world first_page)))
   \<and> error (snd (loadSellers stocked_world init_sellers)) = None
   \<and> sellers (snd (loadSellers stocked_world init_sellers)) \<noteq> []
   \<and> list_all not_deleted (sellers (snd (loadSellers stocked_world init_sellers)))
   \<and> toasts (fst (loadBrands stocked_world init_upload)) = toasts stocked_world
   \<and> brands_v2 (snd (loadBrands stocked_world init_upload)) \<noteq> []
   \<and> list_all not_deleted (brands_v2 (snd (loadBrands stocked_world init_upload)))"
proof -
  have ok:
    "error (snd (fetchBrands stocked_world first_page)) = None"
    "error (snd (fetchCategories stocked_world first_page)) = None"
    "error (snd (loadSubcategories stocked_world init_subcategories)) = None"
    "error (snd (fetchAudiences stocked_world first_page)) = None"
    "error (snd (fetchColors stocked_world first_page)) = None"
    "error (snd (fetchSizes stocked_world first_page)) = None"
    "error (snd (loadSellers stocked_world init_sellers)) = None"
    "toasts (fst (loadBrands stocked_world init_upload)) = toasts stocked_world"
    by code_simp+
  have some:
    "items (snd (fetchBrands stocked_world first_page)) \<noteq> []"
    "items (snd (fetchCategories stocked_world first_page)) \<noteq> []"
    "items (snd (loadSubcategories stocked_world init_subcategories)) \<noteq> []"
    "items (snd (fetchAudiences stocked_world first_page)) \<noteq> []"
    "items (snd (fetchColors stocked_world first_page)) \<noteq> []"
    "items (snd (fetchSizes stocked_world first_page)) \<noteq> []"
    "sellers (snd (loadSellers stocked_world init_sellers)) \<noteq> []"
    "brands_v2 (snd (loadBrands stocked_world init_upload)) \<noteq> []"
    by code_simp+
  show ?thesis
    using ok some
      load_returns_only_live_rows [of stocked_world first_page init_subcategories
        init_sellers init_upload]
    by (simp add: list_all_iff)
qed

lemma soft_deleted_log:
  assumes "soft_deleted t i w w'"
  shows "\<forall>q \<in> set (drop (length (requests w)) (requests w')).
           q = ReqUpdate t [(''is_deleted'', VBool True)] [Eq ''id'' i] \<or> (\<exists>x. q = ReqSelect x)"
  using assms by (auto simp: soft_deleted_def)

text \<open>
  C3. On every screen a confirmed delete, with the service reachable (and, for colors and
  sizes, the stored rows within the unique constraint of their migration), sends one
  update of \<open>is_deleted\<close> to true for the rows with that identifier and no other write;
  without the confirmation it does nothing. Afterwards the table has as many rows as
  before: a lookup of the identifier returns the same rows with \<open>is_deleted\<close> true and
  every other column as it was, every other row and table is untouched, and neither the
  reload of the handler nor any later load that succeeds shows a row with that identifier.
\<close>

theorem soft_delete_keeps_the_row:
  "(online w \<longrightarrow>
      soft_deleted ''brands'' i w (fst (handleDeleteBrand i True w s))
      \<and> (error (snd (handleDeleteBrand i True w s)) = None \<longrightarrow>
           (\<forall>r \<in> set (items (snd (handleDeleteBrand i True w s))). map_of r ''id'' \<noteq> Some i)))
   \<and> handleDeleteBrand i False w s = (w, s)
   \<and> (soft_deleted ''brands'' i w w' \<and> error (snd (fetchBrands w' s)) = None \<longrightarrow>
        (\<forall>r \<in> set (items (snd (fetchBrands w' s))). map_of r ''id'' \<noteq> Some i))
   \<and> (online w \<longrightarrow>
      soft_deleted ''categories'' i w (fst (handleDeleteCategory i True w s))
      \<and> (error (snd (handleDeleteCategory i True w s)) = None \<longrightarrow>
           (\<forall>r \<in> set (items (snd (handleDeleteCategory i True w s))). map_of r ''id'' \<noteq> Some i)))
   \<and> handleDeleteCategory i False w s = (w, s)
   \<and> (soft_deleted ''categories'' i w w' \<and> error (snd (fetchCategories w' s)) = None \<longrightarrow>
        (\<forall>r \<in> set (items (snd (fetchCategories w' s))). map_of r ''id'' \<noteq> Some i))
   \<and> (online w \<longrightarrow>
      soft_deleted ''subcategories'' i w (fst (handleDeleteSubcategory i True w sc))
      \<and> (error (snd (handleDeleteSubcategory i True w sc)) = None \<longrightarrow>
           (\<forall>r \<in> set (items (snd (handleDeleteSubcategory i True w sc))). map_of r ''id'' \<noteq> Some i)))
   \<and> handleDeleteSubcategory i False w sc = (w, sc)
   \<and> (soft_deleted ''subcategories'' i w w' \<and> error (snd (loadSubcategories w' sc)) = None \<longrightarrow>
        (\<forall>r \<in> set (items (snd (loadSubcategories w' sc))). map_of r ''id'' \<noteq> Some i))
   \<and> (online w \<longrightarrow>
      soft_deleted ''audiences'' i w (fst (handleDeleteAudience i True w s))
      \<and> (error (snd (handleDeleteAudience i True w s)) = None \<longrightarrow>
           (\<forall>r \<in> set (items (snd (handleDeleteAudience i True w s))). map_of r ''id'' \<noteq> Some i)))
   \<and> handleDeleteAudience i False w s = (w, s)
   \<and> (soft_deleted ''audiences'' i w w' \<and> error (snd (fetchAudiences w' s)) = None \<longrightarrow>
        (\<forall>r \<in> set (items (snd (fetchAudiences w' s))). map_of r ''id'' \<noteq> Some i))
   \<and> (online w \<and> unique_ok ''colors'' (tables w ''colors'') \<longrightarrow>
      soft_deleted ''colors'' i w (fst (handleDeleteColor i True w s))
      \<and> (error (snd (handleDeleteColor i True w s)) = None \<longrightarrow>
           (\<forall>r \<in> set (items (snd (handleDeleteColor i True w s))). map_of r ''id'' \<noteq> Some i)))
   \<and> handleDeleteColor i False w s = (w, s)
   \<and> (soft_deleted ''colors'' i w w' \<and> error (snd (fetchColors w' s)) = None \<longrightarrow>
        (\<forall>r \<in> set (items (snd (fetchColors w' s))). map_of r ''id'' \<noteq> Some i))
   \<and> (online w \<and> unique_ok ''sizes'' (tables w ''sizes'') \<longrightarrow>
      soft_deleted ''sizes'' i w (fst (handleDeleteSize i True w s))
      \<and> (error (snd (handleDeleteSize i True w s)) = None \<longrightarrow>
           (\<forall>r \<in> set (items (snd (handleDeleteSize i True w s))). map_of r ''id'' \<noteq> Some i)))
   \<and> handleDeleteSize i False w s = (w, s)
   \<and> (soft_deleted ''sizes'' i w w' \<and> error (snd (fetchSizes w' s)) = None \<longrightarrow>
        (\<forall>r \<in> set (items (snd (fetchSizes w' s))). map_of r ''id'' \<noteq> Some i))
   \<and> (online w \<longrightarrow>
      soft_deleted ''users'' i w (fst (handleDeleteSeller i True w ss))
      \<and> (error (snd (handleDeleteSeller i True w ss)) = None \<longrightarrow>
           (\<forall>r \<in> set (sellers (snd (handleDeleteSeller i True w ss))). map_of r ''id'' \<noteq> Some i)))
   \<and> handleDeleteSeller i False w ss = (w, ss)
   \<and> (soft_deleted ''users'' i w w' \<and> error (snd (loadSellers w' ss)) = None \<longrightarrow>
        (\<forall>r \<in> set (sellers (snd (loadSellers w' ss))). map_of r ''id'' \<noteq> Some i))
   \<and> (online w \<longrightarrow>
      soft_deleted ''brands'' i w (fst (handleDeleteBrand_v2 i True w su))
      \<and> (\<forall>r \<in> set (brands_v2 (snd (handleDeleteBrand_v2 i True w su))). map_of r ''id'' \<noteq> Some i))
   \<and> handleDeleteBrand_v2 i False w su = (w, su)
   \<and> (soft_deleted ''brands'' i w w' \<and> toasts (fst (loadBrands w' su)) = toasts w' \<longrightarrow>
        (\<forall>r \<in> set (brands_v2 (snd (loadBrands w' su))). map_of r ''id'' \<noteq> Some i))
   \<and> (soft_deleted t i w w' \<longrightarrow>
        length (tables w' t) = length (tables w t)
        \<and> filter (\<lambda>r. map_of r ''id'' = Some i) (tables w' t) =
            map (apply_patch [(''is_deleted'', VBool True)])
              (filter (\<lambda>r. map_of r ''id'' = Some i) (tables w t))
        \<and> filter (\<lambda>r. map_of r ''id'' \<noteq> Some i) (tables w' t) =
            filter (\<lambda>r. map_of r ''id'' \<noteq> Some i) (tables w t)
        \<and> (\<forall>u. u \<noteq> t \<longrightarrow> tables w' u = tables w u)
        \<and> (\<forall>q \<in> set (drop (length (requests w)) (requests w')).
              q = ReqUpdate t [(''is_deleted'', VBool True)] [Eq ''id'' i]
              \<or> (\<exists>x. q = ReqSelect x)))
   \<and> map_of (apply_patch [(''is_deleted'', VBool True)] r0) c =
       (if c = ''is_deleted'' then Some (VBool True) else map_of r0 c)"
proof -
  have "(online w \<longrightarrow>
      soft_deleted ''brands'' i w (fst (handleDeleteBrand i True w s))
      \<and> (error (snd (handleDeleteBrand i True w s)) = None \<longrightarrow>
           (\<forall>r \<in> set (items (snd (handleDeleteBrand i True w s))). map_of r ''id'' \<noteq> Some i)))"
    using handleDeleteBrand_soft [where w = w and i = i and s = s] by blast
  have "handleDeleteBrand i False w s = (w, s)"
    by (rule handleDeleteBrand_unconfirmed)
  have "(soft_deleted ''brands'' i w w' \<and> error (snd (fetchBrands w' s)) = None \<longrightarrow>
        (\<forall>r \<in> set (items (snd (fetchBrands w' s))). map_of r ''id'' \<noteq> Some i))"
    using fetchBrands_excludes [where w = w and i = i and w' = w' and s = s] by blast
  have "(online w \<longrightarrow>
      soft_deleted ''categories'' i w (fst (handleDeleteCategory i True w s))
      \<and> (error (snd (handleDeleteCategory i True w s)) = None \<longrightarrow>
           (\<forall>r \<in> set (items (snd (handleDeleteCategory i True w s))). map_of r ''id'' \<noteq> Some i)))"
    using handleDeleteCategory_soft [where w = w and i = i and s = s] by blast
  have "handleDeleteCategory i False w s = (w, s)"
    by (rule handleDeleteCategory_unconfirmed)
  have "(soft_deleted ''categories'' i w w' \<and> error (snd (fetchCategories w' s)) = None \<longrightarrow>
        (\<forall>r \<in> set (items (snd (fetchCategories w' s))). map_of r ''id'' \<noteq> Some i))"
    using fetchCategories_excludes [where w = w and i = i and w' = w' and s = s] by blast
  have "(online w \<longrightarrow>
      soft_deleted ''subcategories'' i w (fst (handleDeleteSubcategory i True w sc))
      \<and> (error (snd (handleDeleteSubcategory i True w sc)) = None \<longrightarrow>
           (\<forall>r \<in> set (items (snd (handleDeleteSubcategory i True w sc))). map_of r ''id'' \<noteq> Some i)))"
    using handleDeleteSubcategory_soft [where w = w and i = i and s = sc] by blast
  have "handleDeleteSubcategory i False w sc = (w, sc)"
    by (rule handleDeleteSubcategory_unconfirmed)
  have "(soft_deleted ''subcategories'' i w w' \<and> error (snd (loadSubcategories w' sc)) = None \<longrightarrow>
        (\<forall>r \<in> set (items (snd (loadSubcategories w' sc))). map_of r ''id'' \<noteq> Some i))"
    using loadSubcategories_excludes [where w = w and i = i and w' = w' and s = sc] by blast
  have "(online w \<longrightarrow>
      soft_deleted ''audiences'' i w (fst (handleDeleteAudience i True w s))
      \<and> (error (snd (handleDeleteAudience i True w s)) = None \<longrightarrow>
           (\<forall>r \<in> set (items (snd (handleDeleteAudience i True w s))). map_of r ''id'' \<noteq> Some i)))"
    using handleDeleteAudience_soft [where w = w and i = i and s = s] by blast
  have "handleDeleteAudience i False w s = (w, s)"
    by (rule handleDeleteAudience_unconfirmed)
  have "(soft_deleted ''audiences'' i w w' \<and> error (snd (fetchAudiences w' s)) = None \<longrightarrow>
        (\<forall>r \<in> set (items (snd (fetchAudiences w' s))). map_of r ''id'' \<noteq> Some i))"
    using fetchAudiences_excludes [where w = w and i = i and w' = w' and s = s] by blast
  have "(online w \<and> unique_ok ''colors'' (tables w ''colors'') \<longrightarrow>
      soft_deleted ''colors'' i w (fst (handleDeleteColor i True w s))
      \<and> (error (snd (handleDeleteColor i True w s)) = None \<longrightarrow>
           (\<forall>r \<in> set (items (snd (handleDeleteColor i True w s))). map_of r ''id'' \<noteq> Some i)))"
    using handleDeleteColor_soft [where w = w and i = i and s = s] by blast
  have "handleDeleteColor i False w s = (w, s)"
    by (rule handleDeleteColor_unconfirmed)
  have "(soft_deleted ''colors'' i w w' \<and> error (snd (fetchColors w' s)) = None \<longrightarrow>
        (\<forall>r \<in> set (items (snd (fetchColors w' s))). map_of r ''id'' \<noteq> Some i))"
    using fetchColors_excludes [where w = w and i = i and w' = w' and s = s] by blast
  have "(online w \<and> unique_ok ''sizes'' (tables w ''sizes'') \<longrightarrow>
      soft_deleted ''sizes'' i w (fst (handleDeleteSize i True w s))
      \<and> (error (snd (handleDeleteSize i True w s)) = None \<longrightarrow>
           (\<forall>r \<in> set (items (snd (handleDeleteSize i True w s))). map_of r ''id'' \<noteq> Some i)))"
    using handleDeleteSize_soft [where w = w and i = i and s = s] by blast
  have "handleDeleteSize i False w s = (w, s)"
    by (rule handleDeleteSize_unconfirmed)
  have "(soft_deleted ''sizes'' i w w' \<and> error (snd (fetchSizes w' s)) = None \<longrightarrow>
        (\<forall>r \<in> set (items (snd (fetchSizes w' s))). map_of r ''id'' \<noteq> Some i))"
    using fetchSizes_excludes [where w = w and i = i and w' = w' and s = s] by blast
  have "(online w \<longrightarrow>
      soft_deleted ''users'' i w (fst (handleDeleteSeller i True w ss))
      \<and> (error (snd (handleDeleteSeller i True w ss)) = None \<longrightarrow>
           (\<forall>r \<in> set (sellers (snd (handleDeleteSeller i True w ss))). map_of r ''id'' \<noteq> Some i)))"
    using handleDeleteSeller_soft [where w = w and i = i and s = ss] by blast
  have "handleDeleteSeller i False w ss = (w, ss)"
    by (rule handleDeleteSeller_unconfirmed)
  have "(soft_deleted ''users'' i w w' \<and> error (snd (loadSellers w' ss)) = None \<longrightarrow>
        (\<forall>r \<in> set (sellers (snd (loadSellers w' ss))). map_of r ''id'' \<noteq> Some i))"
    using loadSellers_excludes [where w = w and i = i and w' = w' and s = ss] by blast
  have "(online w \<longrightarrow>
      soft_deleted ''brands'' i w (fst (handleDeleteBrand_v2 i True w su))
      \<and> (\<forall>r \<in> set (brands_v2 (snd (handleDeleteBrand_v2 i True w su))). map_of r ''id'' \<noteq> Some i))"
    using handleDeleteBrand_v2_soft [where w = w and i = i and s = su] by blast
  have "handleDeleteBrand_v2 i False w su = (w, su)"
    by (rule handleDeleteBrand_v2_unconfirmed)
  have "(soft_deleted ''brands'' i w w' \<and> toasts (fst (loadBrands w' su)) = toasts w' \<longrightarrow>
        (\<forall>r \<in> set (brands_v2 (snd (loadBrands w' su))). map_of r ''id'' \<noteq> Some i))"
    using loadBrands_excludes [where w = w and i = i and w' = w' and s = su] by blast
  have "(soft_deleted t i w w' \<longrightarrow>
        length (tables w' t) = length (tables w t)
        \<and> filter (\<lambda>r. map_of r ''id'' = Some i) (tables w' t) =
            map (apply_patch [(''is_deleted'', VBool True)])
              (filter (\<lambda>r. map_of r ''id'' = Some i) (tables w t))
        \<and> filter (\<lambda>r. map_of r ''id'' \<noteq> Some i) (tables w' t) =
            filter (\<lambda>r. map_of r ''id'' \<noteq> Some i) (tables w t)
        \<and> (\<forall>u. u \<noteq> t \<longrightarrow> tables w' u = tables w u)
        \<and> (\<forall>q \<in> set (drop (length (requests w)) (requests w')).
              q = ReqUpdate t [(''is_deleted'', VBool True)] [Eq ''id'' i]
              \<or> (\<exists>x. q = ReqSelect x)))"
    using soft_deleted_storage [of t i w w'] soft_deleted_log [of t i w w'] by blast
  have "map_of (apply_patch [(''is_deleted'', VBool True)] r0) c =
       (if c = ''is_deleted'' then Some (VBool True) else map_of r0 c)"
    by (rule soft_patch_field)
  show ?thesis
    by (intro conjI) fact+
qed

theorem soft_delete_keeps_the_row_witness:
  "online stocked_world
   \<and> unique_ok ''colors'' (tables stocked_world ''colors'')
   \<and> unique_ok ''sizes'' (tables stocked_world ''sizes'')
   \<and> soft_deleted ''brands'' (VStr ''r1'') stocked_world (fst (handleDeleteBrand (VStr ''r1'') True stocked_world first_page))
   \<and> error (snd (handleDeleteBrand (VStr ''r1'') True stocked_world first_page)) = None
   \<and> list_all (\<lambda>r. map_of r ''id'' \<noteq> Some (VStr ''r1'')) (items (snd (handleDeleteBrand (VStr ''r1'') True stocked_world first_page)))
   \<and> error (snd (fetchBrands (fst (handleDeleteBrand (VStr ''r1'') True stocked_world first_page)) first_page)) = None
   \<and> list_all (\<lambda>r. map_of r ''id'' \<noteq> Some (VStr ''r1'')) (items (snd (fetchBrands (fst (handleDeleteBrand (VStr ''r1'') True stocked_world first_page)) first_page)))
   \<and> length (tables (fst (handleDeleteBrand (VStr ''r1'') True stocked_world first_page)) ''brands'') = length (tables stocked_world ''brands'')
   \<and> map (\<lambda>r. map_of r ''is_deleted'') (filter (\<lambda>r. map_of r ''id'' = Some (VStr ''r1'')) (tables (fst (handleDeleteBrand (VStr ''r1'') True stocked_world first_page)) ''brands'')) = [Some (VBool True)]
   \<and> soft_deleted ''categories'' (VStr ''r1'') stocked_world (fst (handleDeleteCategory (VStr ''r1'') True stocked_world first_page))
   \<and> error (snd (handleDeleteCategory (VStr ''r1'') True stocked_world first_page)) = None
   \<and> list_all (\<lambda>r. map_of r ''id'' \<noteq> Some (VStr ''r1'')) (items (snd (handleDeleteCategory (VStr ''r1'') True stocked_world first_page)))
   \<and> error (snd (fetchCategories (fst (handleDeleteCategory (VStr ''r1'') True stocked_world first_page)) first_page)) = None
   \<and> list_all (\<lambda>r. map_of r ''id'' \<noteq> Some (VStr ''r1'')) (items (snd (fetchCategories (fst (handleDeleteCategory (VStr ''r1'') True stocked_world first_page)) first_page)))
   \<and> length (tables (fst (handleDeleteCategory (VStr ''r1'') True stocked_world first_page)) ''categories'') = length (tables stocked_world ''categories'')
   \<and> map (\<lambda>r. map_of r ''is_deleted'') (filter (\<lambda>r. map_of r ''id'' = Some (VStr ''r1'')) (tables (fst (handleDeleteCategory (VStr ''r1'') True stocked_world first_page)) ''categories'')) = [Some (VBool True)]
   \<and> soft_deleted ''subcategories'' (VStr ''r1'') stocked_world (fst (handleDeleteSubcategory (VStr ''r1'') True stocked_world init_subcategories))
   \<and> error (snd (handleDeleteSubcategory (VStr ''r1'') True stocked_world init_subcategories)) = None
   \<and> list_all (\<lambda>r. map_of r ''id'' \<noteq> Some (VStr ''r1'')) (items (snd (handleDeleteSubcategory (VStr ''r1'') True stocked_world init_subcategories)))
   \<and> error (snd (loadSubcategories (fst (handleDeleteSubcategory (VStr ''r1'') True stocked_world init_subcategories)) init_subcategories)) = None
   \<and> list_all (\<lambda>r. map_of r ''id'' \<noteq> Some (VStr ''r1'')) (items (snd (loadSubcategories (fst (handleDeleteSubcategory (VStr ''r1'') True stocked_world init_subcategories)) init_subcategories)))
   \<and> length (tables (fst (handleDeleteSubcategory (VStr ''r1'') True stocked_world init_subcategories)) ''subcategories'') = length (tables stocked_world ''subcategories'')
   \<and> map (\<lambda>r. map_of r ''is_deleted'') (filter (\<lambda>r. map_of r ''id'' = Some (VStr ''r1'')) (tables (fst (handleDeleteSubcategory (VStr ''r1'') True stocked_world init_subcategories)) ''subcategories'')) = [Some (VBool True)]
   \<and> soft_deleted ''audiences'' (VStr ''r1'') stocked_world (fst (handleDeleteAudience (VStr ''r1'') True stocked_world first_page))
   \<and> error (snd (handleDeleteAudience (VStr ''r1'') True stocked_world first_page)) = None
   \<and> list_all (\<lambda>r. map_of r ''id'' \<noteq> Some (VStr ''r1'')) (items (snd (handleDeleteAudience (VStr ''r1'') True stocked_world first_page)))
   \<and> error (snd (fetchAudiences (fst (handleDeleteAudience (VStr ''r1'') True stocked_world first_page)) first_page)) = None
   \<and> list_all (\<lambda>r. map_of r ''id'' \<noteq> Some (VStr ''r1'')) (items (snd (fetchAudiences (fst (handleDeleteAudience (VStr ''r1'') True stocked_world first_page)) first_page)))
   \<and> length (tables (fst (handleDeleteAudience (VStr ''r1'') True stocked_world first_page)) ''audiences'') = length (tables stocked_world ''audiences'')
   \<and> map (\<lambda>r. map_of r ''is_deleted'') (filter (\<lambda>r. map_of r ''id'' = Some (VStr ''r1'')) (tables (fst (handleDeleteAudience (VStr ''r1'') True stocked_world first_page)) ''audiences'')) = [Some (VBool True)]
   \<and> soft_deleted ''colors'' (VStr ''r1'') stocked_world (fst (handleDeleteColor (VStr ''r1'') True stocked_world first_page))
   \<and> error (snd (handleDeleteColor (VStr ''r1'') True stocked_world first_page)) = None
   \<and> list_all (\<lambda>r. map_of r ''id'' \<noteq> Some (VStr ''r1'')) (items (snd (handleDeleteColor (VStr ''r1'') True stocked_world first_page)))
   \<and> error (snd (fetchColors (fst (handleDeleteColor (VStr ''r1'') True stocked_world first_page)) first_page)) = None
   \<and> list_all (\<lambda>r. map_of r ''id'' \<noteq> Some (VStr ''r1'')) (items (snd (fetchColors (fst (handleDeleteColor (VStr ''r1'') True stocked_world first_page)) first_page)))
   \<and> length (tables (fst (handleDeleteColor (VStr ''r1'') True stocked_world first_page)) ''colors'') = length (tables stocked_world ''colors'')
   \<and> map (\<lambda>r. map_of r ''is_deleted'') (filter (\<lambda>r. map_of r ''id'' = Some (VStr ''r1'')) (tables (fst (handleDeleteColor (VStr ''r1'') True stocked_world first_page)) ''colors'')) = [Some (VBool True)]
   \<and> soft_deleted ''sizes'' (VStr ''r1'') stocked_world (fst (handleDeleteSize (VStr ''r1'') True stocked_world first_page))
   \<and> error (snd (handleDeleteSize (VStr ''r1'') True stocked_world first_page)) = None
   \<and> list_all (\<lambda>r. map_of r ''id'' \<noteq> Some (VStr ''r1'')) (items (snd (handleDeleteSize (VStr ''r1'') True stocked_world first_page)))
   \<and> error (snd (fetchSizes (fst (handleDeleteSize (VStr ''r1'') True stocked_world first_page)) first_page)) = None
   \<and> list_all (\<lambda>r. map_of r ''id'' \<noteq> Some (VStr ''r1'')) (items (snd (fetchSizes (fst (handleDeleteSize (VStr ''r1'') True stocked_world first_page)) first_page)))
   \<and> length (tables (fst (handleDeleteSize (VStr ''r1'') True stocked_world first_page)) ''sizes'') = length (tables stocked_world ''sizes'')
   \<and> map (\<lambda>r. map_of r ''is_deleted'') (filter (\<lambda>r. map_of r ''id'' = Some (VStr ''r1'')) (tables (fst (handleDeleteSize (VStr ''r1'') True stocked_world first_page)) ''sizes'')) = [Some (VBool True)]
   \<and> soft_deleted ''users'' (VStr ''r1'') stocked_world (fst (handleDeleteSeller (VStr ''r1'') True stocked_world init_sellers))
   \<and> error (snd (handleDeleteSeller (VStr ''r1'') True stocked_world init_sellers)) = None
   \<and> list_all (\<lambda>r. map_of r ''id'' \<noteq> Some (VStr ''r1'')) (sellers (snd (handleDeleteSeller (VStr ''r1'') True stocked_world init_sellers)))
   \<and> error (snd (loadSellers (fst (handleDeleteSeller (VStr ''r1'') True stocked_world init_sellers)) init_sellers)) = None
   \<and> list_all (\<lambda>r. map_of r ''id'' \<noteq> Some (VStr ''r1'')) (sellers (snd (loadSellers (fst (handleDeleteSeller (VStr ''r1'') True stocked_world init_sellers)) init_sellers)))
   \<and> length (tables (fst (handleDeleteSeller (VStr ''r1'') True stocked_world init_sellers)) ''users'') = length (tables stocked_world ''users'')
   \<and> map (\<lambda>r. map_of r ''is_deleted'') (filter (\<lambda>r. map_of r ''id'' = Some (VStr ''r1'')) (tables (fst (handleDeleteSeller (VStr ''r1'') True stocked_world init_sellers)) ''users'')) = [Some (VBool True)]
   \<and> soft_deleted ''brands'' (VStr ''r1'') stocked_world (fst (handleDeleteBrand_v2 (VStr ''r1'') True stocked_world init_upload))
   \<and> list_all (\<lambda>r. map_of r ''id'' \<noteq> Some (VStr ''r1'')) (brands_v2 (snd (handleDeleteBrand_v2 (VStr ''r1'') True stocked_world init_upload)))
   \<and> toasts (fst (loadBrands (fst (handleDeleteBrand_v2 (VStr ''r1'') True stocked_world init_upload)) init_upload)) = toasts (fst (handleDeleteBrand_v2 (VStr ''r1'') True stocked_world init_upload))
   \<and> list_all (\<lambda>r. map_of r ''id'' \<noteq> Some (VStr ''r1'')) (brands_v2 (snd (loadBrands (fst (handleDeleteBrand_v2 (VStr ''r1'') True stocked_world init_upload)) init_upload)))
   \<and> length (tables (fst (handleDeleteBrand_v2 (VStr ''r1'') True stocked_world init_upload)) ''brands'') = length (tables stocked_world ''brands'')
   \<and> map (\<lambda>r. map_of r ''is_deleted'') (filter (\<lambda>r. map_of r ''id'' = Some (VStr ''r1'')) (tables (fst (handleDeleteBrand_v2 (VStr ''r1'') True stocked_world init_upload)) ''brands'')) = [Some (VBool True)]"
proof -
  have pre:
    "online stocked_world"
    "unique_ok ''colors'' (tables stocked_world ''colors'')"
    "unique_ok ''sizes'' (tables stocked_world ''sizes'')"
    by code_simp+
  note T0 = soft_delete_keeps_the_row [where w = stocked_world and i = "VStr ''r1''" and s = first_page
      and sc = init_subcategories and ss = init_sellers and su = init_upload
      and t = "''brands''" and w' = "fst (handleDeleteBrand (VStr ''r1'') True stocked_world first_page)"]
  have run0:
    "error (snd (handleDeleteBrand (VStr ''r1'') True stocked_world first_page)) = None"
    "error (snd (fetchBrands (fst (handleDeleteBrand (VStr ''r1'') True stocked_world first_page)) first_page)) = None"
    "map (\<lambda>r. map_of r ''is_deleted'') (filter (\<lambda>r. map_of r ''id'' = Some (VStr ''r1'')) (tables (fst (handleDeleteBrand (VStr ''r1'') True stocked_world first_page)) ''brands'')) = [Some (VBool True)]"
    by code_simp+
  have del0:
    "soft_deleted ''brands'' (VStr ''r1'') stocked_world (fst (handleDeleteBrand (VStr ''r1'') True stocked_world first_page))"
    "list_all (\<lambda>r. map_of r ''id'' \<noteq> Some (VStr ''r1'')) (items (snd (handleDeleteBrand (VStr ''r1'') True stocked_world first_page)))"
    using pre run0 T0 [THEN conjunct1] by (simp_all add: list_all_iff)
  have load0:
    "list_all (\<lambda>r. map_of r ''id'' \<noteq> Some (VStr ''r1'')) (items (snd (fetchBrands (fst (handleDeleteBrand (VStr ''r1'') True stocked_world first_page)) first_page)))"
    using del0(1) run0 T0 [THEN conjunct2, THEN conjunct2, THEN conjunct1] by (simp add: list_all_iff)
  have kept0:
    "length (tables (fst (handleDeleteBrand (VStr ''r1'') True stocked_world first_page)) ''brands'') = length (tables stocked_world ''brands'')"
    using del0(1) T0 [THEN conjunct2, THEN conjunct2, THEN conjunct2, THEN conjunct2, THEN conjunct2, THEN conjunct2, THEN conjunct2, THEN conjunct2, THEN conjunct2, THEN conjunct2, THEN conjunct2, THEN conjunct2, THEN conjunct2, THEN conjunct2, THEN conjunct2, THEN conjunct2, THEN conjunct2, THEN conjunct2, THEN conjunct2, THEN conjunct2, THEN conjunct2, THEN conjunct2, THEN conjunct2, THEN conjunct2, THEN conjunct1] by simp
  note T1 = soft_delete_keeps_the_row [where w = stocked_world and i = "VStr ''r1''" and s = first_page
      and sc = init_subcategories and ss = init_sellers and su = init_upload
      and t = "''categories''" and w' = "fst (handleDeleteCategory (VStr ''r1'') True stocked_world first_page)"]
  have run1:
    "error (snd (handleDeleteCategory (VStr ''r1'') True stocked_world first_page)) = None"
    "error (snd (fetchCategories (fst (handleDeleteCategory (VStr ''r1'') True stocked_world first_page)) first_page)) = None"
    "map (\<lambda>r. map_of r ''is_deleted'') (filter (\<lambda>r. map_of r ''id'' = Some (VStr ''r1'')) (tables (fst (handleDeleteCategory (VStr ''r1'') True stocked_world first_page)) ''categories'')) = [Some (VBool True)]"
    by code_simp+
  have del1:
    "soft_deleted ''categories'' (VStr ''r1'') stocked_world (fst (handleDeleteCategory (VStr ''r1'') True stocked_world first_page))"
    "list_all (\<lambda>r. map_of r ''id'' \<noteq> Some (VStr ''r1'')) (items (snd (handleDeleteCategory (VStr ''r1'') True stocked_world first_page)))"
    using pre run1 T1 [THEN conjunct2, THEN conjunct2, THEN conjunct2, THEN conjunct1] by (simp_all add: list_all_iff)
  have load1:
    "list_all (\<lambda>r. map_of r ''id'' \<noteq> Some (VStr ''r1'')) (items (snd (fetchCategories (fst (handleDeleteCategory (VStr ''r1'') True stocked_world first_page)) first_page)))"
    using del1(1) run1 T1 [THEN conjunct2, THEN conjunct2, THEN conjunct2, THEN conjunct2, THEN conjunct2, THEN conjunct1] by (simp add: list_all_iff)
  have kept1:
    "length (tables (fst (handleDeleteCategory (VStr ''r1'') True stocked_world first_page)) ''categories'') = length (tables stocked_world ''categories'')"
    using del1(1) T1 [THEN conjunct2, THEN conjunct2, THEN conjunct2, THEN conjunct2, THEN conjunct2, THEN conjunct2, THEN conjunct2, THEN conjunct2, THEN conjunct2, THEN conjunct2, THEN conjunct2, THEN conjunct2, THEN conjunct2, THEN conjunct2, THEN conjunct2, THEN conjunct2, THEN conjunct2, THEN conjunct2, THEN conjunct2, THEN conjunct2, THEN conjunct2, THEN conjunct2, THEN conjunct2, THEN conjunct2, THEN conjunct1] by simp
  note T2 = soft_delete_keeps_the_row [where w = stocked_world and i = "VStr ''r1''" and s = first_page
      and sc = init_subcategories and ss = init_sellers and su = init_upload
      and t = "''subcategories''" and w' = "fst (handleDeleteSubcategory (VStr ''r1'') True stocked_world init_subcategories)"]
  have run2:
    "error (snd (handleDeleteSubcategory (VStr ''r1'') True stocked_world init_subcategories)) = None"
    "error (snd (loadSubcategories (fst (handleDeleteSubcategory (VStr ''r1'') True stocked_world init_subcategories)) init_subcategories)) = None"
    "map (\<lambda>r. map_of r ''is_deleted'') (filter (\<lambda>r. map_of r ''id'' = Some (VStr ''r1'')) (tables (fst (handleDeleteSubcategory (VStr ''r1'') True stocked_world init_subcategories)) ''subcategories'')) = [Some (VBool True)]"
    by code_simp+
  have del2:
    "soft_deleted ''subcategories'' (VStr ''r1'') stocked_world (fst (handleDeleteSubcategory (VStr ''r1'') True stocked_world init_subcategories))"
    "list_all (\<lambda>r. map_of r ''id'' \<noteq> Some (VStr ''r1'')) (items (snd (handleDeleteSubcategory (VStr ''r1'') True stocked_world init_subcategories)))"
    using pre run2 T2 [THEN conjunct2, THEN conjunct2, THEN conjunct2, THEN conjunct2, THEN conjunct2, THEN conjunct2, THEN conjunct1] by (simp_all add: list_all_iff)
  have load2:
    "list_all (\<lambda>r. map_of r ''id'' \<noteq> Some (VStr ''r1'')) (items (snd (loadSubcategories (fst (handleDeleteSubcategory (VStr ''r1'') True stocked_world init_subcategories)) init_subcategories)))"
    using del2(1) run2 T2 [THEN conjunct2, THEN conjunct2, THEN conjunct2, THEN conjunct2, THEN conjunct2, THEN conjunct2, THEN conjunct2, THEN conjunct2, THEN conjunct1] by (simp add: list_all_iff)
  have kept2:
    "length (tables (fst (handleDeleteSubcategory (VStr ''r1'') True stocked_world init_subcategories)) ''subcategories'') = length (tables stocked_world ''subcategories'')"
    using del2(1) T2 [THEN conjunct2, THEN conjunct2, THEN conjunct2, THEN conjunct2, THEN conjunct2, THEN conjunct2, THEN conjunct2, THEN conjunct2, THEN conjunct2, THEN conjunct2, THEN conjunct2, THEN conjunct2, THEN conjunct2, THEN conjunct2, THEN conjunct2, THEN conjunct2, THEN conjunct2, THEN conjunct2, THEN conjunct2, THEN conjunct2, THEN conjunct2, THEN conjunct2, THEN conjunct2, THEN conjunct2, THEN conjunct1] by simp
  note T3 = soft_delete_keeps_the_row [where w = stocked_world and i = "VStr ''r1''" and s = first_page
      and sc = init_subcategories and ss = init_sellers and su = init_upload
      and t = "''audiences''" and w' = "fst (handleDeleteAudience (VStr ''r1'') True stocked_world first_page)"]
  have run3:
    "error (snd (handleDeleteAudience (VStr ''r1'') True stocked_world first_page)) = None"
    "error (snd (fetchAudiences (fst (handleDeleteAudience (VStr ''r1'') True stocked_world first_page)) first_page)) = None"
    "map (\<lambda>r. map_of r ''is_deleted'') (filter (\<lambda>r. map_of r ''id'' = Some (VStr ''r1'')) (tables (fst (handleDeleteAudience (VStr ''r1'') True stocked_world first_page)) ''audiences'')) = [Some (VBool True)]"
    by code_simp+
  have del3:
    "soft_deleted ''audiences'' (VStr ''r1'') stocked_world (fst (handleDeleteAudience (VStr ''r1'') True stocked_world first_page))"
    "list_all (\<lambda>r. map_of r ''id'' \<noteq> Some (VStr ''r1'')) (items (snd (handleDeleteAudience (VStr ''r1'') True stocked_world first_page)))"
    using pre run3 T3 [THEN conjunct2, THEN conjunct2, THEN conjunct2, THEN conjunct2, THEN conjunct2, THEN conjunct2, THEN conjunct2, THEN conjunct2, THEN conjunct2, THEN conjunct1] by (simp_all add: list_all_iff)
  have load3:
    "list_all (\<lambda>r. map_of r ''id'' \<noteq> Some (VStr ''r1'')) (items (snd (fetchAudiences (fst (handleDeleteAudience (VStr ''r1'') True stocked_world first_page)) first_page)))"
    using del3(1) run3 T3 [THEN conjunct2, THEN conjunct2, THEN conjunct2, THEN conjunct2, THEN conjunct2, THEN conjunct2, THEN conjunct2, THEN conjunct2, THEN conjunct2, THEN conjunct2, THEN conjunct2, THEN conjunct1] by (simp add: list_all_iff)
  have kept3:
    "length (tables (fst (handleDeleteAudience (VStr ''r1'') True stocked_world first_page)) ''audiences'') = length (tables stocked_world ''audiences'')"
    using del3(1) T3 [THEN conjunct2, THEN conjunct2, THEN conjunct2, THEN conjunct2, THEN conjunct2, THEN conjunct2, THEN conjunct2, THEN conjunct2, THEN conjunct2, THEN conjunct2, THEN conjunct2, THEN conjunct2, THEN conjunct2, THEN conjunct2, THEN conjunct2, THEN conjunct2, THEN conjunct2, THEN conjunct2, THEN conjunct2, THEN conjunct2, THEN conjunct2, THEN conjunct2, THEN conjunct2, THEN conjunct2, THEN conjunct1] by simp
  note T4 = soft_delete_keeps_the_row [where w = stocked_world and i = "VStr ''r1''" and s = first_page
      and sc = init_subcategories and ss = init_sellers and su = init_upload
      and t = "''colors''" and w' = "fst (handleDeleteColor (VStr ''r1'') True stocked_world first_page)"]
  have run4:
    "error (snd (handleDeleteColor (VStr ''r1'') True stocked_world first_page)) = None"
    "error (snd (fetchColors (fst (handleDeleteColor (VStr ''r1'') True stocked_world first_page)) first_page)) = None"
    "map (\<lambda>r. map_of r ''is_deleted'') (filter (\<lambda>r. map_of r ''id'' = Some (VStr ''r1'')) (tables (fst (handleDeleteColor (VStr ''r1'') True stocked_world first_page)) ''colors'')) = [Some (VBool True)]"
    by code_simp+
  have del4:
    "soft_deleted ''colors'' (VStr ''r1'') stocked_world (fst (handleDeleteColor (VStr ''r1'') True stocked_world first_page))"
    "list_all (\<lambda>r. map_of r ''id'' \<noteq> Some (VStr ''r1'')) (items (snd (handleDeleteColor (VStr ''r1'') True stocked_world first_page)))"
    using pre run4 T4 [THEN conjunct2, THEN conjunct2, THEN conjunct2, THEN conjunct2, THEN conjunct2, THEN conjunct2, THEN conjunct2, THEN conjunct2, THEN conjunct2, THEN conjunct2, THEN conjunct2, THEN conjunct2, THEN conjunct1] by (simp_all add: list_all_iff)
  have load4:
    "list_all (\<lambda>r. map_of r ''id'' \<noteq> Some (VStr ''r1'')) (items (snd (fetchColors (fst (handleDeleteColor (VStr ''r1'') True stocked_world first_page)) first_page)))"
    using del4(1) run4 T4 [THEN conjunct2, THEN conjunct2, THEN conjunct2, THEN conjunct2, THEN conjunct2, THEN conjunct2, THEN conjunct2, THEN conjunct2, THEN conjunct2, THEN conjunct2, THEN conjunct2, THEN conjunct2, THEN conjunct2, THEN conjunct2, THEN conjunct1] by (simp add: list_all_iff)
  have kept4:
    "length (tables (fst (handleDeleteColor (VStr ''r1'') True stocked_world first_page)) ''colors'') = length (tables stocked_world ''colors'')"
    using del4(1) T4 [THEN conjunct2, THEN conjunct2, THEN conjunct2, THEN conjunct2, THEN conjunct2, THEN conjunct2, THEN conjunct2, THEN conjunct2, THEN conjunct2, THEN conjunct2, THEN conjunct2, THEN conjunct2, THEN conjunct2, THEN conjunct2, THEN conjunct2, THEN conjunct2, THEN conjunct2, THEN conjunct2, THEN conjunct2, THEN conjunct2, THEN conjunct2, THEN conjunct2, THEN conjunct2, THEN conjunct2, THEN conjunct1] by simp
  note T5 = soft_delete_keeps_the_row [where w = stocked_world and i = "VStr ''r1''" and s = first_page
      and sc = init_subcategories and ss = init_sellers and su = init_upload
      and t = "''sizes''" and w' = "fst (handleDeleteSize (VStr ''r1'') True stocked_world first_page)"]
  have run5:
    "error (snd (handleDeleteSize (VStr ''r1'') True stocked_world first_page)) = None"
    "error (snd (fetchSizes (fst (handleDeleteSize (VStr ''r1'') True stocked_world first_page)) first_page)) = None"
    "map (\<lambda>r. map_of r ''is_deleted'') (filter (\<lambda>r. map_of r ''id'' = Some (VStr ''r1'')) (tables (fst (handleDeleteSize (VStr ''r1'') True stocked_world first_page)) ''sizes'')) = [Some (VBool True)]"
    by code_simp+
  have del5:
    "soft_deleted ''sizes'' (VStr ''r1'') stocked_world (fst (handleDeleteSize (VStr ''r1'') True stocked_world first_page))"
    "list_all (\<lambda>r. map_of r ''id'' \<noteq> Some (VStr ''r1'')) (items (snd (handleDeleteSize (VStr ''r1'') True stocked_world first_page)))"
    using pre run5 T5 [THEN conjunct2, THEN conjunct2, THEN conjunct2, THEN conjunct2, THEN conjunct2, THEN conjunct2, THEN conjunct2, THEN conjunct2, THEN conjunct2, THEN conjunct2, THEN conjunct2, THEN conjunct2, THEN conjunct2, THEN conjunct2, THEN conjunct2, THEN conjunct1] by (simp_all add: list_all_iff)
  have load5:
    "list_all (\<lambda>r. map_of r ''id'' \<noteq> Some (VStr ''r1'')) (items (snd (fetchSizes (fst (handleDeleteSize (VStr ''r1'') True stocked_world first_page)) first_page)))"
    using del5(1) run5 T5 [THEN conjunct2, THEN conjunct2, THEN conjunct2, THEN conjunct2, THEN conjunct2, THEN conjunct2, THEN conjunct2, THEN conjunct2, THEN conjunct2, THEN conjunct2, THEN conjunct2, THEN conjunct2, THEN conjunct2, THEN conjunct2, THEN conjunct2, THEN conjunct2, THEN conjunct2, THEN conjunct1] by (simp add: list_all_iff)
  have kept5:
    "length (tables (fst (handleDeleteSize (VStr ''r1'') True stocked_world first_page)) ''sizes'') = length (tables stocked_world ''sizes'')"
    using del5(1) T5 [THEN conjunct2, THEN conjunct2, THEN conjunct2, THEN conjunct2, THEN conjunct2, THEN conjunct2, THEN conjunct2, THEN conjunct2, THEN conjunct2, THEN conjunct2, THEN conjunct2, THEN conjunct2, THEN conjunct2, THEN conjunct2, THEN conjunct2, THEN conjunct2, THEN conjunct2, THEN conjunct2, THEN conjunct2, THEN conjunct2, THEN conjunct2, THEN conjunct2, THEN conjunct2, THEN conjunct2, THEN conjunct1] by simp
  note T6 = soft_delete_keeps_the_row [where w = stocked_world and i = "VStr ''r1''" and s = first_page
      and sc = init_subcategories and ss = init_sellers and su = init_upload
      and t = "''users''" and w' = "fst (handleDeleteSeller (VStr ''r1'') True stocked_world init_sellers)"]
  have run6:
    "error (snd (handleDeleteSeller (VStr ''r1'') True stocked_world init_sellers)) = None"
    "error (snd (loadSellers (fst (handleDeleteSeller (VStr ''r1'') True stocked_world init_sellers)) init_sellers)) = None"
    "map (\<lambda>r. map_of r ''is_deleted'') (filter (\<lambda>r. map_of r ''id'' = Some (VStr ''r1'')) (tables (fst (handleDeleteSeller (VStr ''r1'') True stocked_world init_sellers)) ''users'')) = [Some (VBool True)]"
    by code_simp+
  have del6:
    "soft_deleted ''users'' (VStr ''r1'') stocked_world (fst (handleDeleteSeller (VStr ''r1'') True stocked_world init_sellers))"
    "list_all (\<lambda>r. map_of r ''id'' \<noteq> Some (VStr ''r1'')) (sellers (snd (handleDeleteSeller (VStr ''r1'') True stocked_world init_sellers)))"
    using pre run6 T6 [THEN conjunct2, THEN conjunct2, THEN conjunct2, THEN conjunct2, THEN conjunct2, THEN conjunct2, THEN conjunct2, THEN conjunct2, THEN conjunct2, THEN conjunct2, THEN conjunct2, THEN conjunct2, THEN conjunct2, THEN conjunct2, THEN conjunct2, THEN conjunct2, THEN conjunct2, THEN conjunct2, THEN conjunct1] by (simp_all add: list_all_iff)
  have load6:
    "list_all (\<lambda>r. map_of r ''id'' \<noteq> Some (VStr ''r1'')) (sellers (snd (loadSellers (fst (handleDeleteSeller (VStr ''r1'') True stocked_world init_sellers)) init_sellers)))"
    using del6(1) run6 T6 [THEN conjunct2, THEN conjunct2, THEN conjunct2, THEN conjunct2, THEN conjunct2, THEN conjunct2, THEN conjunct2, THEN conjunct2, THEN conjunct2, THEN conjunct2, THEN conjunct2, THEN conjunct2, THEN conjunct2, THEN conjunct2, THEN conjunct2, THEN conjunct2, THEN conjunct2, THEN conjunct2, THEN conjunct2, THEN conjunct2, THEN conjunct1] by (simp add: list_all_iff)
  have kept6:
    "length (tables (fst (handleDeleteSeller (VStr ''r1'') True stocked_world init_sellers)) ''users'') = length (tables stocked_world ''users'')"
    using del6(1) T6 [THEN conjunct2, THEN conjunct2, THEN conjunct2, THEN conjunct2, THEN conjunct2, THEN conjunct2, THEN conjunct2, THEN conjunct2, THEN conjunct2, THEN conjunct2, THEN conjunct2, THEN conjunct2, THEN conjunct2, THEN conjunct2, THEN conjunct2, THEN conjunct2, THEN conjunct2, THEN conjunct2, THEN conjunct2, THEN conjunct2, THEN conjunct2, THEN conjunct2, THEN conjunct2, THEN conjunct2, THEN conjunct1] by simp
  note T7 = soft_delete_keeps_the_row [where w = stocked_world and i = "VStr ''r1''" and s = first_page
      and sc = init_subcategories and ss = init_sellers and su = init_upload
      and t = "''brands''" and w' = "fst (handleDeleteBrand_v2 (VStr ''r1'') True stocked_world init_upload)"]
  have run7:
    "toasts (fst (loadBrands (fst (handleDeleteBrand_v2 (VStr ''r1'') True stocked_world init_upload)) init_upload)) = toasts (fst (handleDeleteBrand_v2 (VStr ''r1'') True stocked_world init_upload))"
    "map (\<lambda>r. map_of r ''is_deleted'') (filter (\<lambda>r. map_of r ''id'' = Some (VStr ''r1'')) (tables (fst (handleDeleteBrand_v2 (VStr ''r1'') True stocked_world init_upload)) ''brands'')) = [Some (VBool True)]"
    by code_simp+
  have del7:
    "soft_deleted ''brands'' (VStr ''r1'') stocked_world (fst (handleDeleteBrand_v2 (VStr ''r1'') True stocked_world init_upload))"
    "list_all (\<lambda>r. map_of r ''id'' \<noteq> Some (VStr ''r1'')) (brands_v2 (snd (handleDeleteBrand_v2 (VStr ''r1'') True stocked_world init_upload)))"
    using pre run7 T7 [THEN conjunct2, THEN conjunct2, THEN conjunct2, THEN conjunct2, THEN conjunct2, THEN conjunct2, THEN conjunct2, THEN conjunct2, THEN conjunct2, THEN conjunct2, THEN conjunct2, THEN conjunct2, THEN conjunct2, THEN conjunct2, THEN conjunct2, THEN conjunct2, THEN conjunct2, THEN conjunct2, THEN conjunct2, THEN conjunct2, THEN conjunct2, THEN conjunct1] by (simp_all add: list_all_iff)
  have load7:
    "list_all (\<lambda>r. map_of r ''id'' \<noteq> Some (VStr ''r1'')) (brands_v2 (snd (loadBrands (fst (handleDeleteBrand_v2 (VStr ''r1'') True stocked_world init_upload)) init_upload)))"
    using del7(1) run7 T7 [THEN conjunct2, THEN conjunct2, THEN conjunct2, THEN conjunct2, THEN conjunct2, THEN conjunct2, THEN conjunct2, THEN conjunct2, THEN conjunct2, THEN conjunct2, THEN conjunct2, THEN conjunct2, THEN conjunct2, THEN conjunct2, THEN conjunct2, THEN conjunct2, THEN conjunct2, THEN conjunct2, THEN conjunct2, THEN conjunct2, THEN conjunct2, THEN conjunct2, THEN conjunct2, THEN conjunct1] by (simp add: list_all_iff)
  have kept7:
    "length (tables (fst (handleDeleteBrand_v2 (VStr ''r1'') True stocked_world init_upload)) ''brands'') = length (tables stocked_world ''brands'')"
    using del7(1) T7 [THEN conjunct2, THEN conjunct2, THEN conjunct2, THEN conjunct2, THEN conjunct2, THEN conjunct2, THEN conjunct2, THEN conjunct2, THEN conjunct2, THEN conjunct2, THEN conjunct2, THEN conjunct2, THEN conjunct2, THEN conjunct2, THEN conjunct2, THEN conjunct2, THEN conjunct2, THEN conjunct2, THEN conjunct2, THEN conjunct2, THEN conjunct2, THEN conjunct2, THEN conjunct2, THEN conjunct2, THEN conjunct1] by simp
  show ?thesis
    by (intro conjI) fact+
qed

text \<open>
  C4, as the claim states it, fails for the adds that make no lookup. On the second brands
  screen, with a live brand \<open>Acme\<close> stored, the add of a brand \<open>Acme\<close> sends an insert
  first, and a second live row \<open>Acme\<close> is stored. On the sellers screen, with a live
  seller \<open>Ann\<close> stored, the add of a seller \<open>Ann\<close> stores a second live row \<open>Ann\<close>.
\<close>

theorem add_without_lookup_counterexample:
  "val_of (tables stocked_world ''brands'' ! 0) ''name'' = VStr ''Acme''
   \<and> not_deleted (tables stocked_world ''brands'' ! 0)
   \<and> requests stocked_world = []
   \<and> requests (fst (handleAddBrand_v2 stocked_world (brand_form_v2 ''Acme''))) ! 0 =
       ReqInsert ''brands''
         [(''name'', VStr ''Acme''), (''description'', VStr []), (''logo_url'', VStr []),
          (''is_deleted'', VBool False)]
   \<and> length (tables (fst (handleAddBrand_v2 stocked_world (brand_form_v2 ''Acme''))) ''brands'') = 3
   \<and> val_of (tables (fst (handleAddBrand_v2 stocked_world (brand_form_v2 ''Acme''))) ''brands'' ! 2) ''name'' = VStr ''Acme''
   \<and> not_deleted (tables (fst (handleAddBrand_v2 stocked_world (brand_form_v2 ''Acme''))) ''brands'' ! 2)
   \<and> val_of (tables stocked_world ''users'' ! 0) ''name'' = VStr ''Ann''
   \<and> not_deleted (tables stocked_world ''users'' ! 0)
   \<and> error (snd (handleAddSeller stocked_world (seller_form ''ann@example.com'' ''Ann''))) = None
   \<and> length (tables (fst (handleAddSeller stocked_world (seller_form ''ann@example.com'' ''Ann''))) ''users'') = 3
   \<and> val_of (tables (fst (handleAddSeller stocked_world (seller_form ''ann@example.com'' ''Ann''))) ''users'' ! 2) ''name'' = VStr ''Ann''
   \<and> not_deleted (tables (fst (handleAddSeller stocked_world (seller_form ''ann@example.com'' ''Ann''))) ''users'' ! 2)"
  by code_simp

text \<open>
  C4, amended. On the brands, categories, subcategories, audiences, colors and sizes
  screens, with the service reachable and a form that passes the checks of the screen: if
  exactly one stored row that is not deleted has the trimmed name of the form (for a
  subcategory the name and the category, for a size the trimmed label and the category),
  the add shows the screen's \<open>already exists\<close> error, sends the lookup and nothing else, and
  leaves the tables and the screen as they were. The second brands screen and the sellers
  screen make no such lookup.
\<close>

theorem add_conflict:
  "(online w \<and> trim (text_of (draft sb) ''name'') \<noteq> []
       \<and> filter (\<lambda>r. map_of r ''name'' = Some (VStr (trim (text_of (draft sb) ''name'')))
                  \<and> not_deleted r) (tables w ''brands'') = [rb] \<longrightarrow>
        tables (fst (handleAddBrand w sb)) = tables w
        \<and> snd (handleAddBrand w sb) = sb
        \<and> toasts (fst (handleAddBrand w sb)) =
            toasts w @ [\<lparr>toast_id = toast_seq w, toast_type = Error,
                         message = ''A brand with this name already exists''\<rparr>]
        \<and> (\<exists>q. requests (fst (handleAddBrand w sb)) = requests w @ [ReqSingle q]))
   \<and> (online w \<and> trim (text_of (draft sk) ''name'') \<noteq> []
       \<and> filter (\<lambda>r. map_of r ''name'' = Some (VStr (trim (text_of (draft sk) ''name'')))
                  \<and> not_deleted r) (tables w ''categories'') = [rk] \<longrightarrow>
        tables (fst (handleAddCategory w sk)) = tables w
        \<and> snd (handleAddCategory w sk) = sk
        \<and> toasts (fst (handleAddCategory w sk)) =
            toasts w @ [\<lparr>toast_id = toast_seq w, toast_type = Error,
                         message = ''A category with this name already exists''\<rparr>]
        \<and> (\<exists>q. requests (fst (handleAddCategory w sk)) = requests w @ [ReqSingle q]))
   \<and> (online w \<and> trim (text_of (draft sc) ''name'') \<noteq> [] \<and> \<not> falsy (val_of (draft sc) ''category_id'')
       \<and> filter (\<lambda>r. map_of r ''name'' = Some (VStr (trim (text_of (draft sc) ''name'')))
                  \<and> map_of r ''category_id'' = Some (val_of (draft sc) ''category_id'')
                  \<and> not_deleted r) (tables w ''subcategories'') = [ru] \<longrightarrow>
        tables (fst (handleAddSubcategory w sc)) = tables w
        \<and> snd (handleAddSubcategory w sc) = sc
        \<and> toasts (fst (handleAddSubcategory w sc)) =
            toasts w @ [\<lparr>toast_id = toast_seq w, toast_type = Error,
                         message = ''A subcategory with this name already exists in the selected category''\<rparr>]
        \<and> (\<exists>q. requests (fst (handleAddSubcategory w sc)) = requests w @ [ReqSingle q]))
   \<and> (online w \<and> trim (text_of (draft sa) ''name'') \<noteq> []
       \<and> filter (\<lambda>r. map_of r ''name'' = Some (VStr (trim (text_of (draft sa) ''name'')))
                  \<and> not_deleted r) (tables w ''audiences'') = [ra] \<longrightarrow>
        tables (fst (handleAddAudience w sa)) = tables w
        \<and> snd (handleAddAudience w sa) = sa
        \<and> toasts (fst (handleAddAudience w sa)) =
            toasts w @ [\<lparr>toast_id = toast_seq w, toast_type = Error,
                         message = ''An audience with this name already exists''\<rparr>]
        \<and> (\<exists>q. requests (fst (handleAddAudience w sa)) = requests w @ [ReqSingle q]))
   \<and> (online w \<and> trim (text_of (draft sl) ''name'') \<noteq> []
       \<and> validateHexCode (trim (text_of (draft sl) ''hex_code''))
       \<and> filter (\<lambda>r. map_of r ''name'' = Some (VStr (trim (text_of (draft sl) ''name'')))
                  \<and> not_deleted r) (tables w ''colors'') = [rl] \<longrightarrow>
        tables (fst (handleAddColor w sl)) = tables w
        \<and> snd (handleAddColor w sl) = sl
        \<and> toasts (fst (handleAddColor w sl)) =
            toasts w @ [\<lparr>toast_id = toast_seq w, toast_type = Error,
                         message = ''A color with this name already exists''\<rparr>]
        \<and> (\<exists>q. requests (fst (handleAddColor w sl)) = requests w @ [ReqSingle q]))
   \<and> (online w \<and> trim (text_of (draft sz) ''label'') \<noteq> []
       \<and> filter (\<lambda>r. map_of r ''label'' = Some (VStr (trim (text_of (draft sz) ''label'')))
                  \<and> map_of r ''category'' = Some (val_of (draft sz) ''category'')
                  \<and> not_deleted r) (tables w ''sizes'') = [rz] \<longrightarrow>
        tables (fst (handleAddSize w sz)) = tables w
        \<and> snd (handleAddSize w sz) = sz
        \<and> toasts (fst (handleAddSize w sz)) =
            toasts w @ [\<lparr>toast_id = toast_seq w, toast_type = Error,
                         message = ''A size with this label already exists in this category''\<rparr>]
        \<and> (\<exists>q. requests (fst (handleAddSize w sz)) = requests w @ [ReqSingle q]))"
proof -
  have "(online w \<and> trim (text_of (draft sb) ''name'') \<noteq> []
       \<and> filter (\<lambda>r. map_of r ''name'' = Some (VStr (trim (text_of (draft sb) ''name'')))
                  \<and> not_deleted r) (tables w ''brands'') = [rb] \<longrightarrow>
        tables (fst (handleAddBrand w sb)) = tables w
        \<and> snd (handleAddBrand w sb) = sb
        \<and> toasts (fst (handleAddBrand w sb)) =
            toasts w @ [\<lparr>toast_id = toast_seq w, toast_type = Error,
                         message = ''A brand with this name already exists''\<rparr>]
        \<and> (\<exists>q. requests (fst (handleAddBrand w sb)) = requests w @ [ReqSingle q]))"
    using handleAddBrand_conflict [where w = w and s = sb and ?r0.0 = rb]
    by blast
  have "(online w \<and> trim (text_of (draft sk) ''name'') \<noteq> []
       \<and> filter (\<lambda>r. map_of r ''name'' = Some (VStr (trim (text_of (draft sk) ''name'')))
                  \<and> not_deleted r) (tables w ''categories'') = [rk] \<longrightarrow>
        tables (fst (handleAddCategory w sk)) = tables w
        \<and> snd (handleAddCategory w sk) = sk
        \<and> toasts (fst (handleAddCategory w sk)) =
            toasts w @ [\<lparr>toast_id = toast_seq w, toast_type = Error,
                         message = ''A category with this name already exists''\<rparr>]
        \<and> (\<exists>q. requests (fst (handleAddCategory w sk)) = requests w @ [ReqSingle q]))"
    using handleAddCategory_conflict [where w = w and s = sk and ?r0.0 = rk]
    by blast
  have "(online w \<and> trim (text_of (draft sc) ''name'') \<noteq> [] \<and> \<not> falsy (val_of (draft sc) ''category_id'')
       \<and> filter (\<lambda>r. map_of r ''name'' = Some (VStr (trim (text_of (draft sc) ''name'')))
                  \<and> map_of r ''category_id'' = Some (val_of (draft sc) ''category_id'')
                  \<and> not_deleted r) (tables w ''subcategories'') = [ru] \<longrightarrow>
        tables (fst (handleAddSubcategory w sc)) = tables w
        \<and> snd (handleAddSubcategory w sc) = sc
        \<and> toasts (fst (handleAddSubcategory w sc)) =
            toasts w @ [\<lparr>toast_id = toast_seq w, toast_type = Error,
                         message = ''A subcategory with this name already exists in the selected category''\<rparr>]
        \<and> (\<exists>q. requests (fst (handleAddSubcategory w sc)) = requests w @ [ReqSingle q]))"
    using handleAddSubcategory_conflict [where w = w and s = sc and ?r0.0 = ru]
    by blast
  have "(online w \<and> trim (text_of (draft sa) ''name'') \<noteq> []
       \<and> filter (\<lambda>r. map_of r ''name'' = Some (VStr (trim (text_of (draft sa) ''name'')))
                  \<and> not_deleted r) (tables w ''audiences'') = [ra] \<longrightarrow>
        tables (fst (handleAddAudience w sa)) = tables w
        \<and> snd (handleAddAudience w sa) = sa
        \<and> toasts (fst (handleAddAudience w sa)) =
            toasts w @ [\<lparr>toast_id = toast_seq w, toast_type = Error,
                         message = ''An audience with this name already exists''\<rparr>]
        \<and> (\<exists>q. requests (fst (handleAddAudience w sa)) = requests w @ [ReqSingle q]))"
    using handleAddAudience_conflict [where w = w and s = sa and ?r0.0 = ra]
    by blast
  have "(online w \<and> trim (text_of (draft sl) ''name'') \<noteq> []
       \<and> validateHexCode (trim (text_of (draft sl) ''hex_code''))
       \<and> filter (\<lambda>r. map_of r ''name'' = Some (VStr (trim (text_of (draft sl) ''name'')))
                  \<and> not_deleted r) (tables w ''colors'') = [rl] \<longrightarrow>
        tables (fst (handleAddColor w sl)) = tables w
        \<and> snd (handleAddColor w sl) = sl
        \<and> toasts (fst (handleAddColor w sl)) =
            toasts w @ [\<lparr>toast_id = toast_seq w, toast_type = Error,
                         message = ''A color with this name already exists''\<rparr>]
        \<and> (\<exists>q. requests (fst (handleAddColor w sl)) = requests w @ [ReqSingle q]))"
    using handleAddColor_conflict [where w = w and s = sl and ?r0.0 = rl]
    by blast
  have "(online w \<and> trim (text_of (draft sz) ''label'') \<noteq> []
       \<and> filter (\<lambda>r. map_of r ''label'' = Some (VStr (trim (text_of (draft sz) ''label'')))
                  \<and> map_of r ''category'' = Some (val_of (draft sz) ''category'')
                  \<and> not_deleted r) (tables w ''sizes'') = [rz] \<longrightarrow>
        tables (fst (handleAddSize w sz)) = tables w
        \<and> snd (handleAddSize w sz) = sz
        \<and> toasts (fst (handleAddSize w sz)) =
            toasts w @ [\<lparr>toast_id = toast_seq w, toast_type = Error,
                         message = ''A size with this label already exists in this category''\<rparr>]
        \<and> (\<exists>q. requests (fst (handleAddSize w sz)) = requests w @ [ReqSingle q]))"
    using handleAddSize_conflict [where w = w and s = sz and ?r0.0 = rz]
    by blast
  show ?thesis
    by (intro conjI) fact+
qed

theorem add_conflict_witness:
  "online stocked_world
   \<and> filter (\<lambda>r. map_of r ''name'' = Some (VStr (trim (text_of (draft (init_screen [(''name'', VStr '' Acme'')])) ''name'')))
                  \<and> not_deleted r) (tables stocked_world ''brands'') = [tables stocked_world ''brands'' ! 0]
   \<and> tables (fst (handleAddBrand stocked_world (init_screen [(''name'', VStr '' Acme'')]))) = tables stocked_world
   \<and> toasts (fst (handleAddBrand stocked_world (init_screen [(''name'', VStr '' Acme'')]))) =
       [\<lparr>toast_id = 0, toast_type = Error, message = ''A brand with this name already exists''\<rparr>]
   \<and> (\<exists>q. requests (fst (handleAddBrand stocked_world (init_screen [(''name'', VStr '' Acme'')]))) = [ReqSingle q])
   \<and> filter (\<lambda>r. map_of r ''name'' = Some (VStr (trim (text_of (draft (init_screen [(''name'', VStr ''Shoes'')])) ''name'')))
                  \<and> not_deleted r) (tables stocked_world ''categories'') = [tables stocked_world ''categories'' ! 0]
   \<and> tables (fst (handleAddCategory stocked_world (init_screen [(''name'', VStr ''Shoes'')]))) = tables stocked_world
   \<and> toasts (fst (handleAddCategory stocked_world (init_screen [(''name'', VStr ''Shoes'')]))) =
       [\<lparr>toast_id = 0, toast_type = Error, message = ''A category with this name already exists''\<rparr>]
   \<and> (\<exists>q. requests (fst (handleAddCategory stocked_world (init_screen [(''name'', VStr ''Shoes'')]))) = [ReqSingle q])
   \<and> filter (\<lambda>r. map_of r ''name'' = Some (VStr (trim (text_of (draft (init_subcategories\<lparr>draft := [(''name'', VStr ''Boots''), (''category_id'', VStr ''r1'')]\<rparr>)) ''name'')))
                  \<and> map_of r ''category_id'' = Some (val_of (draft (init_subcategories\<lparr>draft := [(''name'', VStr ''Boots''), (''category_id'', VStr ''r1'')]\<rparr>)) ''category_id'')
                  \<and> not_deleted r) (tables stocked_world ''subcategories'') = [tables stocked_world ''subcategories'' ! 0]
   \<and> tables (fst (handleAddSubcategory stocked_world (init_subcategories\<lparr>draft := [(''name'', VStr ''Boots''), (''category_id'', VStr ''r1'')]\<rparr>))) = tables stocked_world
   \<and> toasts (fst (handleAddSubcategory stocked_world (init_subcategories\<lparr>draft := [(''name'', VStr ''Boots''), (''category_id'', VStr ''r1'')]\<rparr>))) =
       [\<lparr>toast_id = 0, toast_type = Error, message = ''A subcategory with this name already exists in the selected category''\<rparr>]
   \<and> (\<exists>q. requests (fst (handleAddSubcategory stocked_world (init_subcategories\<lparr>draft := [(''name'', VStr ''Boots''), (''category_id'', VStr ''r1'')]\<rparr>))) = [ReqSingle q])
   \<and> filter (\<lambda>r. map_of r ''name'' = Some (VStr (trim (text_of (draft (init_screen [(''name'', VStr ''Kids'')])) ''name'')))
                  \<and> not_deleted r) (tables stocked_world ''audiences'') = [tables stocked_world ''audiences'' ! 0]
   \<and> tables (fst (handleAddAudience stocked_world (init_screen [(''name'', VStr ''Kids'')]))) = tables stocked_world
   \<and> toasts (fst (handleAddAudience stocked_world (init_screen [(''name'', VStr ''Kids'')]))) =
       [\<lparr>toast_id = 0, toast_type = Error, message = ''An audience with this name already exists''\<rparr>]
   \<and> (\<exists>q. requests (fst (handleAddAudience stocked_world (init_screen [(''name'', VStr ''Kids'')]))) = [ReqSingle q])
   \<and> filter (\<lambda>r. map_of r ''name'' = Some (VStr (trim (text_of (draft (color_form ''Red'' ''#ABC'' ''pastel'')) ''name'')))
                  \<and> not_deleted r) (tables stocked_world ''colors'') = [tables stocked_world ''colors'' ! 0]
   \<and> tables (fst (handleAddColor stocked_world (color_form ''Red'' ''#ABC'' ''pastel''))) = tables stocked_world
   \<and> toasts (fst (handleAddColor stocked_world (color_form ''Red'' ''#ABC'' ''pastel''))) =
       [\<lparr>toast_id = 0, toast_type = Error, message = ''A color with this name already exists''\<rparr>]
   \<and> (\<exists>q. requests (fst (handleAddColor stocked_world (color_form ''Red'' ''#ABC'' ''pastel''))) = [ReqSingle q])
   \<and> filter (\<lambda>r. map_of r ''label'' = Some (VStr (trim (text_of (draft (init_screen [(''label'', VStr ''M''), (''category'', VStr ''tops'')])) ''label'')))
                  \<and> map_of r ''category'' = Some (val_of (draft (init_screen [(''label'', VStr ''M''), (''category'', VStr ''tops'')])) ''category'')
                  \<and> not_deleted r) (tables stocked_world ''sizes'') = [tables stocked_world ''sizes'' ! 0]
   \<and> tables (fst (handleAddSize stocked_world (init_screen [(''label'', VStr ''M''), (''category'', VStr ''tops'')]))) = tables stocked_world
   \<and> toasts (fst (handleAddSize stocked_world (init_screen [(''label'', VStr ''M''), (''category'', VStr ''tops'')]))) =
       [\<lparr>toast_id = 0, toast_type = Error, message = ''A size with this label already exists in this category''\<rparr>]
   \<and> (\<exists>q. requests (fst (handleAddSize stocked_world (init_screen [(''label'', VStr ''M''), (''category'', VStr ''tops'')]))) = [ReqSingle q])"
proof -
  have pre:
    "online stocked_world"
    "trim (text_of (draft (init_screen [(''name'', VStr '' Acme'')])) ''name'') \<noteq> []"
    "filter (\<lambda>r. map_of r ''name'' = Some (VStr (trim (text_of (draft (init_screen [(''name'', VStr '' Acme'')])) ''name'')))
                  \<and> not_deleted r) (tables stocked_world ''brands'') = [tables stocked_world ''brands'' ! 0]"
    "trim (text_of (draft (init_screen [(''name'', VStr ''Shoes'')])) ''name'') \<noteq> []"
    "filter (\<lambda>r. map_of r ''name'' = Some (VStr (trim (text_of (draft (init_screen [(''name'', VStr ''Shoes'')])) ''name'')))
                  \<and> not_deleted r) (tables stocked_world ''categories'') = [tables stocked_world ''categories'' ! 0]"
    "trim (text_of (draft (init_subcategories\<lparr>draft := [(''name'', VStr ''Boots''), (''category_id'', VStr ''r1'')]\<rparr>)) ''name'') \<noteq> [] \<and> \<not> falsy (val_of (draft (init_subcategories\<lparr>draft := [(''name'', VStr ''Boots''), (''category_id'', VStr ''r1'')]\<rparr>)) ''category_id'')"
    "filter (\<lambda>r. map_of r ''name'' = Some (VStr (trim (text_of (draft (init_subcategories\<lparr>draft := [(''name'', VStr ''Boots''), (''category_id'', VStr ''r1'')]\<rparr>)) ''name'')))
                  \<and> map_of r ''category_id'' = Some (val_of (draft (init_subcategories\<lparr>draft := [(''name'', VStr ''Boots''), (''category_id'', VStr ''r1'')]\<rparr>)) ''category_id'')
                  \<and> not_deleted r) (tables stocked_world ''subcategories'') = [tables stocked_world ''subcategories'' ! 0]"
    "trim (text_of (draft (init_screen [(''name'', VStr ''Kids'')])) ''name'') \<noteq> []"
    "filter (\<lambda>r. map_of r ''name'' = Some (VStr (trim (text_of (draft (init_screen [(''name'', VStr ''Kids'')])) ''name'')))
                  \<and> not_deleted r) (tables stocked_world ''audiences'') = [tables stocked_world ''audiences'' ! 0]"
    "trim (text_of (draft (color_form ''Red'' ''#ABC'' ''pastel'')) ''name'') \<noteq> []
       \<and> validateHexCode (trim (text_of (draft (color_form ''Red'' ''#ABC'' ''pastel'')) ''hex_code''))"
    "filter (\<lambda>r. map_of r ''name'' = Some (VStr (trim (text_of (draft (color_form ''Red'' ''#ABC'' ''pastel'')) ''name'')))
                  \<and> not_deleted r) (tables stocked_world ''colors'') = [tables stocked_world ''colors'' ! 0]"
    "trim (text_of (draft (init_screen [(''label'', VStr ''M''), (''category'', VStr ''tops'')])) ''label'') \<noteq> []"
    "filter (\<lambda>r. map_of r ''label'' = Some (VStr (trim (text_of (draft (init_screen [(''label'', VStr ''M''), (''category'', VStr ''tops'')])) ''label'')))
                  \<and> map_of r ''category'' = Some (val_of (draft (init_screen [(''label'', VStr ''M''), (''category'', VStr ''tops'')])) ''category'')
                  \<and> not_deleted r) (tables stocked_world ''sizes'') = [tables stocked_world ''sizes'' ! 0]"
    by code_simp+
  have st: "toasts stocked_world = []" "toast_seq stocked_world = 0" "requests stocked_world = []"
    by code_simp+
  show ?thesis
    using pre add_conflict [where w = stocked_world
        and sb = "init_screen [(''name'', VStr '' Acme'')]"
        and rb = "tables stocked_world ''brands'' ! 0"
        and sk = "init_screen [(''name'', VStr ''Shoes'')]"
        and rk = "tables stocked_world ''categories'' ! 0"
        and sc = "init_subcategories\<lparr>draft := [(''name'', VStr ''Boots''), (''category_id'', VStr ''r1'')]\<rparr>"
        and ru = "tables stocked_world ''subcategories'' ! 0"
        and sa = "init_screen [(''name'', VStr ''Kids'')]"
        and ra = "tables stocked_world ''audiences'' ! 0"
        and sl = "color_form ''Red'' ''#ABC'' ''pastel''"
        and rl = "tables stocked_world ''colors'' ! 0"
        and sz = "init_screen [(''label'', VStr ''M''), (''category'', VStr ''tops'')]"
        and rz = "tables stocked_world ''sizes'' ! 0"]
    by (simp add: st)
qed

text \<open>
  C5 does not hold for the sellers screen. At time 100, the edit of the seller \<open>r1\<close>
  (last updated at time 5) sends an update of \<open>name\<close>, \<open>gender\<close> and \<open>age\<close> only: it
  succeeds, the name is changed, and \<open>updated_at\<close> is still 5. The edits of the brand \<open>r1\<close>
  and of the color \<open>r1\<close> in the same state send \<open>updated_at\<close> 100 with their update, and
  the stored row takes it.
\<close>

theorem edit_seller_omits_updated_at:
  "clock stocked_world = 100
   \<and> requests stocked_world = []
   \<and> val_of (tables stocked_world ''users'' ! 0) ''id'' = VStr ''r1''
   \<and> val_of (tables stocked_world ''users'' ! 0) ''updated_at'' = VInt 5
   \<and> requests (fst (handleEditSeller stocked_world seller_edit)) ! 0 =
       ReqUpdate ''users''
         [(''name'', VStr ''Anna''), (''gender'', VStr ''other''), (''age'', VInt 31)]
         [Eq ''id'' (VStr ''r1'')]
   \<and> error (snd (handleEditSeller stocked_world seller_edit)) = None
   \<and> success (snd (handleEditSeller stocked_world seller_edit)) =
       Some ''Seller updated successfully''
   \<and> val_of (tables (fst (handleEditSeller stocked_world seller_edit)) ''users'' ! 0) ''name'' =
       VStr ''Anna''
   \<and> val_of (tables (fst (handleEditSeller stocked_world seller_edit)) ''users'' ! 0)
        ''updated_at'' = VInt 5
   \<and> selected brand_edit =
       Some [(''id'', VStr ''r1''), (''name'', VStr ''Acme Ltd''), (''is_deleted'', VBool False),
             (''created_at'', VInt 1), (''updated_at'', VInt 1),
             (''description'', VStr ''Tools''), (''logo_url'', VStr [])]
   \<and> val_of (tables stocked_world ''brands'' ! 0) ''updated_at'' = VInt 1
   \<and> requests (fst (handleEditBrand stocked_world brand_edit)) ! 1 =
       ReqUpdate ''brands''
         [(''name'', VStr ''Acme Ltd''), (''description'', VStr ''Tools''),
          (''logo_url'', VStr []), (''updated_at'', VInt 100)]
         [Eq ''id'' (VStr ''r1'')]
   \<and> val_of (tables (fst (handleEditBrand stocked_world brand_edit)) ''brands'' ! 0)
        ''updated_at'' = VInt 100
   \<and> selected color_edit =
       Some [(''id'', VStr ''r1''), (''name'', VStr ''Crimson''), (''is_deleted'', VBool False),
             (''created_at'', VInt 1), (''updated_at'', VInt 1),
             (''hex_code'', VStr ''#FF0000''), (''category'', VStr ''primary''),
             (''display_order'', VInt 1)]
   \<and> val_of (tables stocked_world ''colors'' ! 0) ''updated_at'' = VInt 1
   \<and> requests (fst (handleEditColor stocked_world color_edit)) ! 1 =
       ReqUpdate ''colors''
         [(''name'', VStr ''Crimson''), (''hex_code'', VStr ''#FF0000''),
          (''updated_at'', VInt 100)]
         [Eq ''id'' (VStr ''r1'')]
   \<and> val_of (tables (fst (handleEditColor stocked_world color_edit)) ''colors'' ! 0)
        ''updated_at'' = VInt 100"
  by code_simp

lemma order_key_embed:
  assumes "embed_all tabs es r0 = Some r" "\<forall>c \<in> fst ` set os. c \<notin> set (map embed_alias es)"
  shows "order_key rk os r = order_key rk os r0"
proof -
  have "val_of r c = val_of r0 c" if "c \<in> fst ` set os" for c
  proof -
    from that assms(2) have "c \<notin> set (map embed_alias es)" by blast
    then have "map_of r c = map_of r0 c" by (rule embed_all_back [OF assms(1)])
    then show ?thesis by (simp add: val_of_def)
  qed
  then show ?thesis
    unfolding order_key_def by (intro map_cong) (auto simp: rev_image_eqI)
qed

lemma map_filter_sorted:
  assumes "sorted (map k xs)" "\<And>x y. f x = Some y \<Longrightarrow> k y = k x"
  shows "sorted (map k (List.map_filter f xs))"
  using assms(1)
proof (induction xs)
  case Nil
  then show ?case by (simp add: List.map_filter_simps)
next
  case (Cons x xs)
  then show ?case
    by (cases "f x") (auto simp: List.map_filter_simps in_map_filter assms(2))
qed

lemma select_rows_sorted_embed:
  assumes "\<forall>c \<in> fst ` set (q_order q). c \<notin> set (map embed_alias (q_embed q))"
  shows "sorted (map (order_key (col_rank w) (q_order q)) (select_rows w q))"
  unfolding select_rows_def
  by (rule map_filter_sorted) (simp, rule order_key_embed, assumption, rule assms)

lemma fetchBrands_sorted:
  assumes "error (snd (fetchBrands w s)) = None"
  shows "sorted_wrt (\<lambda>a b. rank_of w ''created_at'' b \<le> rank_of w ''created_at'' a)
           (items (snd (fetchBrands w s)))"
proof -
  have "sorted (map (order_key (col_rank w) (q_order (fetchBrands_query s)))
          (page_of (q_range (fetchBrands_query s)) (select_rows w (fetchBrands_query s))))"
    by (rule page_of_sorted, rule select_rows_sorted) simp
  then show ?thesis
    using assms unfolding fetchBrands_unfold
    by (auto split: if_splits intro: by_created_at_desc)
qed

lemma fetchCategories_sorted:
  assumes "error (snd (fetchCategories w s)) = None"
  shows "sorted_wrt (\<lambda>a b. rank_of w ''created_at'' b \<le> rank_of w ''created_at'' a)
           (items (snd (fetchCategories w s)))"
proof -
  have "sorted (map (order_key (col_rank w) (q_order (fetchCategories_query s)))
          (page_of (q_range (fetchCategories_query s)) (select_rows w (fetchCategories_query s))))"
    by (rule page_of_sorted, rule select_rows_sorted) simp
  then show ?thesis
    using assms unfolding fetchCategories_unfold
    by (auto split: if_splits intro: by_created_at_desc)
qed

lemma fetchAudiences_sorted:
  assumes "error (snd (fetchAudiences w s)) = None"
  shows "sorted_wrt (\<lambda>a b. rank_of w ''created_at'' b \<le> rank_of w ''created_at'' a)
           (items (snd (fetchAudiences w s)))"
proof -
  have "sorted (map (order_key (col_rank w) (q_order (fetchAudiences_query s)))
          (page_of (q_range (fetchAudiences_query s)) (select_rows w (fetchAudiences_query s))))"
    by (rule page_of_sorted, rule select_rows_sorted) simp
  then show ?thesis
    using assms unfolding fetchAudiences_unfold
    by (auto split: if_splits intro: by_created_at_desc)
qed

lemma loadSubcategories_sorted:
  assumes "error (snd (loadSubcategories w s)) = None"
  shows "sorted_wrt (\<lambda>a b. rank_of w ''created_at'' b \<le> rank_of w ''created_at'' a)
           (items (snd (loadSubcategories w s)))"
proof -
  have "sorted (map (order_key (col_rank w) (q_order (loadSubcategories_query s)))
          (page_of (q_range (loadSubcategories_query s))
             (select_rows w (loadSubcategories_query s))))"
    by (rule page_of_sorted, rule select_rows_sorted_embed) (simp add: embed_alias_def)
  then show ?thesis
    using assms unfolding loadSubcategories_unfold
    by (auto split: if_splits intro: by_created_at_desc)
qed

text \<open>
  C6, as the claim states it, fails for colors: the load of the colors screen asks for the
  order \<open>created_at\<close> descending only. With two colors of the category \<open>primary\<close>, the
  first stored with \<open>display_order\<close> 1 and the second, created later, with
  \<open>display_order\<close> 2, the load lists the second before the first.
\<close>

theorem colors_order_counterexample:
  "q_order (fetchColors_query first_page) = [(''created_at'', False)]
   \<and> error (snd (fetchColors stocked_world first_page)) = None
   \<and> items (snd (fetchColors stocked_world first_page)) =
       [tables stocked_world ''colors'' ! 1, tables stocked_world ''colors'' ! 0]
   \<and> val_of (tables stocked_world ''colors'' ! 0) ''category'' = VStr ''primary''
   \<and> val_of (tables stocked_world ''colors'' ! 1) ''category'' = VStr ''primary''
   \<and> val_of (tables stocked_world ''colors'' ! 0) ''display_order'' = VInt 1
   \<and> val_of (tables stocked_world ''colors'' ! 1) ''display_order'' = VInt 2
   \<and> rank_of stocked_world ''display_order'' (tables stocked_world ''colors'' ! 0)
       < rank_of stocked_world ''display_order'' (tables stocked_world ''colors'' ! 1)
   \<and> rank_of stocked_world ''created_at'' (tables stocked_world ''colors'' ! 0)
       < rank_of stocked_world ''created_at'' (tables stocked_world ''colors'' ! 1)"
  by code_simp

text \<open>
  C6, amended. A load of the sizes screen that succeeds lists its rows by \<open>category\<close> and,
  within a category, by \<open>display_order\<close>, both ascending. A load of the colors screen that
  succeeds lists its rows by \<open>created_at\<close> descending, as the loads of the brands,
  categories, subcategories and audiences screens do. The order of two values of a column
  is the service's (\<open>col_rank\<close>).
\<close>

theorem load_order:
  "(error (snd (fetchSizes w s)) = None \<longrightarrow>
      sorted_wrt
        (\<lambda>a b. rank_of w ''category'' a < rank_of w ''category'' b \<or>
               (rank_of w ''category'' a = rank_of w ''category'' b \<and>
                rank_of w ''display_order'' a \<le> rank_of w ''display_order'' b))
        (items (snd (fetchSizes w s))))
   \<and> (error (snd (fetchColors w s)) = None \<longrightarrow>
      sorted_wrt (\<lambda>a b. rank_of w ''created_at'' b \<le> rank_of w ''created_at'' a)
        (items (snd (fetchColors w s))))
   \<and> (error (snd (fetchBrands w s)) = None \<longrightarrow>
      sorted_wrt (\<lambda>a b. rank_of w ''created_at'' b \<le> rank_of w ''created_at'' a)
        (items (snd (fetchBrands w s))))
   \<and> (error (snd (fetchCategories w s)) = None \<longrightarrow>
      sorted_wrt (\<lambda>a b. rank_of w ''created_at'' b \<le> rank_of w ''created_at'' a)
        (items (snd (fetchCategories w s))))
   \<and> (error (snd (loadSubcategories w sc)) = None \<longrightarrow>
      sorted_wrt (\<lambda>a b. rank_of w ''created_at'' b \<le> rank_of w ''created_at'' a)
        (items (snd (loadSubcategories w sc))))
   \<and> (error (snd (fetchAudiences w s)) = None \<longrightarrow>
      sorted_wrt (\<lambda>a b. rank_of w ''created_at'' b \<le> rank_of w ''created_at'' a)
        (items (snd (fetchAudiences w s))))"
  by (intro conjI impI fetchSizes_sorted fetchColors_sorted fetchBrands_sorted
      fetchCategories_sorted loadSubcategories_sorted fetchAudiences_sorted)

theorem load_order_witness:
  "error (snd (fetchSizes stocked_world first_page)) = None
   \<and> map (\<lambda>r. val_of r ''label'') (items (snd (fetchSizes stocked_world first_page))) =
       [VStr ''S'', VStr ''M'']
   \<and> sorted_wrt
        (\<lambda>a b. rank_of stocked_world ''category'' a < rank_of stocked_world ''category'' b \<or>
               (rank_of stocked_world ''category'' a = rank_of stocked_world ''category'' b \<and>
                rank_of stocked_world ''display_order'' a
                  \<le> rank_of stocked_world ''display_order'' b))
        (items (snd (fetchSizes stocked_world first_page)))
   \<and> error (snd (fetchColors stocked_world first_page)) = None
   \<and> map (\<lambda>r. val_of r ''name'') (items (snd (fetchColors stocked_world first_page))) =
       [VStr ''Blue'', VStr ''Red'']
   \<and> sorted_wrt
        (\<lambda>a b. rank_of stocked_world ''created_at'' b \<le> rank_of stocked_world ''created_at'' a)
        (items (snd (fetchColors stocked_world first_page)))
   \<and> error (snd (fetchBrands stocked_world first_page)) = None
   \<and> sorted_wrt
        (\<lambda>a b. rank_of stocked_world ''created_at'' b \<le> rank_of stocked_world ''created_at'' a)
        (items (snd (fetchBrands stocked_world first_page)))
   \<and> error (snd (fetchCategories stocked_world first_page)) = None
   \<and> sorted_wrt
        (\<lambda>a b. rank_of stocked_world ''created_at'' b \<le> rank_of stocked_world ''created_at'' a)
        (items (snd (fetchCategories stocked_world first_page)))
   \<and> error (snd (loadSubcategories stocked_world init_subcategories)) = None
   \<and> sorted_wrt
        (\<lambda>a b. rank_of stocked_world ''created_at'' b \<le> rank_of stocked_world ''created_at'' a)
        (items (snd (loadSubcategories stocked_world init_subcategories)))
   \<and> error (snd (fetchAudiences stocked_world first_page)) = None
   \<and> sorted_wrt
        (\<lambda>a b. rank_of stocked_world ''created_at'' b \<le> rank_of stocked_world ''created_at'' a)
        (items (snd (fetchAudiences stocked_world first_page)))"
proof -
  have ok:
    "error (snd (fetchSizes stocked_world first_page)) = None"
    "error (snd (fetchColors stocked_world first_page)) = None"
    "error (snd (fetchBrands stocked_world first_page)) = None"
    "error (snd (fetchCategories stocked_world first_page)) = None"
    "error (snd (loadSubcategories stocked_world init_subcategories)) = None"
    "error (snd (fetchAudiences stocked_world first_page)) = None"
    "map (\<lambda>r. val_of r ''label'') (items (snd (fetchSizes stocked_world first_page))) =
       [VStr ''S'', VStr ''M'']"
    "map (\<lambda>r. val_of r ''name'') (items (snd (fetchColors stocked_world first_page))) =
       [VStr ''Blue'', VStr ''Red'']"
    by code_simp+
  show ?thesis
    using ok load_order [of stocked_world first_page init_subcategories]
    by simp
qed

text \<open>
  C7, as the claim states it, fails. For a PDF of 2000000 bytes, which fails both checks,
  the first version of the picker reports the size (its size check comes first), not the
  type; the second version checks the type first but emits no event at all: it shows the
  error toast \<open>Please select an image file\<close>. For a PNG of 2000000 bytes the second version
  again emits no event and shows the size toast.
\<close>

theorem picker_validation_counterexample:
  "maxSize mounted_v1 = 1048576
   \<and> is_image (an_upload ''application/pdf'' 2000000) = False
   \<and> dispatched (handleFile (an_upload ''application/pdf'' 2000000) mounted_v1) =
       [ErrorEvent (SizeExceeded 1048576)]
   \<and> dispatched (snd (validateAndProcessFile (an_upload ''application/pdf'' 2000000)
                        demo_world mounted_v2)) = []
   \<and> toasts (fst (validateAndProcessFile (an_upload ''application/pdf'' 2000000)
                    demo_world mounted_v2)) =
       [\<lparr>toast_id = 0, toast_type = Error, message = ''Please select an image file''\<rparr>]
   \<and> dispatched (snd (validateAndProcessFile (an_upload ''image/png'' 2000000)
                        demo_world mounted_v2)) = []
   \<and> toasts (fst (validateAndProcessFile (an_upload ''image/png'' 2000000)
                    demo_world mounted_v2)) =
       [\<lparr>toast_id = 0, toast_type = Error, message = ''Image size should be less than 1MB''\<rparr>]"
  by (simp add: handleFile_cases validateAndProcessFile_cases an_upload_def mounted_v1_def
      mounted_v2_def default_maxSize_def is_image_def demo_world_def)

text \<open>
  C7, amended. The maximum size is 1048576 bytes unless the embedding screen sets another.
  The first version of the picker (\<open>handleFile\<close>) first rejects a file larger than the
  maximum and then a file whose MIME type does not start with \<open>image/\<close>, each with exactly
  one error event and no file-selected event; a file passing both produces exactly one
  file-selected event. The second version (\<open>validateAndProcessFile\<close>) first rejects a
  file whose MIME type does not start with \<open>image/\<close> and then a file larger than the
  maximum, each with one error toast and no event; a file passing both produces exactly
  one file-selected event, with the modal type, and no toast.
\<close>

theorem picker_validation:
  "default_maxSize = 1048576
   \<and> (file_size f > maxSize p \<longrightarrow>
        dispatched (handleFile f p) = dispatched p @ [ErrorEvent (SizeExceeded (maxSize p))])
   \<and> (file_size f \<le> maxSize p \<and> \<not> is_image f \<longrightarrow>
        dispatched (handleFile f p) = dispatched p @ [ErrorEvent NotAnImage])
   \<and> (file_size f \<le> maxSize p \<and> is_image f \<longrightarrow>
        dispatched (handleFile f p) = dispatched p @ [FileSelect f None])
   \<and> (\<not> is_image f \<longrightarrow>
        dispatched (snd (validateAndProcessFile f w q)) = dispatched q
        \<and> toasts (fst (validateAndProcessFile f w q)) =
            toasts w @
              [\<lparr>toast_id = toast_seq w, toast_type = Error,
                message = ''Please select an image file''\<rparr>])
   \<and> (is_image f \<and> file_size f > maxSize q \<longrightarrow>
        dispatched (snd (validateAndProcessFile f w q)) = dispatched q
        \<and> toasts (fst (validateAndProcessFile f w q)) =
            toasts w @
              [\<lparr>toast_id = toast_seq w, toast_type = Error,
                message = ''Image size should be less than 1MB''\<rparr>])
   \<and> (is_image f \<and> file_size f \<le> maxSize q \<longrightarrow>
        dispatched (snd (validateAndProcessFile f w q)) =
          dispatched q @ [FileSelect f (Some (modalType q))]
        \<and> toasts (fst (validateAndProcessFile f w q)) = toasts w)"
  by (simp add: handleFile_cases validateAndProcessFile_cases default_maxSize_def)

theorem picker_validation_witness:
  "file_size (an_upload ''image/png'' 2000000) > maxSize mounted_v1
   \<and> dispatched (handleFile (an_upload ''image/png'' 2000000) mounted_v1) =
       [ErrorEvent (SizeExceeded 1048576)]
   \<and> file_size (an_upload ''text/plain'' 10) \<le> maxSize mounted_v1
   \<and> \<not> is_image (an_upload ''text/plain'' 10)
   \<and> dispatched (handleFile (an_upload ''text/plain'' 10) mounted_v1) = [ErrorEvent NotAnImage]
   \<and> is_image (an_upload ''image/png'' 10)
   \<and> dispatched (handleFile (an_upload ''image/png'' 10) mounted_v1) =
       [FileSelect (an_upload ''image/png'' 10) None]
   \<and> toasts (fst (validateAndProcessFile (an_upload ''text/plain'' 10) demo_world mounted_v2)) =
       [\<lparr>toast_id = 0, toast_type = Error, message = ''Please select an image file''\<rparr>]
   \<and> is_image (an_upload ''image/png'' 2000000)
   \<and> file_size (an_upload ''image/png'' 2000000) > maxSize mounted_v2
   \<and> toasts (fst (validateAndProcessFile (an_upload ''image/png'' 2000000)
                    demo_world mounted_v2)) =
       [\<lparr>toast_id = 0, toast_type = Error, message = ''Image size should be less than 1MB''\<rparr>]
   \<and> file_size (an_upload ''image/png'' 10) \<le> maxSize mounted_v2
   \<and> dispatched (snd (validateAndProcessFile (an_upload ''image/png'' 10)
                        demo_world mounted_v2)) =
       [FileSelect (an_upload ''image/png'' 10) (Some ModalAdd)]"
proof -
  have pre:
    "file_size (an_upload ''image/png'' 2000000) > maxSize mounted_v1"
    "file_size (an_upload ''text/plain'' 10) \<le> maxSize mounted_v1"
    "\<not> is_image (an_upload ''text/plain'' 10)"
    "is_image (an_upload ''image/png'' 10)"
    "file_size (an_upload ''image/png'' 10) \<le> maxSize mounted_v1"
    "is_image (an_upload ''image/png'' 2000000)"
    "file_size (an_upload ''image/png'' 2000000) > maxSize mounted_v2"
    "file_size (an_upload ''image/png'' 10) \<le> maxSize mounted_v2"
    by (simp_all add: an_upload_def mounted_v1_def mounted_v2_def default_maxSize_def
        is_image_def)
  have st:
    "maxSize mounted_v1 = 1048576" "dispatched mounted_v1 = []" "dispatched mounted_v2 = []"
    "modalType mounted_v2 = ModalAdd" "toasts demo_world = []" "toast_seq demo_world = 0"
    by (simp_all add: mounted_v1_def mounted_v2_def default_maxSize_def demo_world_def)
  show ?thesis
    using pre
      picker_validation [where f = "an_upload ''image/png'' 2000000" and p = mounted_v1 and w = demo_world
        and q = mounted_v2]
      picker_validation [where f = "an_upload ''text/plain'' 10" and p = mounted_v1 and w = demo_world
        and q = mounted_v2]
      picker_validation [where f = "an_upload ''image/png'' 10" and p = mounted_v1 and w = demo_world
        and q = mounted_v2]
    by (simp add: st)
qed

text \<open>
  C8 does not hold for the page buttons of the sellers screen. With twenty-one sellers,
  the screen is opened and \<open>Next\<close> is clicked twice: page 3 of 3 shows the one seller \<open>a\<close>.
  The delete of \<open>a\<close> is confirmed; the reload counts twenty sellers, so \<open>totalPages\<close> is 2
  while \<open>currentPage\<close> is still 3. \<open>Next\<close> is disabled only where \<open>currentPage\<close> equals
  \<open>totalPages\<close>, so the click for page 4, beyond \<open>totalPages\<close>, is taken: it sets
  \<open>currentPage\<close> to 4 and sends the two selects of a load.
\<close>

theorem sellers_next_beyond_last_page:
  "currentPage (snd sellers_on_page_3) = 3
   \<and> totalPages (snd sellers_on_page_3) = 3
   \<and> error (snd sellers_on_page_3) = None
   \<and> length (sellers (snd sellers_on_page_3)) = 1
   \<and> val_of (sellers (snd sellers_on_page_3) ! 0) ''id'' = VStr ''a''
   \<and> error (snd sellers_after_delete) = None
   \<and> currentPage (snd sellers_after_delete) = 3
   \<and> totalPages (snd sellers_after_delete) = 2
   \<and> sellers (snd sellers_after_delete) = []
   \<and> currentPage (snd (clickNext (fst sellers_after_delete) (snd sellers_after_delete))) = 4
   \<and> totalPages (snd (clickNext (fst sellers_after_delete) (snd sellers_after_delete))) = 2
   \<and> error (snd (clickNext (fst sellers_after_delete) (snd sellers_after_delete))) = None
   \<and> drop (length (requests (fst sellers_after_delete)))
        (requests (fst (clickNext (fst sellers_after_delete) (snd sellers_after_delete)))) =
       [ReqSelect loadSellers_count_query,
        ReqSelect (loadSellers_query ((snd sellers_after_delete)\<lparr>currentPage := 4\<rparr>))]
   \<and> q_range (loadSellers_query ((snd sellers_after_delete)\<lparr>currentPage := 4\<rparr>)) =
       Some (30, 39)"
proof -
  have run:
    "(let (w3, s3) = sellers_on_page_3;
          (w4, s4) = handleDeleteSeller (VStr ''a'') True w3 s3;
          (w5, s5) = clickNext w4 s4
      in (currentPage s3, totalPages s3, error s3, length (sellers s3),
          val_of (sellers s3 ! 0) ''id'',
          error s4, currentPage s4, totalPages s4, sellers s4,
          currentPage s5, totalPages s5, error s5,
          drop (length (requests w4)) (requests w5) =
            [ReqSelect loadSellers_count_query,
             ReqSelect (loadSellers_query (s4\<lparr>currentPage := 4\<rparr>))],
          q_range (loadSellers_query (s4\<lparr>currentPage := 4\<rparr>)))) =
     (3, 3, None, 1, VStr ''a'', None, 3, 2, [], 4, 2, None, True, Some (30, 39))"
    by code_simp
  then show ?thesis
    by (simp add: sellers_after_delete_def split_def Let_def)
qed

lemma validateHexCode_iff:
  "validateHexCode h \<longleftrightarrow>
     (\<exists>ds. h = CHR ''#'' # ds \<and> (length ds = 3 \<or> length ds = 6) \<and>
           (\<forall>c \<in> set ds. c \<in> set ''ABCDEFabcdef0123456789''))"
  unfolding is_hex_digit_def [symmetric]
  by (cases h) (auto simp: validateHexCode_def list_all_iff)

lemma validateHexCode_examples:
  "validateHexCode ''#FFF''" "validateHexCode ''#ffffff''" "\<not> validateHexCode ''FFFFFF''"
  "\<not> validateHexCode ''#GGGGGG''" "\<not> validateHexCode ''#12345''"
  by (simp_all add: validateHexCode_def is_hex_digit_def)

lemma handleAddColor_rejects:
  assumes "\<not> validateHexCode (trim (text_of (draft s) ''hex_code''))"
  shows "requests (fst (handleAddColor w s)) = requests w
       \<and> tables (fst (handleAddColor w s)) = tables w
       \<and> snd (handleAddColor w s) = s
       \<and> (\<exists>m. toasts (fst (handleAddColor w s)) =
                 toasts w @ [\<lparr>toast_id = toast_seq w, toast_type = Error, message = m\<rparr>])"
  using assms by (simp add: handleAddColor_def)

lemma handleEditColor_rejects:
  assumes "selected s = Some c" "\<not> validateHexCode (trim (text_of c ''hex_code''))"
  shows "requests (fst (handleEditColor w s)) = requests w
       \<and> tables (fst (handleEditColor w s)) = tables w
       \<and> snd (handleEditColor w s) = s
       \<and> (\<exists>m. toasts (fst (handleEditColor w s)) =
                 toasts w @ [\<lparr>toast_id = toast_seq w, toast_type = Error, message = m\<rparr>])"
  using assms by (simp add: handleEditColor_def)

text \<open>
  C9. \<open>validateHexCode\<close> accepts exactly a hash sign followed by three or by six
  characters of \<open>A-F\<close>, \<open>a-f\<close>, \<open>0-9\<close>: \<open>#FFF\<close> and \<open>#ffffff\<close> pass, \<open>FFFFFF\<close>,
  \<open>#GGGGGG\<close> and \<open>#12345\<close> do not. When the trimmed hex code of the draft (add) or of
  the selected color (edit) is rejected, the handler sends no request, stores nothing,
  leaves the screen as it was and shows one error toast.
\<close>

theorem hex_code_validation:
  "(validateHexCode h \<longleftrightarrow>
      (\<exists>ds. h = CHR ''#'' # ds \<and> (length ds = 3 \<or> length ds = 6) \<and>
            (\<forall>c \<in> set ds. c \<in> set ''ABCDEFabcdef0123456789'')))
   \<and> validateHexCode ''#FFF'' \<and> validateHexCode ''#ffffff''
   \<and> \<not> validateHexCode ''FFFFFF'' \<and> \<not> validateHexCode ''#GGGGGG''
   \<and> \<not> validateHexCode ''#12345''
   \<and> (\<not> validateHexCode (trim (text_of (draft s) ''hex_code'')) \<longrightarrow>
        requests (fst (handleAddColor w s)) = requests w
        \<and> tables (fst (handleAddColor w s)) = tables w
        \<and> snd (handleAddColor w s) = s
        \<and> (\<exists>m. toasts (fst (handleAddColor w s)) =
                  toasts w @ [\<lparr>toast_id = toast_seq w, toast_type = Error, message = m\<rparr>]))
   \<and> (selected s' = Some c \<and> \<not> validateHexCode (trim (text_of c ''hex_code'')) \<longrightarrow>
        requests (fst (handleEditColor w' s')) = requests w'
        \<and> tables (fst (handleEditColor w' s')) = tables w'
        \<and> snd (handleEditColor w' s') = s'
        \<and> (\<exists>m. toasts (fst (handleEditColor w' s')) =
                  toasts w' @ [\<lparr>toast_id = toast_seq w', toast_type = Error, message = m\<rparr>]))"
  using validateHexCode_iff [of h] validateHexCode_examples
    handleAddColor_rejects [of s w] handleEditColor_rejects [of s' c w']
  by blast

theorem hex_code_validation_witness:
  "\<not> validateHexCode (trim (text_of (draft bad_hex_add) ''hex_code''))
   \<and> requests (fst (handleAddColor demo_world bad_hex_add)) = []
   \<and> snd (handleAddColor demo_world bad_hex_add) = bad_hex_add
   \<and> selected bad_hex_edit = Some bad_hex_color
   \<and> \<not> validateHexCode (trim (text_of bad_hex_color ''hex_code''))
   \<and> requests (fst (handleEditColor demo_world bad_hex_edit)) = []
   \<and> snd (handleEditColor demo_world bad_hex_edit) = bad_hex_edit"
proof -
  have a: "\<not> validateHexCode (trim (text_of (draft bad_hex_add) ''hex_code''))"
    by (simp add: bad_hex_add_def bad_hex_color_def init_screen_def text_of_def trim_def
        is_space_def validateHexCode_def)
  have b: "selected bad_hex_edit = Some bad_hex_color"
    by (simp add: bad_hex_edit_def init_screen_def)
  have c: "\<not> validateHexCode (trim (text_of bad_hex_color ''hex_code''))"
    by (simp add: bad_hex_color_def text_of_def trim_def is_space_def validateHexCode_def)
  have d: "requests demo_world = []"
    by (simp add: demo_world_def)
  show ?thesis
    using a b c d
      hex_code_validation [of "''#12345''" bad_hex_add demo_world bad_hex_edit bad_hex_color demo_world]
    by simp
qed

text \<open>
  C10. The variables start at page 1 of 1. A load that succeeds sets \<open>totalPages\<close> to
  the count of matching rows divided by ten and rounded up, with no lower bound, and
  leaves \<open>currentPage\<close> alone: when no row matches, \<open>totalPages\<close> is 0 while
  \<open>currentPage\<close> is still at least 1, so \<open>currentPage \<le> totalPages\<close> fails.
\<close>

theorem empty_result_leaves_zero_pages:
  "currentPage (init_screen d) = 1 \<and> totalPages (init_screen d) = 1
   \<and> currentPage init_sellers = 1 \<and> totalPages init_sellers = 1
   \<and> page_count (Some n) = (int n + 9) div 10
   \<and> (error (snd (fetchBrands w s)) = None \<longrightarrow>
        totalPages (snd (fetchBrands w s)) =
          page_count (Some (length (select_rows w (fetchBrands_query s))))
        \<and> currentPage (snd (fetchBrands w s)) = currentPage s
        \<and> (select_rows w (fetchBrands_query s) = [] \<longrightarrow>
             totalPages (snd (fetchBrands w s)) = 0
             \<and> \<not> currentPage (snd (fetchBrands w s)) \<le> totalPages (snd (fetchBrands w s))))
   \<and> (error (snd (fetchCategories w s)) = None \<longrightarrow>
        totalPages (snd (fetchCategories w s)) =
          page_count (Some (length (select_rows w (fetchCategories_query s))))
        \<and> currentPage (snd (fetchCategories w s)) = currentPage s
        \<and> (select_rows w (fetchCategories_query s) = [] \<longrightarrow>
             totalPages (snd (fetchCategories w s)) = 0
             \<and> \<not> currentPage (snd (fetchCategories w s)) \<le> totalPages (snd (fetchCategories w s))))
   \<and> (error (snd (loadSubcategories w sc)) = None \<longrightarrow>
        totalPages (snd (loadSubcategories w sc)) =
          page_count (Some (length (select_rows w (loadSubcategories_query sc))))
        \<and> currentPage (snd (loadSubcategories w sc)) = currentPage sc
        \<and> (select_rows w (loadSubcategories_query sc) = [] \<longrightarrow>
             totalPages (snd (loadSubcategories w sc)) = 0
             \<and> \<not> currentPage (snd (loadSubcategories w sc))
                    \<le> totalPages (snd (loadSubcategories w sc))))
   \<and> (error (snd (fetchAudiences w s)) = None \<longrightarrow>
        totalPages (snd (fetchAudiences w s)) =
          page_count (Some (length (select_rows w (fetchAudiences_query s))))
        \<and> currentPage (snd (fetchAudiences w s)) = currentPage s
        \<and> (select_rows w (fetchAudiences_query s) = [] \<longrightarrow>
             totalPages (snd (fetchAudiences w s)) = 0
             \<and> \<not> currentPage (snd (fetchAudiences w s)) \<le> totalPages (snd (fetchAudiences w s))))
   \<and> (error (snd (fetchColors w s)) = None \<longrightarrow>
        totalPages (snd (fetchColors w s)) =
          page_count (Some (length (select_rows w (fetchColors_query s))))
        \<and> currentPage (snd (fetchColors w s)) = currentPage s
        \<and> (select_rows w (fetchColors_query s) = [] \<longrightarrow>
             totalPages (snd (fetchColors w s)) = 0
             \<and> \<not> currentPage (snd (fetchColors w s)) \<le> totalPages (snd (fetchColors w s))))
   \<and> (error (snd (fetchSizes w s)) = None \<longrightarrow>
        totalPages (snd (fetchSizes w s)) =
          page_count (Some (length (select_rows w (fetchSizes_query s))))
        \<and> currentPage (snd (fetchSizes w s)) = currentPage s
        \<and> (select_rows w (fetchSizes_query s) = [] \<longrightarrow>
             totalPages (snd (fetchSizes w s)) = 0
             \<and> \<not> currentPage (snd (fetchSizes w s)) \<le> totalPages (snd (fetchSizes w s))))
   \<and> (error (snd (loadSellers w ss)) = None \<longrightarrow>
        totalPages (snd (loadSellers w ss)) =
          page_count (Some (length (select_rows w loadSellers_count_query)))
        \<and> currentPage (snd (loadSellers w ss)) = currentPage ss
        \<and> (select_rows w loadSellers_count_query = [] \<longrightarrow>
             totalPages (snd (loadSellers w ss)) = 0
             \<and> \<not> currentPage (snd (loadSellers w ss)) \<le> totalPages (snd (loadSellers w ss))))"
proof -
  have zero: "page_count (Some 0) = 0" and pc: "page_count (Some n) = (int n + 9) div 10"
    by (simp_all add: page_count_def itemsPerPage_def)
  have init: "currentPage (init_screen d) = 1 \<and> totalPages (init_screen d) = 1
      \<and> currentPage init_sellers = 1 \<and> totalPages init_sellers = 1"
    by (simp add: init_screen_def init_sellers_def)
  show ?thesis
    using init pc zero fetchBrands_pages [of w s] fetchCategories_pages [of w s]
      loadSubcategories_pages [of w sc] fetchAudiences_pages [of w s]
      fetchColors_pages [of w s] fetchSizes_pages [of w s] loadSellers_pages [of w ss]
    by (intro conjI impI) simp_all
qed

theorem empty_result_leaves_zero_pages_witness:
  "error (snd (fetchBrands demo_world first_page)) = None
   \<and> select_rows demo_world (fetchBrands_query first_page) = []
   \<and> currentPage (snd (fetchBrands demo_world first_page)) = 1
   \<and> totalPages (snd (fetchBrands demo_world first_page)) = 0
   \<and> error (snd (fetchCategories demo_world first_page)) = None
   \<and> select_rows demo_world (fetchCategories_query first_page) = []
   \<and> totalPages (snd (fetchCategories demo_world first_page)) = 0
   \<and> error (snd (loadSubcategories demo_world init_subcategories)) = None
   \<and> select_rows demo_world (loadSubcategories_query init_subcategories) = []
   \<and> totalPages (snd (loadSubcategories demo_world init_subcategories)) = 0
   \<and> error (snd (fetchAudiences demo_world first_page)) = None
   \<and> select_rows demo_world (fetchAudiences_query first_page) = []
   \<and> totalPages (snd (fetchAudiences demo_world first_page)) = 0
   \<and> error (snd (fetchColors demo_world first_page)) = None
   \<and> select_rows demo_world (fetchColors_query first_page) = []
   \<and> totalPages (snd (fetchColors demo_world first_page)) = 0
   \<and> error (snd (fetchSizes demo_world first_page)) = None
   \<and> select_rows demo_world (fetchSizes_query first_page) = []
   \<and> totalPages (snd (fetchSizes demo_world first_page)) = 0
   \<and> error (snd (loadSellers demo_world init_sellers)) = None
   \<and> select_rows demo_world loadSellers_count_query = []
   \<and> currentPage (snd (loadSellers demo_world init_sellers)) = 1
   \<and> totalPages (snd (loadSellers demo_world init_sellers)) = 0"
proof -
  have ok:
    "error (snd (fetchBrands demo_world first_page)) = None"
    "error (snd (fetchCategories demo_world first_page)) = None"
    "error (snd (loadSubcategories demo_world init_subcategories)) = None"
    "error (snd (fetchAudiences demo_world first_page)) = None"
    "error (snd (fetchColors demo_world first_page)) = None"
    "error (snd (fetchSizes demo_world first_page)) = None"
    "error (snd (loadSellers demo_world init_sellers)) = None"
    by code_simp+
  have none:
    "select_rows demo_world (fetchBrands_query first_page) = []"
    "select_rows demo_world (fetchCategories_query first_page) = []"
    "select_rows demo_world (loadSubcategories_query init_subcategories) = []"
    "select_rows demo_world (fetchAudiences_query first_page) = []"
    "select_rows demo_world (fetchColors_query first_page) = []"
    "select_rows demo_world (fetchSizes_query first_page) = []"
    "select_rows demo_world loadSellers_count_query = []"
    by code_simp+
  have one: "currentPage first_page = 1" "currentPage init_sellers = 1"
    by (simp_all add: first_page_def init_screen_def init_sellers_def)
  show ?thesis
    using ok none one
      empty_result_leaves_zero_pages [of "[]" 0 demo_world first_page init_subcategories init_sellers]
    by simp
qed

end
